theory Spec2Isabelle
  imports Main "HOL-Library.Char_ord" "HOL-Library.List_Lexorder" "HOL-Library.Product_Lexorder"
    "HOL-Library.Code_Target_Nat"
begin

section \<open>Values of the JavaScript runtime\<close>

text \<open>
  The backend is an Express application over a MySQL store, in two files with the same
  routes: \<^verbatim>\<open>api/[...all].js\<close> (the on-demand handler) and
  \<^verbatim>\<open>appointment-database/index.js\<close> (the listening process). Strings are
  \<^typ>\<open>string\<close>; the order on strings is the lexicographic order on character codes,
  which is what JavaScript's \<^verbatim>\<open><\<close> and \<^verbatim>\<open><=\<close> compute on two strings.
\<close>

definition isDigit :: "char \<Rightarrow> bool" where
  "isDigit c = (c \<in> set ''0123456789'')"

definition digitValue :: "char \<Rightarrow> nat" where
  "digitValue c = of_char c - 48"

definition digitChar :: "nat \<Rightarrow> char" where
  "digitChar d = ''0123456789'' ! d"

text \<open>\<^verbatim>\<open>String(n)\<close> for a non-negative integer, and for any integer.\<close>

fun stringOfNat :: "nat \<Rightarrow> string" where
  "stringOfNat n = (if n < 10 then [digitChar n] else stringOfNat (n div 10) @ [digitChar (n mod 10)])"

declare stringOfNat.simps [simp del]

definition stringOfInt :: "int \<Rightarrow> string" where
  "stringOfInt i = (if i < 0 then CHR ''-'' # stringOfNat (nat (- i)) else stringOfNat (nat i))"

text \<open>\<^verbatim>\<open>s.padStart(2, "0")\<close>.\<close>

definition padStart2 :: "string \<Rightarrow> string" where
  "padStart2 s = replicate (2 - length s) CHR ''0'' @ s"

text \<open>
  A character stands for the code unit of its number. The white space that
  \<^verbatim>\<open>trim()\<close>, \<^verbatim>\<open>Number()\<close> and \<^verbatim>\<open>parseInt()\<close> strip is, among these characters, the
  tab, the line feed, the vertical tab, the form feed, the carriage return, the space and
  the no-break space.
\<close>

definition isSpaceChar :: "char \<Rightarrow> bool" where
  "isSpaceChar c = (of_char c \<in> {9, 10, 11, 12, 13, 32, 160 :: nat})"

text \<open>\<^verbatim>\<open>s.trim()\<close>.\<close>

definition trim :: "string \<Rightarrow> string" where
  "trim s = rev (dropWhile isSpaceChar (rev (dropWhile isSpaceChar s)))"

definition digitsValue :: "string \<Rightarrow> nat" where
  "digitsValue s = foldl (\<lambda>a c. 10 * a + digitValue c) 0 s"

text \<open>
  A number of the runtime is a double. \<open>nearestDouble a b\<close> is the double that the
  runtime takes for the fraction \<open>a / b\<close> of a numeric text: the nearest one, and of two
  that are equally near the one with the even significand. The result \<open>(sig, e)\<close> is the
  double \<open>sig * 2 ^ e\<close>, with \<open>sig\<close> of at most 53 bits and \<open>e\<close> from -1074; \<^const>\<open>None\<close>
  is \<^verbatim>\<open>Infinity\<close>, from \<open>2 ^ 1024\<close> on.
\<close>

fun bitLength :: "nat \<Rightarrow> nat" where
  "bitLength n = (if n = 0 then 0 else Suc (bitLength (n div 2)))"

declare bitLength.simps [simp del]

definition nearestDouble :: "nat \<Rightarrow> nat \<Rightarrow> (nat \<times> int) option" where
  "nearestDouble a b =
     (if a = 0 then Some (0, 0)
      else
        (let d = int (bitLength a) - int (bitLength b);
             lg = (if b * 2 ^ nat d \<le> a * 2 ^ nat (- d) then d else d - 1);
             e = max (lg - 52) (- 1074);
             num = a * 2 ^ nat (- e);
             den = b * 2 ^ nat e;
             q = num div den;
             r = num mod den;
             sig = (if den < 2 * r \<or> (2 * r = den \<and> odd q) then q + 1 else q)
         in if 971 < e \<or> (e = 971 \<and> 2 ^ 53 \<le> sig) then None else Some (sig, e)))"

text \<open>The integer that a double is, \<^const>\<open>None\<close> when it has a fractional part.\<close>

definition integerOfDouble :: "nat \<times> int \<Rightarrow> nat option" where
  "integerOfDouble x =
     (case x of (sig, e) \<Rightarrow>
        if 0 \<le> e then Some (sig * 2 ^ nat e)
        else if 2 ^ nat (- e) dvd sig then Some (sig div 2 ^ nat (- e))
        else None)"

text \<open>The integer that the number of the text \<open>m * 10 ^ k\<close> is, if it is one.\<close>

definition integerNumber :: "nat \<Rightarrow> int \<Rightarrow> nat option" where
  "integerNumber m k =
     (case (if 0 \<le> k then nearestDouble (m * 10 ^ nat k) 1 else nearestDouble m (10 ^ nat (- k))) of
        None \<Rightarrow> None
      | Some x \<Rightarrow> integerOfDouble x)"

text \<open>
  An unsigned decimal literal: digits, a point and digits, with a digit on at least one
  side of the point, and an exponent part; its digits without the point and its power of
  ten. \<^const>\<open>None\<close> for a text that is no such literal.
\<close>

definition decimalLiteral :: "string \<Rightarrow> (nat \<times> int) option" where
  "decimalLiteral s =
     (let ip = takeWhile isDigit s;
          r1 = dropWhile isDigit s;
          point = (r1 \<noteq> [] \<and> hd r1 = CHR ''.'');
          fp = (if point then takeWhile isDigit (tl r1) else []);
          r2 = (if point then dropWhile isDigit (tl r1) else r1)
      in if ip = [] \<and> fp = [] then None
         else if r2 = [] then Some (digitsValue (ip @ fp), - int (length fp))
         else if hd r2 = CHR ''e'' \<or> hd r2 = CHR ''E'' then
           (let r3 = tl r2;
                signed = (r3 \<noteq> [] \<and> (hd r3 = CHR ''-'' \<or> hd r3 = CHR ''+''));
                ds = (if signed then tl r3 else r3)
            in if ds \<noteq> [] \<and> list_all isDigit ds
               then Some (digitsValue (ip @ fp),
                          (if signed \<and> hd r3 = CHR ''-'' then - int (digitsValue ds) else int (digitsValue ds))
                            - int (length fp))
               else None)
         else None)"

text \<open>The digits of a literal with the prefix \<^verbatim>\<open>0x\<close>, \<^verbatim>\<open>0o\<close> or \<^verbatim>\<open>0b\<close>.\<close>

definition radixDigit :: "nat \<Rightarrow> char \<Rightarrow> nat option" where
  "radixDigit r c =
     (let v = (if isDigit c then digitValue c
               else if c \<in> set ''abcdef'' then of_char c - 87
               else if c \<in> set ''ABCDEF'' then of_char c - 55
               else 16)
      in if v < r then Some v else None)"

definition radixLiteral :: "nat \<Rightarrow> string \<Rightarrow> nat option" where
  "radixLiteral r s =
     (if s \<noteq> [] \<and> list_all (\<lambda>c. radixDigit r c \<noteq> None) s
      then Some (foldl (\<lambda>a c. r * a + the (radixDigit r c)) 0 s)
      else None)"

text \<open>
  \<^verbatim>\<open>Number(s)\<close> on a string, as far as the program asks for it: the integer that the
  number is, and \<^const>\<open>None\<close> when it is no integer, which is \<^verbatim>\<open>NaN\<close>, a number with a
  fractional part, or an infinity. White space around the text is dropped; the empty
  text is 0; a text with a prefix \<^verbatim>\<open>0x\<close>, \<^verbatim>\<open>0o\<close> or \<^verbatim>\<open>0b\<close> has no sign; the others
  are an optionally signed decimal literal or \<^verbatim>\<open>Infinity\<close>. The value of the text is
  rounded to the nearest double.
\<close>

definition jsNumber :: "string \<Rightarrow> int option" where
  "jsNumber s0 =
     (let s = trim s0;
          radix = (if take 2 s = ''0x'' \<or> take 2 s = ''0X'' then 16
                   else if take 2 s = ''0o'' \<or> take 2 s = ''0O'' then 8
                   else if take 2 s = ''0b'' \<or> take 2 s = ''0B'' then 2 else (10::nat));
          signed = (s \<noteq> [] \<and> (hd s = CHR ''-'' \<or> hd s = CHR ''+''));
          u = (if signed then tl s else s)
      in if s = [] then Some 0
         else if radix \<noteq> 10 then
           (case radixLiteral radix (drop 2 s) of
              None \<Rightarrow> None
            | Some n \<Rightarrow> map_option int (integerNumber n 0))
         else
           (case decimalLiteral u of
              None \<Rightarrow> None
            | Some (m, k) \<Rightarrow>
                map_option (\<lambda>n. if signed \<and> hd s = CHR ''-'' then - int n else int n) (integerNumber m k)))"

text \<open>\<^verbatim>\<open>s.split(":")\<close>: the pieces of \<open>s\<close> between colons, at least one piece.\<close>

fun splitColon :: "string \<Rightarrow> string list" where
  "splitColon [] = [[]]"
| "splitColon (c # cs) =
     (if c = CHR '':'' then [] # splitColon cs
      else (case splitColon cs of p # ps \<Rightarrow> (c # p) # ps | [] \<Rightarrow> [[c]]))"

section \<open>Helpers of the backend\<close>

text \<open>\<^verbatim>\<open>onlyDigits(s)\<close>: \<^verbatim>\<open>String(s || "").replace(/\D/g, "")\<close>.\<close>

definition onlyDigits :: "string \<Rightarrow> string" where
  "onlyDigits s = filter isDigit s"

text \<open>\<^verbatim>\<open>normalizeNANPTo10(raw)\<close>; \<^const>\<open>None\<close> is the \<^verbatim>\<open>null\<close> it returns.\<close>

definition normalizeNANPTo10 :: "string \<Rightarrow> string option" where
  "normalizeNANPTo10 raw =
     (let d = onlyDigits raw in
      if length d = 10 then Some d
      else if length d = 11 \<and> take 1 d = ''1'' then Some (drop 1 d)
      else None)"

text \<open>
  A pattern of digits: \<open>d\<close> in the pattern stands for \<^verbatim>\<open>\d\<close>, every other character
  for itself, and the whole string must match, as the anchored regular expressions of the
  source do.
\<close>

fun matchesDigits :: "string \<Rightarrow> string \<Rightarrow> bool" where
  "matchesDigits [] [] = True"
| "matchesDigits (p # ps) (c # cs) = ((if p = CHR ''d'' then isDigit c else c = p) \<and> matchesDigits ps cs)"
| "matchesDigits _ _ = False"

text \<open>\<^verbatim>\<open>isISODate(s)\<close>: \<^verbatim>\<open>/^\d{4}-\d{2}-\d{2}$/.test(String(s || ""))\<close>.\<close>

definition isISODate :: "string option \<Rightarrow> bool" where
  "isISODate s = matchesDigits ''dddd-dd-dd'' (case s of None \<Rightarrow> [] | Some x \<Rightarrow> x)"

text \<open>\<^verbatim>\<open>normalizeTimeHHMMSS(t)\<close>: "HH:MM" or "HH:MM:SS" to "HH:MM:SS", else \<^verbatim>\<open>null\<close>.\<close>

definition normalizeTimeHHMMSS :: "string option \<Rightarrow> string option" where
  "normalizeTimeHHMMSS t =
     (case t of
        None \<Rightarrow> None
      | Some s \<Rightarrow>
          if s = [] then None
          else if \<not> (matchesDigits ''dd:dd'' s \<or> matchesDigits ''dd:dd:dd'' s) then None
          else if length s = 5 then Some (s @ '':00'') else Some s)"

text \<open>\<^verbatim>\<open>isValidWeekday(n)\<close>, on the number \<^verbatim>\<open>Number(req.params.week_day)\<close>
  (\<^const>\<open>None\<close> when that is not an integer).\<close>

definition isValidWeekday :: "int option \<Rightarrow> bool" where
  "isValidWeekday n = (case n of None \<Rightarrow> False | Some k \<Rightarrow> 1 \<le> k \<and> k \<le> 7)"

text \<open>\<^verbatim>\<open>toHHMM(timeStr)\<close>: \<^verbatim>\<open>String(timeStr || "").slice(0, 5)\<close>.\<close>

definition toHHMM :: "string \<Rightarrow> string" where
  "toHHMM timeStr = take 5 timeStr"

text \<open>JavaScript's \<^verbatim>\<open>%\<close> on integers: the remainder has the sign of the dividend.\<close>

definition jsRem :: "int \<Rightarrow> int \<Rightarrow> int" where
  "jsRem a b = (if a < 0 then - ((- a) mod \<bar>b\<bar>) else a mod \<bar>b\<bar>)"

text \<open>
  \<^verbatim>\<open>addMinutesHHMM(hhmm, mins)\<close>. A missing or non-numeric field makes every number of
  the computation \<^verbatim>\<open>NaN\<close>, and the result the text \<^verbatim>\<open>NaN:NaN\<close>. The fields of the
  texts this function is applied to are integers: the texts come from \<^verbatim>\<open>TIME\<close> values
  of the store and from the function itself. The sum, the quotient and the remainder are
  those of the integers, which is what the runtime computes in its doubles as long as the
  numbers stay below \<open>2 ^ 53\<close>; a number of minutes beyond that is rounded by the runtime
  and, from \<open>10 ^ 21\<close> on, printed with an exponent.
\<close>

definition addMinutesHHMM :: "string \<Rightarrow> int \<Rightarrow> string" where
  "addMinutesHHMM hhmm mins =
     (let parts = map jsNumber (splitColon hhmm);
          H = (case parts of h # _ \<Rightarrow> h | [] \<Rightarrow> None);
          M = (case parts of _ # m # _ \<Rightarrow> m | _ \<Rightarrow> None)
      in case (H, M) of
           (Some h, Some m) \<Rightarrow>
             (let total = h * 60 + m + mins;
                  hh = total div 60;
                  mm = jsRem total 60
              in padStart2 (stringOfInt hh) @ '':'' @ padStart2 (stringOfInt mm))
         | _ \<Rightarrow> ''NaN:NaN'')"

text \<open>
  \<^verbatim>\<open>parseInt(s, 10)\<close> on a query parameter: leading white space, an optional sign, then
  the longest run of digits; \<^verbatim>\<open>NaN\<close> (\<^const>\<open>None\<close>) when there is no digit, and for
  an absent parameter. The result is the value of the digits, which is the number of the
  runtime as long as it is below \<open>2 ^ 53\<close>.
\<close>

definition parseInt10 :: "string option \<Rightarrow> int option" where
  "parseInt10 p =
     (case p of
        None \<Rightarrow> None
      | Some s \<Rightarrow>
          (let t = dropWhile isSpaceChar s;
               neg = (t \<noteq> [] \<and> hd t = CHR ''-'');
               u = (if t \<noteq> [] \<and> (hd t = CHR ''-'' \<or> hd t = CHR ''+'') then tl t else t);
               ds = takeWhile isDigit u
           in if ds = [] then None
              else Some (if neg then - int (digitsValue ds) else int (digitsValue ds))))"

section \<open>The clock of the runtime\<close>

text \<open>
  \<^verbatim>\<open>Date\<close> belongs to the JavaScript runtime and depends on its time zone, so the
  handlers take it as a parameter: the current instant (\<^verbatim>\<open>new Date()\<close>, in
  milliseconds), the instant a date-time text denotes (\<^verbatim>\<open>new Date(s).getTime()\<close>,
  \<^const>\<open>None\<close> for an invalid date, whose time value is \<^verbatim>\<open>NaN\<close>), the text
  \<^verbatim>\<open>toDateString()\<close> of an instant and its \<^verbatim>\<open>getDay()\<close>, from 0 for Sunday to 6.
\<close>

record runtime =
  nowValue :: int
  parseDate :: "string \<Rightarrow> int option"
  dateString :: "int \<Rightarrow> string"
  getDay :: "int \<Rightarrow> nat"

text \<open>\<^verbatim>\<open>d.toDateString()\<close>, also of an invalid date.\<close>

definition toDateString :: "runtime \<Rightarrow> int option \<Rightarrow> string" where
  "toDateString rt v = (case v of None \<Rightarrow> ''Invalid Date'' | Some t \<Rightarrow> dateString rt t)"

text \<open>\<^verbatim>\<open>new Date(s) < new Date()\<close> and \<^verbatim>\<open>new Date(s) > now\<close>: false for an invalid date.\<close>

definition beforeNow :: "runtime \<Rightarrow> string \<Rightarrow> bool" where
  "beforeNow rt s = (case parseDate rt s of None \<Rightarrow> False | Some t \<Rightarrow> t < nowValue rt)"

definition afterNow :: "runtime \<Rightarrow> string \<Rightarrow> bool" where
  "afterNow rt s = (case parseDate rt s of None \<Rightarrow> False | Some t \<Rightarrow> t > nowValue rt)"

text \<open>\<^verbatim>\<open>jsWeekdayMonday1to7(dateISO)\<close>; \<^const>\<open>None\<close> is \<^verbatim>\<open>NaN\<close>.\<close>

definition jsWeekdayMonday1to7 :: "runtime \<Rightarrow> string \<Rightarrow> int option" where
  "jsWeekdayMonday1to7 rt dateISO =
     (case parseDate rt (dateISO @ ''T00:00:00'') of
        None \<Rightarrow> None
      | Some t \<Rightarrow> (let n = getDay rt t in Some (if n = 0 then 7 else int n)))"

text \<open>The test of the availability handler for a request about the current day.\<close>

definition isToday :: "runtime \<Rightarrow> string \<Rightarrow> bool" where
  "isToday rt date =
     (toDateString rt (parseDate rt (date @ ''T00:00:00'')) = toDateString rt (Some (nowValue rt)))"

section \<open>The store\<close>

text \<open>
  A \<^verbatim>\<open>DATE\<close> value is its day number (days since 1970-01-01), a \<^verbatim>\<open>TIME\<close> value its
  signed number of seconds. The driver hands a \<^verbatim>\<open>TIME\<close> to JavaScript as the text
  \<^verbatim>\<open>HH:MM:SS\<close>, with as many hour digits as the value needs and at least two.
\<close>

type_synonym sql_date = int
type_synonym sql_time = int

definition isLeapYear :: "int \<Rightarrow> bool" where
  "isLeapYear y = (y mod 4 = 0 \<and> (y mod 100 \<noteq> 0 \<or> y mod 400 = 0))"

definition daysInMonth :: "int \<Rightarrow> int \<Rightarrow> int" where
  "daysInMonth y m =
     (if m = 2 then (if isLeapYear y then 29 else 28)
      else if m = 4 \<or> m = 6 \<or> m = 9 \<or> m = 11 then 30 else 31)"

text \<open>The day number of a date of the proleptic Gregorian calendar.\<close>

definition daysFromCivil :: "int \<Rightarrow> int \<Rightarrow> int \<Rightarrow> int" where
  "daysFromCivil y m d =
     (let y' = (if m \<le> 2 then y - 1 else y);
          era = y' div 400;
          yoe = y' - era * 400;
          doy = (153 * ((m + 9) mod 12) + 2) div 5 + d - 1;
          doe = yoe * 365 + yoe div 4 - yoe div 100 + doy
      in era * 146097 + doe - 719468)"

text \<open>
  The \<^verbatim>\<open>DATE\<close> a text \<^verbatim>\<open>YYYY-MM-DD\<close> denotes, \<^const>\<open>None\<close> when it denotes no day of
  the calendar. The handlers pass dates to the store in this notation only.
\<close>

definition sqlDate :: "string \<Rightarrow> sql_date option" where
  "sqlDate s =
     (if matchesDigits ''dddd-dd-dd'' s then
        (let y = int (digitsValue (take 4 s));
             m = int (digitsValue (take 2 (drop 5 s)));
             d = int (digitsValue (drop 8 s))
         in if 1 \<le> m \<and> m \<le> 12 \<and> 1 \<le> d \<and> d \<le> daysInMonth y m then Some (daysFromCivil y m d)
            else None)
      else None)"

text \<open>
  The \<^verbatim>\<open>TIME\<close> a text \<^verbatim>\<open>HH:MM\<close> or \<^verbatim>\<open>HH:MM:SS\<close> denotes (\<^verbatim>\<open>TIME(?)\<close> and the time
  literals of the statements), \<^const>\<open>None\<close> when minutes or seconds exceed 59.
\<close>

definition sqlTime :: "string \<Rightarrow> sql_time option" where
  "sqlTime s =
     (if matchesDigits ''dd:dd'' s \<or> matchesDigits ''dd:dd:dd'' s then
        (let h = digitsValue (take 2 s);
             m = digitsValue (take 2 (drop 3 s));
             c = digitsValue (take 2 (drop 6 s))
         in if m < 60 \<and> c < 60 then Some (int (h * 3600 + m * 60 + c)) else None)
      else None)"

text \<open>A \<^verbatim>\<open>TIME\<close> lies between -838:59:59 and 838:59:59; arithmetic stops at the bounds.\<close>

definition clipTime :: "int \<Rightarrow> sql_time" where
  "clipTime n = max (- 3020399) (min 3020399 n)"

definition SEC_TO_TIME :: "int \<Rightarrow> sql_time" where
  "SEC_TO_TIME n = clipTime n"

definition ADDTIME :: "sql_time \<Rightarrow> sql_time \<Rightarrow> sql_time" where
  "ADDTIME a b = clipTime (a + b)"

definition DATEDIFF :: "sql_date \<Rightarrow> sql_date \<Rightarrow> int" where
  "DATEDIFF a b = a - b"

definition renderTime :: "sql_time \<Rightarrow> string" where
  "renderTime t =
     (let a = nat \<bar>t\<bar> in
      (if t < 0 then ''-'' else []) @ padStart2 (stringOfNat (a div 3600)) @ '':''
        @ padStart2 (stringOfNat (a div 60 mod 60)) @ '':'' @ padStart2 (stringOfNat (a mod 60)))"

text \<open>\<^verbatim>\<open>DATE_FORMAT(t, '%H:%i')\<close> of a time of day.\<close>

definition formatHourMinute :: "sql_time \<Rightarrow> string" where
  "formatHourMinute t = take 5 (renderTime t)"

record appointment =
  appt_id :: nat
  appt_name :: string
  appt_phoneNumber :: "string option"
  appt_email :: "string option"
  appt_date :: sql_date
  appt_time :: sql_time
  appt_duration :: int
  appt_type :: string
  appt_comments :: "string option"
  appt_active :: bool
  appt_paid :: bool

record business_hour =
  bh_week_day :: int
  bh_start_time :: "sql_time option"
  bh_end_time :: "sql_time option"
  bh_is_open :: bool

record holiday =
  hh_id :: nat
  hh_start_date :: sql_date
  hh_end_date :: "sql_date option"
  hh_holiday :: string
  hh_comment :: "string option"
  hh_is_open :: bool
  hh_start_time :: "sql_time option"
  hh_end_time :: "sql_time option"

text \<open>
  The tables the handlers below use; \<open>appointments_auto\<close> and \<open>holiday_auto\<close> are the
  \<^verbatim>\<open>AUTO_INCREMENT\<close> counters of the two id columns. \<open>week_day\<close> is the key of
  \<open>business_hours\<close> and \<open>id\<close> the key of the other two tables.
\<close>

record database =
  appointments :: "appointment list"
  appointments_auto :: nat
  business_hours :: "business_hour list"
  holiday_hours :: "holiday list"
  holiday_auto :: nat

text \<open>
  A statement fails when a literal denotes no value of its column's type (the server's
  strict mode) or names a column its table does not have; the handlers answer every
  failed statement with status 500.
\<close>

datatype sql_error = IncorrectValue | BadField string

section \<open>Requests and responses\<close>

text \<open>
  The annotation of an availability answer (\<open>holidayLabel\<close>, \<open>holidayComment\<close>,
  \<open>isOpenOverride\<close>), the answer of the holiday lookup, and the bodies the handlers send.
  A response is its status and its body.
\<close>

record holiday_meta =
  holidayLabel :: "string option"
  holidayComment :: "string option"
  isOpenOverride :: bool

record holiday_view =
  hv_holiday :: string
  hv_comment :: "string option"
  hv_is_open :: bool
  hv_start_time :: "string option"
  hv_end_time :: "string option"

datatype body =
    Message string
  | ErrorText string
  | OkTrue
  | OkId nat
  | Slots string int "string list" "holiday_meta option"
  | HolidayInfo "holiday_view option"
  | AppointmentRow "appointment option"
  | AppointmentRows "appointment list"
  | BusinessHourRows "(int \<times> string option \<times> string option \<times> bool) list"
  | HolidayRows "(holiday \<times> string option \<times> string option) list"

type_synonym response = "nat \<times> body"

text \<open>The query of \<^verbatim>\<open>GET /api/availability\<close>; an absent parameter is \<^const>\<open>None\<close>.\<close>

record availability_query =
  q_date :: "string option"
  q_slotMinutes :: "string option"
  q_excludeId :: "string option"

section \<open>Availability\<close>

text \<open>
  The lookup of the override for a date, the statement \<open>holidaySql\<close>:
  \<^verbatim>\<open>WHERE start_date <= ? AND COALESCE(end_date, start_date) >= ?
  ORDER BY (COALESCE(end_date, start_date) = start_date) DESC,
           DATEDIFF(COALESCE(end_date, start_date), start_date) ASC, id ASC LIMIT 1\<close>.
  The first sort key is 1 for a single-day row and descends, so it is 0 here for such a
  row and 1 for any other, ascending.
\<close>

definition effectiveEnd :: "holiday \<Rightarrow> sql_date" where
  "effectiveEnd h = (case hh_end_date h of None \<Rightarrow> hh_start_date h | Some e \<Rightarrow> e)"

definition holidayOrderKey :: "holiday \<Rightarrow> nat \<times> int \<times> nat" where
  "holidayOrderKey h =
     (if effectiveEnd h = hh_start_date h then 0 else 1,
      DATEDIFF (effectiveEnd h) (hh_start_date h),
      hh_id h)"

definition coversDate :: "sql_date \<Rightarrow> holiday \<Rightarrow> bool" where
  "coversDate d h = (hh_start_date h \<le> d \<and> effectiveEnd h \<ge> d)"

definition holidayQuery :: "database \<Rightarrow> string \<Rightarrow> sql_error + holiday list" where
  "holidayQuery db date =
     (case sqlDate date of
        None \<Rightarrow> Inl IncorrectValue
      | Some d \<Rightarrow> Inr (take 1 (sort_key holidayOrderKey (filter (coversDate d) (holiday_hours db)))))"

text \<open>\<^verbatim>\<open>x || null\<close> on a text column: the empty text becomes \<^verbatim>\<open>null\<close>.\<close>

definition orNull :: "string option \<Rightarrow> string option" where
  "orNull x = (case x of None \<Rightarrow> None | Some s \<Rightarrow> if s = [] then None else Some s)"

definition metaOf :: "holiday \<Rightarrow> bool \<Rightarrow> holiday_meta" where
  "metaOf h ov =
     \<lparr>holidayLabel = orNull (Some (hh_holiday h)), holidayComment = orNull (hh_comment h),
      isOpenOverride = ov\<rparr>"

text \<open>
  The loop that collects the candidates:
  \<^verbatim>\<open>for (let t = start; addMinutesHHMM(t, slotMinutes) <= end; t = addMinutesHHMM(t, slotMinutes))
    candidates.push(t)\<close>.
  The comparison is the one of strings. The loop need not end, so the result is an
  option: \<^const>\<open>None\<close> when it runs forever.
\<close>

partial_function (option) candidateLoop :: "string \<Rightarrow> int \<Rightarrow> string \<Rightarrow> string list \<Rightarrow> string list option" where
  "candidateLoop t slotMinutes wend candidates =
     (if addMinutesHHMM t slotMinutes \<le> wend
      then candidateLoop (addMinutesHHMM t slotMinutes) slotMinutes wend (candidates @ [t])
      else Some candidates)"

declare candidateLoop.simps [code]

text \<open>\<^verbatim>\<open>overlaps(s, e, S, E)\<close>, on strings.\<close>

definition overlaps :: "string \<Rightarrow> string \<Rightarrow> string \<Rightarrow> string \<Rightarrow> bool" where
  "overlaps s e S E = (s < E \<and> e > S)"

text \<open>The rows of \<open>apptSql\<close>, \<^verbatim>\<open>SELECT id, time, duration FROM appointments WHERE date = ?\<close>.\<close>

definition appointmentsOn :: "database \<Rightarrow> string \<Rightarrow> sql_error + appointment list" where
  "appointmentsOn db date =
     (case sqlDate date of
        None \<Rightarrow> Inl IncorrectValue
      | Some d \<Rightarrow> Inr (filter (\<lambda>r. appt_date r = d) (appointments db)))"

text \<open>
  \<open>existing\<close>: start and end text of a stored appointment;
  \<^verbatim>\<open>Number(r.duration) || 0\<close> is the duration itself.
\<close>

definition existingInterval :: "appointment \<Rightarrow> string \<times> string" where
  "existingInterval r =
     (toHHMM (renderTime (appt_time r)),
      addMinutesHHMM (toHHMM (renderTime (appt_time r))) (appt_duration r))"

definition isFree :: "int \<Rightarrow> (string \<times> string) list \<Rightarrow> string \<Rightarrow> bool" where
  "isFree slotMinutes existing t =
     (\<not> list_ex (\<lambda>ex. overlaps t (addMinutesHHMM t slotMinutes) (fst ex) (snd ex)) existing)"

text \<open>
  \<open>handleWithWindow\<close>. The result is \<^const>\<open>None\<close> when the handler never answers. The two
  time arguments are the texts of the columns, \<^const>\<open>None\<close> for \<^verbatim>\<open>NULL\<close>.
\<close>

definition handleWithWindow ::
  "runtime \<Rightarrow> database \<Rightarrow> string \<Rightarrow> int \<Rightarrow> string option \<Rightarrow> string option \<Rightarrow> holiday_meta option
     \<Rightarrow> response option" where
  "handleWithWindow rt db date slotMinutes startTimeStr endTimeStr meta =
     (if orNull startTimeStr = None \<or> orNull endTimeStr = None
      then Some (200, Slots date slotMinutes [] meta)
      else
        (let start = toHHMM (the startTimeStr);
             wend = toHHMM (the endTimeStr)
         in case candidateLoop start slotMinutes wend [] of
              None \<Rightarrow> None
            | Some candidates \<Rightarrow>
                (let future =
                       (if isToday rt date
                        then filter (\<lambda>t. afterNow rt (date @ ''T'' @ t @ '':00'')) candidates
                        else candidates)
                 in if future = [] then Some (200, Slots date slotMinutes [] meta)
                    else
                      (case appointmentsOn db date of
                         Inl _ \<Rightarrow> Some (500, ErrorText ''Database error'')
                       | Inr aRows \<Rightarrow>
                           (let existing = map existingInterval aRows;
                                free = filter (isFree slotMinutes existing) future
                            in Some (200, Slots date slotMinutes free meta))))))"

text \<open>\<open>bizSql\<close>: \<^verbatim>\<open>SELECT start_time, end_time FROM business_hours WHERE week_day = ? LIMIT 1\<close>.
  The driver writes a \<^verbatim>\<open>NaN\<close> parameter as the bare word \<^verbatim>\<open>NaN\<close>, which the server
  reads as the name of a column.\<close>

definition businessHoursQuery :: "database \<Rightarrow> int option \<Rightarrow> sql_error + business_hour list" where
  "businessHoursQuery db weekDay =
     (case weekDay of
        None \<Rightarrow> Inl (BadField ''NaN'')
      | Some w \<Rightarrow> Inr (take 1 (filter (\<lambda>r. bh_week_day r = w) (business_hours db))))"

text \<open>\<^verbatim>\<open>Math.max(5, parseInt(req.query.slotMinutes, 10) || 30)\<close>.\<close>

definition slotMinutesOf :: "availability_query \<Rightarrow> int" where
  "slotMinutesOf q =
     max 5 (case parseInt10 (q_slotMinutes q) of None \<Rightarrow> 30 | Some n \<Rightarrow> if n = 0 then 30 else n)"

text \<open>\<^verbatim>\<open>GET /api/availability\<close>.\<close>

definition getAvailability :: "runtime \<Rightarrow> database \<Rightarrow> availability_query \<Rightarrow> response option" where
  "getAvailability rt db q =
     (let slotMinutes = slotMinutesOf q;
          excludeId = parseInt10 (q_excludeId q)
      in if \<not> isISODate (q_date q) then Some (400, ErrorText ''date must be YYYY-MM-DD'')
         else
           (let date = the (q_date q) in
            case holidayQuery db date of
              Inl _ \<Rightarrow> Some (500, ErrorText ''Database error'')
            | Inr hRows \<Rightarrow>
                if hRows \<noteq> [] \<and> \<not> hh_is_open (hd hRows)
                then Some (200, Slots date slotMinutes [] (Some (metaOf (hd hRows) False)))
                else if hRows \<noteq> [] \<and> hh_is_open (hd hRows)
                then handleWithWindow rt db date slotMinutes
                       (map_option renderTime (hh_start_time (hd hRows)))
                       (map_option renderTime (hh_end_time (hd hRows)))
                       (Some (metaOf (hd hRows) True))
                else
                  (case businessHoursQuery db (jsWeekdayMonday1to7 rt date) of
                     Inl _ \<Rightarrow> Some (500, ErrorText ''Database error'')
                   | Inr bRows \<Rightarrow>
                       if bRows = [] then Some (200, Slots date slotMinutes [] None)
                       else handleWithWindow rt db date slotMinutes
                              (map_option renderTime (bh_start_time (hd bRows)))
                              (map_option renderTime (bh_end_time (hd bRows)))
                              None)))"

section \<open>The public holiday lookup\<close>

text \<open>
  \<^verbatim>\<open>GET /api/holiday-info\<close> of the on-demand handler (\<^verbatim>\<open>api/[...all].js\<close>): the
  statement is the one of the availability handler, with the times formatted by
  \<^verbatim>\<open>DATE_FORMAT(.., '%H:%i')\<close>.
\<close>

definition viewOf :: "holiday \<Rightarrow> holiday_view" where
  "viewOf h =
     \<lparr>hv_holiday = hh_holiday h, hv_comment = hh_comment h, hv_is_open = hh_is_open h,
      hv_start_time = map_option formatHourMinute (hh_start_time h),
      hv_end_time = map_option formatHourMinute (hh_end_time h)\<rparr>"

definition holidayInfoServerless :: "database \<Rightarrow> string option \<Rightarrow> response" where
  "holidayInfoServerless db date =
     (if \<not> isISODate date then (400, ErrorText ''date must be YYYY-MM-DD'')
      else
        (case holidayQuery db (the date) of
           Inl _ \<Rightarrow> (500, ErrorText ''Database error'')
         | Inr rows \<Rightarrow>
             if rows = [] then (200, HolidayInfo None)
             else (200, HolidayInfo (Some (viewOf (hd rows))))))"

text \<open>
  Modelled from the spec: the table \<open>holiday_hours\<close>, whose definition is not among the
  sources. Its columns are those of the storage layout (section 6 of the specification),
  which are also the only ones every other statement of both files names.
\<close>

definition holiday_hours_columns :: "string list" where
  "holiday_hours_columns =
     [''id'', ''start_date'', ''end_date'', ''holiday'', ''comment'', ''is_open'',
      ''start_time'', ''end_time'']"

text \<open>
  The statement of the listening process (\<^verbatim>\<open>appointment-database/index.js\<close>) for the
  same route: \<^verbatim>\<open>SELECT ... FROM holiday_hours WHERE date = ? LIMIT 1\<close>. The server
  refuses a statement that names a column the table does not have. Were there such a
  column, the rows would be those whose \<open>date\<close> is the parameter; the layout has no
  rows with one.
\<close>

definition holidayByDateColumn :: "database \<Rightarrow> string \<Rightarrow> sql_error + holiday list" where
  "holidayByDateColumn db date =
     (if ''date'' \<in> set holiday_hours_columns
      then (case sqlDate date of None \<Rightarrow> Inl IncorrectValue | Some d \<Rightarrow> Inr [])
      else Inl (BadField ''date''))"

definition holidayInfoListener :: "database \<Rightarrow> string option \<Rightarrow> response" where
  "holidayInfoListener db date =
     (if \<not> isISODate date then (400, ErrorText ''date must be YYYY-MM-DD'')
      else
        (case holidayByDateColumn db (the date) of
           Inl _ \<Rightarrow> (500, ErrorText ''Database error'')
         | Inr rows \<Rightarrow>
             if rows = [] then (200, HolidayInfo None)
             else (200, HolidayInfo (Some (viewOf (hd rows))))))"

section \<open>Booking an appointment\<close>

text \<open>
  The body of a booking or update request. The text fields are strings or absent; the
  duration is a JSON number or a string (the booking form sends a string, the admin form
  a number); \<open>active\<close> and \<open>paid\<close> are present or not, with their truth value.
\<close>

datatype json_scalar = JString string | JNumber int

record appointment_body =
  b_name :: "string option"
  b_phoneNumber :: "string option"
  b_email :: "string option"
  b_date :: "string option"
  b_time :: "string option"
  b_duration :: "json_scalar option"
  b_type :: "string option"
  b_comments :: "string option"
  b_active :: "bool option"
  b_paid :: "bool option"

text \<open>\<^verbatim>\<open>!x\<close> on a text field and on the duration.\<close>

definition falsy :: "string option \<Rightarrow> bool" where
  "falsy x = (x = None \<or> x = Some [])"

definition falsyScalar :: "json_scalar option \<Rightarrow> bool" where
  "falsyScalar x = (x = None \<or> x = Some (JString []) \<or> x = Some (JNumber 0))"

text \<open>\<^verbatim>\<open>Number(duration)\<close>; \<^const>\<open>None\<close> when it is not an integer.\<close>

definition numberOf :: "json_scalar option \<Rightarrow> int option" where
  "numberOf x = (case x of None \<Rightarrow> None | Some (JNumber n) \<Rightarrow> Some n | Some (JString s) \<Rightarrow> jsNumber s)"

text \<open>What the validation of a request hands to the statements.\<close>

record booking =
  bk_name :: string
  bk_phone10 :: "string option"
  bk_email :: "string option"
  bk_date :: string
  bk_startHHMM :: string
  bk_dur :: int
  bk_type :: string
  bk_comments :: "string option"

text \<open>
  The checks of \<^verbatim>\<open>POST /api/BookAppointment\<close> before its first statement, in the order of
  the source: \<^const>\<open>Inl\<close> is the response of a failed check.
\<close>

definition validateBooking :: "runtime \<Rightarrow> appointment_body \<Rightarrow> response + booking" where
  "validateBooking rt b =
     (if falsy (b_name b) \<or> falsy (b_date b) \<or> falsy (b_time b) \<or> falsyScalar (b_duration b)
         \<or> falsy (b_type b)
      then Inl (400, Message ''Missing required fields'')
      else if numberOf (b_duration b) \<noteq> Some 30 \<and> numberOf (b_duration b) \<noteq> Some 60
      then Inl (400, Message ''Duration must be 30 or 60 minutes'')
      else
        (let phone10 = (if \<not> falsy (b_phoneNumber b) then normalizeNANPTo10 (the (b_phoneNumber b)) else None)
         in if \<not> falsy (b_phoneNumber b) \<and> phone10 = None
            then Inl (400, Message ''Invalid phone number'')
            else
              (let startHHMM = take 5 (the (b_time b)) in
               if \<not> matchesDigits ''dd:dd'' startHHMM \<or> \<not> matchesDigits ''dddd-dd-dd'' (the (b_date b))
               then Inl (400, Message ''Invalid date/time'')
               else if beforeNow rt (the (b_date b) @ ''T'' @ startHHMM)
               then Inl (400, Message ''Appointment cannot be in the past'')
               else Inr \<lparr>bk_name = the (b_name b), bk_phone10 = phone10,
                         bk_email = orNull (b_email b), bk_date = the (b_date b),
                         bk_startHHMM = startHHMM, bk_dur = the (numberOf (b_duration b)),
                         bk_type = the (b_type b), bk_comments = orNull (b_comments b)\<rparr>)))"

text \<open>
  \<open>conflictSql\<close>:
  \<^verbatim>\<open>WHERE date = ? [AND id <> ?] AND TIME(?) < ADDTIME(time, SEC_TO_TIME(duration*60))
  AND ADDTIME(TIME(?), SEC_TO_TIME(?*60)) > time LIMIT 1\<close>.
  A \<^verbatim>\<open>TIME(?)\<close> that is \<^verbatim>\<open>NULL\<close> makes the condition unknown for every row.
\<close>

definition conflictCondition :: "string \<Rightarrow> int \<Rightarrow> appointment \<Rightarrow> bool" where
  "conflictCondition startHHMM dur r =
     (case sqlTime startHHMM of
        None \<Rightarrow> False
      | Some t \<Rightarrow>
          t < ADDTIME (appt_time r) (SEC_TO_TIME (appt_duration r * 60))
          \<and> ADDTIME t (SEC_TO_TIME (dur * 60)) > appt_time r)"

definition conflictQuery ::
  "database \<Rightarrow> string \<Rightarrow> nat option \<Rightarrow> string \<Rightarrow> int \<Rightarrow> sql_error + appointment list" where
  "conflictQuery db date exceptId startHHMM dur =
     (case sqlDate date of
        None \<Rightarrow> Inl IncorrectValue
      | Some d \<Rightarrow>
          Inr (take 1 (filter (\<lambda>r. appt_date r = d \<and> Some (appt_id r) \<noteq> exceptId
                                    \<and> conflictCondition startHHMM dur r)
                 (appointments db))))"

text \<open>The \<^verbatim>\<open>INSERT INTO appointments (...) VALUES (?, ?, ?, ?, ?, ?, ?, ?, 1, 0)\<close>.\<close>

definition insertAppointment :: "database \<Rightarrow> booking \<Rightarrow> sql_error + database" where
  "insertAppointment db bk =
     (case (sqlDate (bk_date bk), sqlTime (bk_startHHMM bk @ '':00'')) of
        (Some d, Some t) \<Rightarrow>
          Inr (db\<lparr>appointments := appointments db @
                     [\<lparr>appt_id = appointments_auto db, appt_name = bk_name bk,
                       appt_phoneNumber = bk_phone10 bk, appt_email = bk_email bk,
                       appt_date = d, appt_time = t, appt_duration = bk_dur bk,
                       appt_type = bk_type bk, appt_comments = bk_comments bk,
                       appt_active = True, appt_paid = False\<rparr>],
                  appointments_auto := Suc (appointments_auto db)\<rparr>)
      | _ \<Rightarrow> Inl IncorrectValue)"

definition storeBooking :: "database \<Rightarrow> booking \<Rightarrow> response \<times> database" where
  "storeBooking db bk =
     (case conflictQuery db (bk_date bk) None (bk_startHHMM bk) (bk_dur bk) of
        Inl _ \<Rightarrow> ((500, Message ''Database error''), db)
      | Inr cRows \<Rightarrow>
          if cRows \<noteq> [] then ((409, Message ''Time conflict with another appointment''), db)
          else
            (case insertAppointment db bk of
               Inl _ \<Rightarrow> ((500, Message ''Database error''), db)
             | Inr db' \<Rightarrow> ((200, Message ''Appointment saved successfully''), db')))"

text \<open>\<^verbatim>\<open>POST /api/BookAppointment\<close>.\<close>

definition bookAppointment :: "runtime \<Rightarrow> database \<Rightarrow> appointment_body \<Rightarrow> response \<times> database" where
  "bookAppointment rt db b =
     (case validateBooking rt b of Inl r \<Rightarrow> (r, db) | Inr bk \<Rightarrow> storeBooking db bk)"

section \<open>Sessions and guards\<close>

text \<open>
  \<^verbatim>\<open>req.session?.user\<close> is the user the login stored, or absent. A guard either answers
  the request (\<^const>\<open>Some\<close> of its response) or calls \<^verbatim>\<open>next()\<close> (\<^const>\<open>None\<close>).
\<close>

record session_user =
  su_id :: nat
  su_email :: string
  su_role :: string

definition requireAuth :: "session_user option \<Rightarrow> response option" where
  "requireAuth u = (case u of Some _ \<Rightarrow> None | None \<Rightarrow> Some (401, Message ''Not authenticated''))"

definition requireRole :: "string \<Rightarrow> session_user option \<Rightarrow> response option" where
  "requireRole role u =
     (case u of
        Some x \<Rightarrow> if su_role x = role then None else Some (403, Message ''Forbidden'')
      | None \<Rightarrow> Some (403, Message ''Forbidden''))"

text \<open>Express runs the functions of a route in order until one answers.\<close>

fun runGuards :: "(session_user option \<Rightarrow> response option) list \<Rightarrow> session_user option \<Rightarrow> response option" where
  "runGuards [] u = None"
| "runGuards (g # gs) u = (case g u of Some r \<Rightarrow> Some r | None \<Rightarrow> runGuards gs u)"

section \<open>Administration of appointments\<close>

text \<open>
  The checks of \<^verbatim>\<open>PUT /api/appointments/:id\<close> before its first statement. The date and
  the time are not matched against a pattern here; the date-time must be a valid one.
\<close>

definition validateUpdate :: "runtime \<Rightarrow> string \<Rightarrow> appointment_body \<Rightarrow> response + nat \<times> booking" where
  "validateUpdate rt idParam b =
     (case jsNumber idParam of
        None \<Rightarrow> Inl (400, Message ''Invalid appointment id'')
      | Some apptId \<Rightarrow>
          if apptId \<le> 0 then Inl (400, Message ''Invalid appointment id'')
          else if falsy (b_name b) \<or> falsy (b_date b) \<or> falsy (b_time b) \<or> falsyScalar (b_duration b)
                  \<or> falsy (b_type b)
          then Inl (400, Message ''Missing required fields'')
          else if numberOf (b_duration b) \<noteq> Some 30 \<and> numberOf (b_duration b) \<noteq> Some 60
          then Inl (400, Message ''Duration must be 30 or 60 minutes'')
          else if \<not> falsy (b_phoneNumber b) \<and> normalizeNANPTo10 (the (b_phoneNumber b)) = None
          then Inl (400, Message ''Invalid phone number'')
          else
            (let phone10 = (if \<not> falsy (b_phoneNumber b) then normalizeNANPTo10 (the (b_phoneNumber b)) else None);
                 startHHMM = take 5 (the (b_time b))
             in if parseDate rt (the (b_date b) @ ''T'' @ startHHMM) = None
                then Inl (400, Message ''Invalid date/time'')
                else if beforeNow rt (the (b_date b) @ ''T'' @ startHHMM)
                then Inl (400, Message ''Appointment cannot be in the past'')
                else Inr (nat apptId,
                          \<lparr>bk_name = the (b_name b), bk_phone10 = phone10,
                           bk_email = orNull (b_email b), bk_date = the (b_date b),
                           bk_startHHMM = startHHMM, bk_dur = the (numberOf (b_duration b)),
                           bk_type = the (b_type b), bk_comments = orNull (b_comments b)\<rparr>)))"

text \<open>
  The \<^verbatim>\<open>UPDATE appointments SET ... WHERE id = ?\<close>: the phone number, \<open>active\<close> and
  \<open>paid\<close> are set only when the request has them.
\<close>

definition updatedRow :: "booking \<Rightarrow> bool option \<Rightarrow> bool option \<Rightarrow> sql_date \<Rightarrow> sql_time \<Rightarrow> appointment \<Rightarrow> appointment" where
  "updatedRow bk active paid d t r =
     r\<lparr>appt_name := bk_name bk, appt_email := bk_email bk, appt_date := d, appt_time := t,
       appt_duration := bk_dur bk, appt_type := bk_type bk, appt_comments := bk_comments bk,
       appt_phoneNumber := (case bk_phone10 bk of None \<Rightarrow> appt_phoneNumber r | Some p \<Rightarrow> Some p),
       appt_active := (case active of None \<Rightarrow> appt_active r | Some a \<Rightarrow> a),
       appt_paid := (case paid of None \<Rightarrow> appt_paid r | Some a \<Rightarrow> a)\<rparr>"

definition updateAppointment ::
  "database \<Rightarrow> nat \<Rightarrow> booking \<Rightarrow> bool option \<Rightarrow> bool option \<Rightarrow> sql_error + database" where
  "updateAppointment db apptId bk active paid =
     (if \<not> list_ex (\<lambda>r. appt_id r = apptId) (appointments db) then Inr db
      else
        (case (sqlDate (bk_date bk), sqlTime (bk_startHHMM bk @ '':00'')) of
           (Some d, Some t) \<Rightarrow>
             Inr (db\<lparr>appointments :=
                        map (\<lambda>r. if appt_id r = apptId then updatedRow bk active paid d t r else r)
                          (appointments db)\<rparr>)
         | _ \<Rightarrow> Inl IncorrectValue))"

definition storeUpdate ::
  "database \<Rightarrow> nat \<Rightarrow> booking \<Rightarrow> bool option \<Rightarrow> bool option \<Rightarrow> response \<times> database" where
  "storeUpdate db apptId bk active paid =
     (case conflictQuery db (bk_date bk) (Some apptId) (bk_startHHMM bk) (bk_dur bk) of
        Inl _ \<Rightarrow> ((500, Message ''Database error''), db)
      | Inr rows \<Rightarrow>
          if rows \<noteq> [] then ((409, Message ''Time conflict with another appointment''), db)
          else
            (case updateAppointment db apptId bk active paid of
               Inl _ \<Rightarrow> ((500, Message ''Failed to update appointment''), db)
             | Inr db' \<Rightarrow>
                 ((200, AppointmentRow (find (\<lambda>r. appt_id r = apptId) (appointments db'))), db')))"

definition putAppointment ::
  "runtime \<Rightarrow> string \<Rightarrow> appointment_body \<Rightarrow> database \<Rightarrow> response \<times> database" where
  "putAppointment rt idParam b db =
     (case validateUpdate rt idParam b of
        Inl r \<Rightarrow> (r, db)
      | Inr (apptId, bk) \<Rightarrow> storeUpdate db apptId bk (b_active b) (b_paid b))"

text \<open>
  \<^verbatim>\<open>GET /api/appointments\<close>. Each query parameter whose name is a column becomes the
  condition \<^verbatim>\<open>column = ?\<close>. How the server compares a column with the text of a
  parameter depends on the column's type and collation, which the sources do not fix:
  \<open>eqCol column text row\<close> is that comparison, a parameter of the model.
\<close>

definition filterColumns :: "string list" where
  "filterColumns =
     [''id'', ''name'', ''phoneNumber'', ''email'', ''date'', ''time'', ''duration'', ''type'',
      ''comments'', ''active'', ''paid'']"

definition limitOf :: "(string \<times> string) list \<Rightarrow> nat option" where
  "limitOf filters =
     (case map_of filters ''limit'' of
        None \<Rightarrow> None
      | Some v \<Rightarrow>
          if v = [] then None
          else (case jsNumber v of None \<Rightarrow> None | Some n \<Rightarrow> if n > 0 then Some (nat n) else None))"

definition listAppointments ::
  "(string \<Rightarrow> string \<Rightarrow> appointment \<Rightarrow> bool) \<Rightarrow> (string \<times> string) list \<Rightarrow> database \<Rightarrow> response \<times> database" where
  "listAppointments eqCol filters db =
     (let conditions = filter (\<lambda>kv. fst kv \<in> set filterColumns) filters;
          rows = filter (\<lambda>r. list_all (\<lambda>kv. eqCol (fst kv) (snd kv) r) conditions) (appointments db);
          ordered = sort_key (\<lambda>r. (appt_date r, appt_time r)) rows
      in ((200, AppointmentRows (case limitOf filters of None \<Rightarrow> ordered | Some n \<Rightarrow> take n ordered)), db))"

section \<open>Administration of the weekly hours\<close>

record business_hours_body =
  bb_is_open :: bool
  bb_start_time :: "string option"
  bb_end_time :: "string option"

definition getBusinessHours :: "database \<Rightarrow> response \<times> database" where
  "getBusinessHours db =
     ((200, BusinessHourRows
         (map (\<lambda>r. (bh_week_day r, map_option formatHourMinute (bh_start_time r),
                     map_option formatHourMinute (bh_end_time r), bh_is_open r))
            (sort_key bh_week_day (business_hours db)))), db)"

text \<open>A time parameter of a statement: \<^verbatim>\<open>null\<close>, or a text that must denote a time.\<close>

definition timeParam :: "string option \<Rightarrow> sql_error + sql_time option" where
  "timeParam p =
     (case p of
        None \<Rightarrow> Inr None
      | Some s \<Rightarrow> (case sqlTime s of None \<Rightarrow> Inl IncorrectValue | Some t \<Rightarrow> Inr (Some t)))"

text \<open>
  \<^verbatim>\<open>INSERT INTO business_hours (week_day, start_time, end_time, is_open) VALUES (?, ?, ?, ?)
  ON DUPLICATE KEY UPDATE start_time = VALUES(start_time), end_time = VALUES(end_time),
  is_open = VALUES(is_open)\<close>.
\<close>

definition upsertBusinessHour :: "database \<Rightarrow> business_hour \<Rightarrow> database" where
  "upsertBusinessHour db row =
     (if list_ex (\<lambda>r. bh_week_day r = bh_week_day row) (business_hours db)
      then db\<lparr>business_hours :=
                 map (\<lambda>r. if bh_week_day r = bh_week_day row then row else r) (business_hours db)\<rparr>
      else db\<lparr>business_hours := business_hours db @ [row]\<rparr>)"

definition putBusinessHours :: "string \<Rightarrow> business_hours_body \<Rightarrow> database \<Rightarrow> response \<times> database" where
  "putBusinessHours dayParam b db =
     (let day = jsNumber dayParam in
      if \<not> isValidWeekday day then ((400, ErrorText ''week_day must be 1..7''), db)
      else
        (let isOpen = bb_is_open b;
             start = normalizeTimeHHMMSS (bb_start_time b);
             endv = normalizeTimeHHMMSS (bb_end_time b)
         in if isOpen \<and> (start = None \<or> endv = None)
            then ((400, ErrorText ''When is_open is true, start_time and end_time are required''), db)
            else if isOpen \<and> the start \<ge> the endv
            then ((400, ErrorText ''start_time must be before end_time''), db)
            else
              (case (timeParam start, timeParam endv) of
                 (Inr st, Inr et) \<Rightarrow>
                   ((200, OkTrue),
                    upsertBusinessHour db
                      \<lparr>bh_week_day = the day, bh_start_time = st, bh_end_time = et, bh_is_open = isOpen\<rparr>)
               | _ \<Rightarrow> ((500, ErrorText ''Failed to save''), db))))"

text \<open>
  \<^verbatim>\<open>DELETE /api/admin/business-hours/:week_day\<close>:
  \<^verbatim>\<open>INSERT INTO business_hours (week_day, is_open) VALUES (?, 0)
  ON DUPLICATE KEY UPDATE is_open = VALUES(is_open)\<close>. A new row has no times.
\<close>

definition closeBusinessHour :: "database \<Rightarrow> int \<Rightarrow> database" where
  "closeBusinessHour db day =
     (if list_ex (\<lambda>r. bh_week_day r = day) (business_hours db)
      then db\<lparr>business_hours :=
                 map (\<lambda>r. if bh_week_day r = day then r\<lparr>bh_is_open := False\<rparr> else r) (business_hours db)\<rparr>
      else db\<lparr>business_hours := business_hours db @
                 [\<lparr>bh_week_day = day, bh_start_time = None, bh_end_time = None, bh_is_open = False\<rparr>]\<rparr>)"

definition deleteBusinessHours :: "string \<Rightarrow> database \<Rightarrow> response \<times> database" where
  "deleteBusinessHours dayParam db =
     (let day = jsNumber dayParam in
      if \<not> isValidWeekday day then ((400, ErrorText ''week_day must be 1..7''), db)
      else ((200, OkTrue), closeBusinessHour db (the day)))"

section \<open>Administration of the holiday overrides\<close>

record holiday_body =
  hb_start_date :: "string option"
  hb_end_date :: "string option"
  hb_holiday :: "string option"
  hb_comment :: "string option"
  hb_is_open :: bool
  hb_start_time :: "string option"
  hb_end_time :: "string option"

text \<open>A date parameter of a statement: \<^verbatim>\<open>null\<close>, or a text that must denote a date.\<close>

definition dateParam :: "string option \<Rightarrow> sql_error + sql_date option" where
  "dateParam p =
     (case p of
        None \<Rightarrow> Inr None
      | Some s \<Rightarrow> (case sqlDate s of None \<Rightarrow> Inl IncorrectValue | Some d \<Rightarrow> Inr (Some d)))"

text \<open>
  The checks that \<^verbatim>\<open>POST /api/admin/holiday-hours\<close> and
  \<^verbatim>\<open>PUT /api/admin/holiday-hours/:id\<close> share; on success, the parameters of the
  statement: start date, end date, label, comment, open flag, start and end time.
\<close>

definition validateHoliday ::
  "holiday_body \<Rightarrow> response + string \<times> string option \<times> string \<times> string option \<times> bool \<times> string option \<times> string option" where
  "validateHoliday b =
     (if \<not> isISODate (hb_start_date b) then Inl (400, ErrorText ''start_date must be YYYY-MM-DD'')
      else if \<not> falsy (hb_end_date b) \<and> \<not> isISODate (hb_end_date b)
      then Inl (400, ErrorText ''end_date must be YYYY-MM-DD'')
      else if falsy (hb_holiday b) \<or> trim (the (hb_holiday b)) = []
      then Inl (400, ErrorText ''holiday is required'')
      else
        (let opn = hb_is_open b;
             st = (if opn then normalizeTimeHHMMSS (hb_start_time b) else None);
             et = (if opn then normalizeTimeHHMMSS (hb_end_time b) else None)
         in if opn \<and> (st = None \<or> et = None)
            then Inl (400, ErrorText ''start_time and end_time required when is_open=true'')
            else if opn \<and> the st \<ge> the et
            then Inl (400, ErrorText ''start_time must be before end_time'')
            else if \<not> falsy (hb_end_date b) \<and> the (hb_end_date b) < the (hb_start_date b)
            then Inl (400, ErrorText ''end_date must be on/after start_date'')
            else Inr (the (hb_start_date b), hb_end_date b, trim (the (hb_holiday b)),
                      (if falsy (hb_comment b) then None else Some (trim (the (hb_comment b)))),
                      opn, st, et)))"

text \<open>The row a statement writes from these parameters, or the error of a literal.\<close>

definition holidayRow ::
  "nat \<Rightarrow> string \<times> string option \<times> string \<times> string option \<times> bool \<times> string option \<times> string option
     \<Rightarrow> sql_error + holiday" where
  "holidayRow i p =
     (case p of (sd, ed, label, cmt, opn, st, et) \<Rightarrow>
        (case (sqlDate sd, dateParam ed, timeParam st, timeParam et) of
           (Some d, Inr e, Inr s, Inr t) \<Rightarrow>
             Inr \<lparr>hh_id = i, hh_start_date = d, hh_end_date = e, hh_holiday = label,
                  hh_comment = cmt, hh_is_open = opn, hh_start_time = s, hh_end_time = t\<rparr>
         | _ \<Rightarrow> Inl IncorrectValue))"

definition postHolidayHours :: "holiday_body \<Rightarrow> database \<Rightarrow> response \<times> database" where
  "postHolidayHours b db =
     (case validateHoliday b of
        Inl r \<Rightarrow> (r, db)
      | Inr p \<Rightarrow>
          (case holidayRow (holiday_auto db) p of
             Inl _ \<Rightarrow> ((500, ErrorText ''Failed to save holiday''), db)
           | Inr row \<Rightarrow>
               ((200, OkId (holiday_auto db)),
                db\<lparr>holiday_hours := holiday_hours db @ [row], holiday_auto := Suc (holiday_auto db)\<rparr>)))"

text \<open>\<^verbatim>\<open>parseInt(req.params.id, 10)\<close> must be a positive integer.\<close>

definition holidayIdOf :: "string \<Rightarrow> nat option" where
  "holidayIdOf idParam =
     (case parseInt10 (Some idParam) of
        None \<Rightarrow> None
      | Some n \<Rightarrow> if n \<le> 0 then None else Some (nat n))"

definition putHolidayHours :: "string \<Rightarrow> holiday_body \<Rightarrow> database \<Rightarrow> response \<times> database" where
  "putHolidayHours idParam b db =
     (case holidayIdOf idParam of
        None \<Rightarrow> ((400, ErrorText ''Invalid id''), db)
      | Some i \<Rightarrow>
          (case validateHoliday b of
             Inl r \<Rightarrow> (r, db)
           | Inr p \<Rightarrow>
               if \<not> list_ex (\<lambda>h. hh_id h = i) (holiday_hours db) then ((404, ErrorText ''Not found''), db)
               else
                 (case holidayRow i p of
                    Inl _ \<Rightarrow> ((500, ErrorText ''Failed to update holiday''), db)
                  | Inr row \<Rightarrow>
                      ((200, OkTrue),
                       db\<lparr>holiday_hours := map (\<lambda>h. if hh_id h = i then row else h) (holiday_hours db)\<rparr>))))"

definition deleteHolidayHours :: "string \<Rightarrow> database \<Rightarrow> response \<times> database" where
  "deleteHolidayHours idParam db =
     (case holidayIdOf idParam of
        None \<Rightarrow> ((400, ErrorText ''Invalid id''), db)
      | Some i \<Rightarrow>
          if \<not> list_ex (\<lambda>h. hh_id h = i) (holiday_hours db) then ((404, ErrorText ''Not found''), db)
          else ((200, OkTrue), db\<lparr>holiday_hours := filter (\<lambda>h. hh_id h \<noteq> i) (holiday_hours db)\<rparr>))"

text \<open>
  \<^verbatim>\<open>GET /api/admin/holiday-hours?from=&to=\<close>:
  \<^verbatim>\<open>WHERE NOT (COALESCE(end_date, start_date) < ? OR start_date > ?)
  ORDER BY start_date ASC, COALESCE(end_date, start_date) ASC, id ASC\<close>; each row goes out
  with its times formatted.
\<close>

definition getHolidayHours :: "string option \<Rightarrow> string option \<Rightarrow> database \<Rightarrow> response \<times> database" where
  "getHolidayHours fromP toP db =
     (if \<not> isISODate fromP \<or> \<not> isISODate toP
      then ((400, ErrorText ''from and to (YYYY-MM-DD) are required''), db)
      else
        (case (sqlDate (the fromP), sqlDate (the toP)) of
           (Some f, Some t) \<Rightarrow>
             ((200, HolidayRows
                 (map (\<lambda>h. (h, map_option formatHourMinute (hh_start_time h),
                             map_option formatHourMinute (hh_end_time h)))
                    (sort_key (\<lambda>h. (hh_start_date h, effectiveEnd h, hh_id h))
                       (filter (\<lambda>h. \<not> (effectiveEnd h < f \<or> hh_start_date h > t)) (holiday_hours db))))),
              db)
         | _ \<Rightarrow> ((500, ErrorText ''Failed to load holiday hours''), db)))"

section \<open>The routes for administrators\<close>

text \<open>
  Every route below is registered as
  \<^verbatim>\<open>app.METHOD(path, requireAuth, requireRole("admin"), handler)\<close>. A request to one of
  them is the route with its parameters. \<open>eqCol\<close> is the comparison of the listing.
\<close>

datatype admin_request =
    PutAppointment string appointment_body
  | GetAppointments "(string \<times> string) list"
  | GetBusinessHours
  | PutBusinessHours string business_hours_body
  | DeleteBusinessHours string
  | GetHolidayHours "string option" "string option"
  | PostHolidayHours holiday_body
  | PutHolidayHours string holiday_body
  | DeleteHolidayHours string

fun adminHandler ::
  "runtime \<Rightarrow> (string \<Rightarrow> string \<Rightarrow> appointment \<Rightarrow> bool) \<Rightarrow> admin_request \<Rightarrow> database \<Rightarrow> response \<times> database" where
  "adminHandler rt eqCol (PutAppointment i b) db = putAppointment rt i b db"
| "adminHandler rt eqCol (GetAppointments filters) db = listAppointments eqCol filters db"
| "adminHandler rt eqCol GetBusinessHours db = getBusinessHours db"
| "adminHandler rt eqCol (PutBusinessHours d b) db = putBusinessHours d b db"
| "adminHandler rt eqCol (DeleteBusinessHours d) db = deleteBusinessHours d db"
| "adminHandler rt eqCol (GetHolidayHours f t) db = getHolidayHours f t db"
| "adminHandler rt eqCol (PostHolidayHours b) db = postHolidayHours b db"
| "adminHandler rt eqCol (PutHolidayHours i b) db = putHolidayHours i b db"
| "adminHandler rt eqCol (DeleteHolidayHours i) db = deleteHolidayHours i db"

definition serveAdmin ::
  "runtime \<Rightarrow> (string \<Rightarrow> string \<Rightarrow> appointment \<Rightarrow> bool) \<Rightarrow> session_user option \<Rightarrow> admin_request
     \<Rightarrow> database \<Rightarrow> response \<times> database" where
  "serveAdmin rt eqCol u req db =
     (case runGuards [requireAuth, requireRole ''admin''] u of
        Some r \<Rightarrow> (r, db)
      | None \<Rightarrow> adminHandler rt eqCol req db)"

section \<open>A reference runtime and sample data\<close>

text \<open>
  A runtime whose clock is UTC, for the examples. It reads the two date-time notations
  the handlers build (\<^verbatim>\<open>YYYY-MM-DDTHH:MM\<close> and \<^verbatim>\<open>YYYY-MM-DDTHH:MM:SS\<close>) the way
  the date parser of V8, the engine of Node.js, does. The parser checks each field against
  a fixed range, the month against 1 to 12 and the day against 1 to 31 whatever the month,
  and hands the fields to \<^verbatim>\<open>MakeDay\<close>, which counts a day beyond the length of its month
  on into the next month: \<^verbatim>\<open>2030-02-30\<close> is read as 2 March 2030. The hour 24 is read
  when minutes and seconds are zero, as the first instant of the next day. A text of
  the two notations with a field out of its range has the time value \<^verbatim>\<open>NaN\<close>. Texts of
  other shapes, some of which the engine reads by rules of its own, do not occur in the
  examples; this runtime takes them as invalid. The day text of an instant is its day
  number, which is all the handlers ask of \<^verbatim>\<open>toDateString()\<close>: whether two of them are
  equal.
\<close>

definition dateInRange :: "string \<Rightarrow> bool" where
  "dateInRange d =
     (let mo = digitsValue (take 2 (drop 5 d));
          dd = digitsValue (take 2 (drop 8 d))
      in 1 \<le> mo \<and> mo \<le> 12 \<and> 1 \<le> dd \<and> dd \<le> 31)"

definition timeInRange :: "string \<Rightarrow> bool" where
  "timeInRange t =
     (let h = digitsValue (take 2 t);
          m = digitsValue (take 2 (drop 3 t));
          c = digitsValue (take 2 (drop 6 t))
      in (h < 24 \<and> m < 60 \<and> c < 60) \<or> (h = 24 \<and> m = 0 \<and> c = 0))"

definition isoDateTimeValue :: "string \<Rightarrow> int option" where
  "isoDateTimeValue s =
     (if matchesDigits ''dddd-dd-ddTdd:dd'' s \<or> matchesDigits ''dddd-dd-ddTdd:dd:dd'' s then
        (let d = take 10 s; t = drop 11 s in
         if dateInRange d \<and> timeInRange t then
           (let y = int (digitsValue (take 4 d));
                mo = int (digitsValue (take 2 (drop 5 d)));
                dd = int (digitsValue (take 2 (drop 8 d)));
                h = digitsValue (take 2 t);
                m = digitsValue (take 2 (drop 3 t));
                c = digitsValue (take 2 (drop 6 t))
            in Some (((daysFromCivil y mo 1 + (dd - 1)) * 86400 + int (h * 3600 + m * 60 + c)) * 1000))
         else None)
      else None)"

definition referenceRuntime :: "int \<Rightarrow> runtime" where
  "referenceRuntime now =
     \<lparr>nowValue = now, parseDate = isoDateTimeValue,
      dateString = (\<lambda>t. stringOfInt (t div 86400000)),
      getDay = (\<lambda>t. nat ((t div 86400000 + 4) mod 7))\<rparr>"

text \<open>The first instant of the year 2030, and an empty store.\<close>

definition newYear2030 :: int where
  "newYear2030 = 21915 * 86400000"

definition emptyStore :: database where
  "emptyStore =
     \<lparr>appointments = [], appointments_auto = 1, business_hours = [], holiday_hours = [],
      holiday_auto = 1\<rparr>"

text \<open>A booking for Monday 2030-01-07 at 10:00, for 60 minutes.\<close>

definition sampleBody :: appointment_body where
  "sampleBody =
     \<lparr>b_name = Some ''Ann'', b_phoneNumber = Some ''(555) 123-4567'', b_email = None,
      b_date = Some ''2030-01-07'', b_time = Some ''10:00'', b_duration = Some (JString ''60''),
      b_type = Some ''checkup'', b_comments = None, b_active = None, b_paid = None\<rparr>"

definition adminUser :: session_user where
  "adminUser = \<lparr>su_id = 1, su_email = ''admin@example.org'', su_role = ''admin''\<rparr>"

definition viewerUser :: session_user where
  "viewerUser = \<lparr>su_id = 2, su_email = ''viewer@example.org'', su_role = ''viewer''\<rparr>"

text \<open>A comparison for the listing that reads the id column only.\<close>

definition sampleEqCol :: "string \<Rightarrow> string \<Rightarrow> appointment \<Rightarrow> bool" where
  "sampleEqCol c v r = (if c = ''id'' then jsNumber v = Some (int (appt_id r)) else True)"

text \<open>A store with an appointment on Monday 2030-01-07 at 10:00 for 60 minutes, and
  weekly hours 09:00 to 17:00 on Mondays and Tuesdays.\<close>

definition storeWithRows :: database where
  "storeWithRows =
     \<lparr>appointments =
        [\<lparr>appt_id = 1, appt_name = ''Ann'', appt_phoneNumber = Some ''5551234567'',
          appt_email = None, appt_date = 21921, appt_time = 36000, appt_duration = 60,
          appt_type = ''checkup'', appt_comments = None, appt_active = True, appt_paid = False\<rparr>],
      appointments_auto = 2,
      business_hours =
        [\<lparr>bh_week_day = 1, bh_start_time = Some 32400, bh_end_time = Some 61200, bh_is_open = True\<rparr>,
         \<lparr>bh_week_day = 2, bh_start_time = Some 32400, bh_end_time = Some 61200, bh_is_open = True\<rparr>],
      holiday_hours = [], holiday_auto = 1\<rparr>"

text \<open>A store whose Monday is marked closed, with the times 09:00 and 11:00 still in
  its row, and a request for the 60-minute slots of Monday 2030-01-07.\<close>

definition closedMonday :: database where
  "closedMonday =
     \<lparr>appointments = [], appointments_auto = 1,
      business_hours =
        [\<lparr>bh_week_day = 1, bh_start_time = Some 32400, bh_end_time = Some 39600, bh_is_open = False\<rparr>],
      holiday_hours = [], holiday_auto = 1\<rparr>"

definition mondayQuery :: availability_query where
  "mondayQuery = \<lparr>q_date = Some ''2030-01-07'', q_slotMinutes = Some ''60'', q_excludeId = None\<rparr>"

text \<open>The store with the \<open>is_open\<close> flag of every weekly row replaced.\<close>

definition setFlags :: "(business_hour \<Rightarrow> bool) \<Rightarrow> database \<Rightarrow> database" where
  "setFlags f db = db\<lparr>business_hours := map (\<lambda>r. r\<lparr>bh_is_open := f r\<rparr>) (business_hours db)\<rparr>"

text \<open>
  The priority among the overrides that cover a date, in the words of the specification:
  a single-day override before a multi-day one, then the smaller day span, then the
  lower id. \<open>specPrefers a b\<close> says that \<open>a\<close> comes strictly before \<open>b\<close>.
\<close>

definition isSingleDay :: "holiday \<Rightarrow> bool" where
  "isSingleDay h = (effectiveEnd h = hh_start_date h)"

definition daySpan :: "holiday \<Rightarrow> int" where
  "daySpan h = effectiveEnd h - hh_start_date h"

definition specPrefers :: "holiday \<Rightarrow> holiday \<Rightarrow> bool" where
  "specPrefers a b =
     ((isSingleDay a \<and> \<not> isSingleDay b)
      \<or> (isSingleDay a = isSingleDay b
          \<and> (daySpan a < daySpan b \<or> (daySpan a = daySpan b \<and> hh_id a < hh_id b))))"

text \<open>
  A store with three overrides that cover Wednesday 2030-12-25: a closure from the 24th to
  the 26th, and two single-day overrides of the 25th, the lower id open from 10:00 to 14:00.
\<close>

definition holidayStore :: database where
  "holidayStore =
     \<lparr>appointments = [], appointments_auto = 1,
      business_hours =
        [\<lparr>bh_week_day = 3, bh_start_time = Some 32400, bh_end_time = Some 61200, bh_is_open = True\<rparr>],
      holiday_hours =
        [\<lparr>hh_id = 1, hh_start_date = 22272, hh_end_date = Some 22274, hh_holiday = ''Winter break'',
          hh_comment = None, hh_is_open = False, hh_start_time = None, hh_end_time = None\<rparr>,
         \<lparr>hh_id = 3, hh_start_date = 22273, hh_end_date = Some 22273, hh_holiday = ''Inventory'',
          hh_comment = None, hh_is_open = False, hh_start_time = None, hh_end_time = None\<rparr>,
         \<lparr>hh_id = 2, hh_start_date = 22273, hh_end_date = None, hh_holiday = ''Christmas'',
          hh_comment = Some ''short day'', hh_is_open = True, hh_start_time = Some 36000,
          hh_end_time = Some 50400\<rparr>],
      holiday_auto = 4\<rparr>"

definition christmasQuery :: availability_query where
  "christmasQuery = \<lparr>q_date = Some ''2030-12-25'', q_slotMinutes = Some ''60'', q_excludeId = None\<rparr>"

text \<open>The sample booking with the hour 99, and with the month 13.\<close>

definition hour99Body :: appointment_body where
  "hour99Body = sampleBody\<lparr>b_time := Some ''99:00''\<rparr>"

definition month13Body :: appointment_body where
  "month13Body = sampleBody\<lparr>b_date := Some ''2030-13-01''\<rparr>"

text \<open>
  The sample booking on two days that no month has: 30 February 2030, and
  31 November 2029, a month before the clock of the examples.
\<close>

definition day30FebruaryBody :: appointment_body where
  "day30FebruaryBody = sampleBody\<lparr>b_date := Some ''2030-02-30''\<rparr>"

definition day31NovemberBody :: appointment_body where
  "day31NovemberBody = sampleBody\<lparr>b_date := Some ''2029-11-31''\<rparr>"

text \<open>What the checks make of the sample booking, and the row the store then holds.\<close>

definition sampleBooking :: booking where
  "sampleBooking =
     \<lparr>bk_name = ''Ann'', bk_phone10 = Some ''5551234567'', bk_email = None, bk_date = ''2030-01-07'',
      bk_startHHMM = ''10:00'', bk_dur = 60, bk_type = ''checkup'', bk_comments = None\<rparr>"

definition sampleRow :: appointment where
  "sampleRow =
     \<lparr>appt_id = 1, appt_name = ''Ann'', appt_phoneNumber = Some ''5551234567'',
      appt_email = None, appt_date = 21921, appt_time = 36000, appt_duration = 60,
      appt_type = ''checkup'', appt_comments = None, appt_active = True, appt_paid = False\<rparr>"

section \<open>The slots of a window, in minutes\<close>

text \<open>
  What the specification says of the availability route, on minutes since midnight: the
  candidate starts of a window from \<open>t\<close> to \<open>e\<close> are \<open>t\<close>, \<open>t + k\<close>, \<open>t + 2k\<close> and so
  on, as long as the candidate's end does not exceed \<open>e\<close>; a candidate is free when its
  interval overlaps no stored appointment of the date. \<open>clockText\<close> is the text
  \<^verbatim>\<open>HH:MM\<close> of a minute count.
\<close>

definition clockText :: "int \<Rightarrow> string" where
  "clockText m = padStart2 (stringOfInt (m div 60)) @ '':'' @ padStart2 (stringOfInt (m mod 60))"

function slotStarts :: "int \<Rightarrow> int \<Rightarrow> int \<Rightarrow> int list" where
  "slotStarts t k e = (if 0 < k \<and> t + k \<le> e then t # slotStarts (t + k) k e else [])"
  by pat_completeness auto
termination
  by (relation "measure (\<lambda>(t, k, e). nat (e - t))") auto

declare slotStarts.simps [simp del]

definition slotIsFree :: "database \<Rightarrow> sql_date \<Rightarrow> int \<Rightarrow> int \<Rightarrow> bool" where
  "slotIsFree db d k c =
     (\<forall>r \<in> set (appointments db). appt_date r = d \<longrightarrow>
        \<not> (c < appt_time r div 60 + appt_duration r \<and> c + k > appt_time r div 60))"

text \<open>The appointments of a date start and end within the hours 0 to 99.\<close>

definition rowsInRange :: "database \<Rightarrow> sql_date \<Rightarrow> bool" where
  "rowsInRange db d =
     (\<forall>r \<in> set (appointments db). appt_date r = d \<longrightarrow>
        0 \<le> appt_time r \<and> appt_time r < 360000 \<and> 0 \<le> appt_duration r
        \<and> appt_time r div 60 + appt_duration r < 6000)"

text \<open>Requests for Monday 2030-01-07 with slots of 30 and of 6000 minutes, and the sample
  store without its appointment.\<close>

definition halfHourQuery :: availability_query where
  "halfHourQuery = \<lparr>q_date = Some ''2030-01-07'', q_slotMinutes = Some ''30'', q_excludeId = None\<rparr>"

definition longSlotQuery :: availability_query where
  "longSlotQuery = \<lparr>q_date = Some ''2030-01-07'', q_slotMinutes = Some ''6000'', q_excludeId = None\<rparr>"

definition storeWithoutAppointments :: database where
  "storeWithoutAppointments = storeWithRows\<lparr>appointments := []\<rparr>"

text \<open>The empty store after an administrator has opened Mondays from 09:00 to 99:59, a
  time the route and the store both accept.\<close>

definition longMonday :: database where
  "longMonday =
     snd (putBusinessHours ''1''
            \<lparr>bb_is_open = True, bb_start_time = Some ''09:00'', bb_end_time = Some ''99:59''\<rparr>
            emptyStore)"

section \<open>Numbers of digit texts\<close>

text \<open>
  A non-empty text of digits is read by \<^verbatim>\<open>Number()\<close> as the double nearest to its
  value, which is the value itself below \<open>2 ^ 53\<close>.
\<close>

lemma jsNumber_empty: "jsNumber [] = Some 0"
  by (simp add: jsNumber_def trim_def)

lemma bitLength_0: "bitLength 0 = 0"
  by (simp add: bitLength.simps[of 0])

lemma bitLength_1: "bitLength (Suc 0) = Suc 0"
  by (subst bitLength.simps) (simp add: bitLength_0)

lemma bitLength_le: "n < 2 ^ k \<Longrightarrow> bitLength n \<le> k"
proof (induction k arbitrary: n)
  case 0
  then show ?case by (simp add: bitLength_0)
next
  case (Suc k)
  show ?case
  proof (cases "n = 0")
    case True
    then show ?thesis by (simp add: bitLength_0)
  next
    case False
    have "n div 2 < 2 ^ k" using Suc.prems by simp
    from Suc.IH[OF this] show ?thesis using False by (simp add: bitLength.simps[of n])
  qed
qed

lemma integerNumber_exact:
  assumes "n < 2 ^ 53"
  shows "integerNumber n 0 = Some n"
proof (cases "n = 0")
  case True
  then show ?thesis by (simp add: integerNumber_def nearestDouble_def integerOfDouble_def)
next
  case False
  define d where "d = int (bitLength n) - int (bitLength 1)"
  define lg where "lg = (if 1 * 2 ^ nat d \<le> n * 2 ^ nat (- d) then d else d - 1)"
  define e where "e = max (lg - 52) (- 1074)"
  note b1 = bitLength_1
  have "bitLength n \<le> 53" using bitLength_le[OF assms] .
  then have "d \<le> 52" by (simp add: d_def b1)
  then have "lg \<le> 52" by (simp add: lg_def)
  then have e: "e \<le> 0" by (simp add: e_def)
  have nd: "nearestDouble n 1 = Some (n * 2 ^ nat (- e), e)"
    unfolding nearestDouble_def Let_def d_def[symmetric] lg_def[symmetric] e_def[symmetric]
    using False e by simp
  have "integerOfDouble (n * 2 ^ nat (- e), e) = Some n"
    using e by (simp add: integerOfDouble_def)
  then show ?thesis using nd by (simp add: integerNumber_def)
qed

lemma digit_not_space: "isDigit c \<Longrightarrow> \<not> isSpaceChar c"
  by (auto simp: isDigit_def isSpaceChar_def)

lemma trim_digits:
  assumes "list_all isDigit s"
  shows "trim s = s"
proof (cases s)
  case Nil
  then show ?thesis by (simp add: trim_def)
next
  case (Cons c cs)
  have 1: "dropWhile isSpaceChar s = s"
    using assms Cons digit_not_space by simp
  have "rev s \<noteq> []" using Cons by simp
  moreover have "isDigit (hd (rev s))"
  proof -
    have "last s \<in> set s" using Cons by simp
    then have "isDigit (last s)" using assms by (simp add: list_all_iff)
    then show ?thesis by (simp only: hd_rev)
  qed
  ultimately have 2: "dropWhile isSpaceChar (rev s) = rev s"
    using digit_not_space by (cases "rev s") auto
  show ?thesis by (simp add: trim_def 1 2)
qed

lemma takeWhile_digits: "list_all isDigit s \<Longrightarrow> takeWhile isDigit s = s"
  by (simp add: list_all_iff)

lemma dropWhile_digits: "list_all isDigit s \<Longrightarrow> dropWhile isDigit s = []"
  by (simp add: list_all_iff)

lemma decimalLiteral_digits:
  assumes "list_all isDigit s" "s \<noteq> []"
  shows "decimalLiteral s = Some (digitsValue s, 0)"
  using assms by (simp add: decimalLiteral_def Let_def takeWhile_digits dropWhile_digits)

lemma jsNumber_digits_rounded:
  assumes "list_all isDigit s" "s \<noteq> []"
  shows "jsNumber s = map_option int (integerNumber (digitsValue s) 0)"
proof -
  have t: "trim s = s" by (rule trim_digits[OF assms(1)])
  have sub: "set (take 2 s) \<subseteq> set s" by (rule set_take_subset)
  have nd: "\<And>c. c \<in> set s \<Longrightarrow> isDigit c" using assms(1) by (simp add: list_all_iff)
  have x: "\<not> isDigit CHR ''x''" "\<not> isDigit CHR ''X''" "\<not> isDigit CHR ''o''" "\<not> isDigit CHR ''O''"
    "\<not> isDigit CHR ''b''" "\<not> isDigit CHR ''B''" "\<not> isDigit CHR ''-''" "\<not> isDigit CHR ''+''"
    by (simp_all add: isDigit_def)
  have p: "take 2 s \<noteq> ''0x''" "take 2 s \<noteq> ''0X''" "take 2 s \<noteq> ''0o''" "take 2 s \<noteq> ''0O''"
    "take 2 s \<noteq> ''0b''" "take 2 s \<noteq> ''0B''"
    using sub nd x by (metis list.set_intros(1,2) subsetD)+
  have h: "isDigit (hd s)" using assms by (cases s) simp_all
  then have sg: "hd s \<noteq> CHR ''-''" "hd s \<noteq> CHR ''+''" using x by auto
  show ?thesis
    unfolding jsNumber_def t Let_def
    using assms(2) p sg by (simp add: decimalLiteral_digits[OF assms])
qed

lemma jsNumber_digits:
  assumes "list_all isDigit s" "s \<noteq> []" "digitsValue s < 2 ^ 53"
  shows "jsNumber s = Some (int (digitsValue s))"
  by (simp add: jsNumber_digits_rounded[OF assms(1,2)] integerNumber_exact[OF assms(3)])

lemma integerNumber_top:
  "integerNumber (2 ^ 53) 0 = Some (2 ^ 53)" "integerNumber (2 ^ 53 + 1) 0 = Some (2 ^ 53)"
  by code_simp+

section \<open>Phone numbers\<close>

lemma onlyDigits_digits: "list_all isDigit (onlyDigits s)"
  by (simp add: onlyDigits_def list_all_iff)

lemma normalize_cases:
  "normalizeNANPTo10 raw = Some p \<longleftrightarrow>
     (length (onlyDigits raw) = 10 \<and> p = onlyDigits raw) \<or>
     (length (onlyDigits raw) = 11 \<and> onlyDigits raw = CHR ''1'' # p)"
proof (cases "onlyDigits raw")
  case Nil
  then show ?thesis by (simp add: normalizeNANPTo10_def)
next
  case (Cons c cs)
  have "length (c # cs) = 11 \<Longrightarrow> length (c # cs) \<noteq> 10" by simp
  then show ?thesis unfolding normalizeNANPTo10_def Let_def Cons
    by (cases "length (c # cs) = 10"; cases "length (c # cs) = 11") (simp_all, blast+)
qed

lemma normalize_shape:
  assumes "normalizeNANPTo10 raw = Some p"
  shows "length p = 10 \<and> list_all isDigit p"
proof -
  have d: "list_all isDigit (onlyDigits raw)" by (rule onlyDigits_digits)
  from assms have "(length (onlyDigits raw) = 10 \<and> p = onlyDigits raw) \<or>
     (length (onlyDigits raw) = 11 \<and> onlyDigits raw = CHR ''1'' # p)"
    by (simp only: normalize_cases)
  then show ?thesis
  proof
    assume "length (onlyDigits raw) = 10 \<and> p = onlyDigits raw"
    then show ?thesis using d by simp
  next
    assume a: "length (onlyDigits raw) = 11 \<and> onlyDigits raw = CHR ''1'' # p"
    then have "list_all isDigit (CHR ''1'' # p)" using d by simp
    moreover have "length (CHR ''1'' # p) = 11" using a by metis
    ultimately show ?thesis by simp
  qed
qed

lemma duration_not_falsy:
  "numberOf x = Some 30 \<or> numberOf x = Some 60 \<Longrightarrow> \<not> falsyScalar x"
  by (auto simp: falsyScalar_def numberOf_def jsNumber_empty split: option.splits json_scalar.splits)

lemma validateBooking_bad_phone:
  assumes "\<not> falsy (b_name (b::appointment_body))" "\<not> falsy (b_date b)" "\<not> falsy (b_time b)" "\<not> falsy (b_type b)"
    and "numberOf (b_duration b) = Some 30 \<or> numberOf (b_duration b) = Some 60"
    and "\<not> falsy (b_phoneNumber b)" and "normalizeNANPTo10 (the (b_phoneNumber b)) = None"
  shows "validateBooking rt b = Inl (400, Message ''Invalid phone number'')"
  using assms duration_not_falsy[OF assms(5)] by (auto simp: validateBooking_def Let_def)

lemma validateUpdate_bad_phone:
  assumes "jsNumber i = Some n" "0 < n"
    and "\<not> falsy (b_name (b::appointment_body))" "\<not> falsy (b_date b)" "\<not> falsy (b_time b)" "\<not> falsy (b_type b)"
    and "numberOf (b_duration b) = Some 30 \<or> numberOf (b_duration b) = Some 60"
    and "\<not> falsy (b_phoneNumber b)" and "normalizeNANPTo10 (the (b_phoneNumber b)) = None"
  shows "validateUpdate rt i b = Inl (400, Message ''Invalid phone number'')"
  using assms duration_not_falsy[OF assms(7)] by (auto simp: validateUpdate_def Let_def)

lemma guards_admin: "su_role (x::session_user) = ''admin'' \<Longrightarrow> runGuards [requireAuth, requireRole ''admin''] (Some x) = None"
  by (simp add: requireAuth_def requireRole_def)

text \<open>
  Claim C5. Phone normalization keeps the digits of its input and accepts exactly a
  10-digit result, or an 11-digit result that begins with 1, whose leading 1 it drops;
  the accepted value has 10 digits. A request whose other fields pass the earlier checks
  and whose phone number is present, not empty and not accepted is answered with 400
  "Invalid phone number", by the booking route and by the update route alike, and the
  store stays as it was.
\<close>

theorem phone_normalization:
  "(normalizeNANPTo10 raw = Some p \<longleftrightarrow>
      (length (onlyDigits raw) = 10 \<and> p = onlyDigits raw) \<or>
      (length (onlyDigits raw) = 11 \<and> onlyDigits raw = CHR ''1'' # p))
   \<and> (normalizeNANPTo10 raw = Some p \<longrightarrow> length p = 10 \<and> list_all isDigit p)
   \<and> (\<not> falsy (b_name (b::appointment_body)) \<and> \<not> falsy (b_date b) \<and> \<not> falsy (b_time b) \<and> \<not> falsy (b_type b)
        \<and> (numberOf (b_duration b) = Some 30 \<or> numberOf (b_duration b) = Some 60)
        \<and> b_phoneNumber b = Some raw \<and> raw \<noteq> [] \<and> normalizeNANPTo10 raw = None
      \<longrightarrow> bookAppointment rt db b = ((400, Message ''Invalid phone number''), db)
          \<and> (\<forall>i n (x::session_user). jsNumber i = Some n \<and> 0 < n \<and> su_role x = ''admin'' \<longrightarrow>
                serveAdmin rt eqCol (Some x) (PutAppointment i b) db
                  = ((400, Message ''Invalid phone number''), db)))"
proof (intro conjI impI allI)
  show "normalizeNANPTo10 raw = Some p \<longleftrightarrow>
      (length (onlyDigits raw) = 10 \<and> p = onlyDigits raw) \<or>
      (length (onlyDigits raw) = 11 \<and> onlyDigits raw = CHR ''1'' # p)"
    by (rule normalize_cases)
next
  assume "normalizeNANPTo10 raw = Some p"
  then show "length p = 10" "list_all isDigit p" using normalize_shape by blast+
next
  assume a: "\<not> falsy (b_name b) \<and> \<not> falsy (b_date b) \<and> \<not> falsy (b_time b) \<and> \<not> falsy (b_type b)
        \<and> (numberOf (b_duration b) = Some 30 \<or> numberOf (b_duration b) = Some 60)
        \<and> b_phoneNumber b = Some raw \<and> raw \<noteq> [] \<and> normalizeNANPTo10 raw = None"
  then have ph: "\<not> falsy (b_phoneNumber b)" "normalizeNANPTo10 (the (b_phoneNumber b)) = None"
    by (simp_all add: falsy_def)
  have "validateBooking rt b = Inl (400, Message ''Invalid phone number'')"
    using a ph by (intro validateBooking_bad_phone) simp_all
  then show "bookAppointment rt db b = ((400, Message ''Invalid phone number''), db)"
    by (simp add: bookAppointment_def)
  fix i n and x :: session_user
  assume b: "jsNumber i = Some n \<and> 0 < n \<and> su_role x = ''admin''"
  have "validateUpdate rt i b = Inl (400, Message ''Invalid phone number'')"
    using a b ph by (intro validateUpdate_bad_phone[where n = n]) simp_all
  then show "serveAdmin rt eqCol (Some x) (PutAppointment i b) db
                  = ((400, Message ''Invalid phone number''), db)"
    using b by (simp add: serveAdmin_def guards_admin putAppointment_def del: runGuards.simps)
qed

theorem phone_normalization_witness:
  "normalizeNANPTo10 ''(555) 123-4567'' = Some ''5551234567''
   \<and> normalizeNANPTo10 ''5551234567'' = Some ''5551234567''
   \<and> normalizeNANPTo10 ''15551234567'' = Some ''5551234567''
   \<and> normalizeNANPTo10 ''555-12'' = None
   \<and> bookAppointment (referenceRuntime newYear2030) emptyStore (sampleBody\<lparr>b_phoneNumber := Some ''555-12''\<rparr>)
       = ((400, Message ''Invalid phone number''), emptyStore)
   \<and> serveAdmin (referenceRuntime newYear2030) sampleEqCol (Some adminUser)
         (PutAppointment ''1'' (sampleBody\<lparr>b_phoneNumber := Some ''555-12''\<rparr>)) emptyStore
       = ((400, Message ''Invalid phone number''), emptyStore)"
proof -
  have a: "length (onlyDigits ''(555) 123-4567'') = 10 \<and> ''5551234567'' = onlyDigits ''(555) 123-4567''"
    by code_simp
  have b: "length (onlyDigits ''5551234567'') = 10 \<and> ''5551234567'' = onlyDigits ''5551234567''"
    by code_simp
  have c: "length (onlyDigits ''15551234567'') = 11 \<and> onlyDigits ''15551234567'' = CHR ''1'' # ''5551234567''"
    by code_simp
  have n: "normalizeNANPTo10 ''555-12'' = None"
    by code_simp
  let ?b = "sampleBody\<lparr>b_phoneNumber := Some ''555-12''\<rparr>"
  have h: "\<not> falsy (b_name ?b) \<and> \<not> falsy (b_date ?b) \<and> \<not> falsy (b_time ?b) \<and> \<not> falsy (b_type ?b)
        \<and> (numberOf (b_duration ?b) = Some 30 \<or> numberOf (b_duration ?b) = Some 60)
        \<and> b_phoneNumber ?b = Some ''555-12'' \<and> ''555-12'' \<noteq> [] \<and> normalizeNANPTo10 ''555-12'' = None"
    by code_simp
  have i: "jsNumber ''1'' = Some 1 \<and> (0::int) < 1 \<and> su_role adminUser = ''admin''"
    by code_simp
  note t = phone_normalization[of "''555-12''" _ ?b "referenceRuntime newYear2030" emptyStore sampleEqCol]
  from t h have k: "bookAppointment (referenceRuntime newYear2030) emptyStore ?b = ((400, Message ''Invalid phone number''), emptyStore)"
    by blast
  from t h i have l: "serveAdmin (referenceRuntime newYear2030) sampleEqCol (Some adminUser) (PutAppointment ''1'' ?b) emptyStore
       = ((400, Message ''Invalid phone number''), emptyStore)"
    by blast
  show ?thesis
    using phone_normalization[of "''(555) 123-4567''" "''5551234567''"] a
          phone_normalization[of "''5551234567''" "''5551234567''"] b
          phone_normalization[of "''15551234567''" "''5551234567''"] c n k l
    by blast
qed

section \<open>Guards of the routes for administrators\<close>

lemma guards_absent:
  "runGuards [requireAuth, requireRole ''admin''] None = Some (401, Message ''Not authenticated'')"
  by (simp add: requireAuth_def)

lemma guards_other_role:
  "su_role (x::session_user) \<noteq> ''admin'' \<Longrightarrow>
   runGuards [requireAuth, requireRole ''admin''] (Some x) = Some (403, Message ''Forbidden'')"
  by (simp add: requireAuth_def requireRole_def)

text \<open>
  Claim C6. A request to any route for administrators that carries no session user is
  answered with 401 "Not authenticated", and one whose user has a role other than
  "admin" with 403 "Forbidden". The answer is the same whatever the store holds and
  whatever the request asks, and the store is returned as it was: the handler of the
  route is not run.
\<close>

theorem admin_guards:
  "serveAdmin rt eqCol None req db = ((401, Message ''Not authenticated''), db)
   \<and> (su_role (x::session_user) \<noteq> ''admin'' \<longrightarrow>
        serveAdmin rt eqCol (Some x) req db = ((403, Message ''Forbidden''), db))"
  by (simp add: serveAdmin_def guards_absent guards_other_role del: runGuards.simps)

theorem admin_guards_witness:
  "serveAdmin (referenceRuntime newYear2030) sampleEqCol (Some viewerUser) (GetAppointments []) storeWithRows
     = ((403, Message ''Forbidden''), storeWithRows)
   \<and> serveAdmin (referenceRuntime newYear2030) sampleEqCol (Some viewerUser) (DeleteBusinessHours ''1'') storeWithRows
     = ((403, Message ''Forbidden''), storeWithRows)
   \<and> serveAdmin (referenceRuntime newYear2030) sampleEqCol None (DeleteBusinessHours ''1'') storeWithRows
     = ((401, Message ''Not authenticated''), storeWithRows)"
proof -
  have v: "su_role viewerUser \<noteq> ''admin''" by (simp add: viewerUser_def)
  show ?thesis
    using admin_guards[of "referenceRuntime newYear2030" sampleEqCol "GetAppointments []" storeWithRows viewerUser]
      admin_guards[of "referenceRuntime newYear2030" sampleEqCol "DeleteBusinessHours ''1''" storeWithRows viewerUser] v
    by blast
qed

section \<open>Closing a weekday\<close>

lemma closeBusinessHour_day:
  "filter (\<lambda>r. bh_week_day r = day) (business_hours (closeBusinessHour db day)) =
    (if list_ex (\<lambda>r. bh_week_day r = day) (business_hours db)
     then map (\<lambda>r. r\<lparr>bh_is_open := False\<rparr>) (filter (\<lambda>r. bh_week_day r = day) (business_hours db))
     else [\<lparr>bh_week_day = day, bh_start_time = None, bh_end_time = None, bh_is_open = False\<rparr>])"
proof -
  have m: "filter (\<lambda>r. bh_week_day r = day) (map (\<lambda>r. if bh_week_day r = day then r\<lparr>bh_is_open := False\<rparr> else r) xs)
      = map (\<lambda>r. r\<lparr>bh_is_open := False\<rparr>) (filter (\<lambda>r. bh_week_day r = day) xs)" for xs
    by (induction xs) auto
  have n: "\<not> list_ex (\<lambda>r. bh_week_day r = day) xs \<Longrightarrow> filter (\<lambda>r. bh_week_day r = day) xs = []" for xs :: "business_hour list"
    by (induction xs) auto
  show ?thesis by (simp add: closeBusinessHour_def m n)
qed

lemma closeBusinessHour_other:
  "d \<noteq> day \<Longrightarrow> filter (\<lambda>r. bh_week_day r = d) (business_hours (closeBusinessHour db day)) =
     filter (\<lambda>r. bh_week_day r = d) (business_hours db)"
proof -
  assume d: "d \<noteq> day"
  have m: "filter (\<lambda>r. bh_week_day r = d) (map (\<lambda>r. if bh_week_day r = day then r\<lparr>bh_is_open := False\<rparr> else r) xs)
      = filter (\<lambda>r. bh_week_day r = d) xs" for xs
    using d by (induction xs) auto
  show ?thesis using d by (simp add: closeBusinessHour_def m)
qed

lemma closeBusinessHour_frame:
  "appointments (closeBusinessHour db day) = appointments db
   \<and> appointments_auto (closeBusinessHour db day) = appointments_auto db
   \<and> holiday_hours (closeBusinessHour db day) = holiday_hours db
   \<and> holiday_auto (closeBusinessHour db day) = holiday_auto db
   \<and> length (business_hours db) \<le> length (business_hours (closeBusinessHour db day))"
  by (simp add: closeBusinessHour_def)

text \<open>
  Claim C7. For an administrator and a weekday from 1 to 7, the DELETE route of the weekly
  hours answers 200 with \<open>ok: true\<close> and removes no row. Afterwards the weekday has
  a row, and each of its rows is closed: they are the rows it had, with their start and
  end times and only \<open>is_open\<close> set to false, or one new closed row without times
  when it had none. The rows of every other weekday and the other tables are unchanged.
\<close>

theorem delete_business_hours_closes:
  assumes "su_role (x::session_user) = ''admin''" and "jsNumber dayParam = Some day"
    and "1 \<le> day" and "day \<le> 7"
  shows "\<exists>db'. serveAdmin rt eqCol (Some x) (DeleteBusinessHours dayParam) db = ((200, OkTrue), db')
     \<and> filter (\<lambda>r. bh_week_day r = day) (business_hours db') =
        (if list_ex (\<lambda>r. bh_week_day r = day) (business_hours db)
         then map (\<lambda>r. r\<lparr>bh_is_open := False\<rparr>) (filter (\<lambda>r. bh_week_day r = day) (business_hours db))
         else [\<lparr>bh_week_day = day, bh_start_time = None, bh_end_time = None, bh_is_open = False\<rparr>])
     \<and> list_ex (\<lambda>r. bh_week_day r = day \<and> \<not> bh_is_open r) (business_hours db')
     \<and> (\<forall>d. d \<noteq> day \<longrightarrow> filter (\<lambda>r. bh_week_day r = d) (business_hours db') =
             filter (\<lambda>r. bh_week_day r = d) (business_hours db))
     \<and> length (business_hours db) \<le> length (business_hours db')
     \<and> appointments db' = appointments db \<and> holiday_hours db' = holiday_hours db"
proof -
  let ?db' = "closeBusinessHour db day"
  have r: "serveAdmin rt eqCol (Some x) (DeleteBusinessHours dayParam) db = ((200, OkTrue), ?db')"
    using assms
    by (simp add: serveAdmin_def guards_admin deleteBusinessHours_def isValidWeekday_def
          del: runGuards.simps)
  have f: "filter (\<lambda>r. bh_week_day r = day) (business_hours ?db') =
        (if list_ex (\<lambda>r. bh_week_day r = day) (business_hours db)
         then map (\<lambda>r. r\<lparr>bh_is_open := False\<rparr>) (filter (\<lambda>r. bh_week_day r = day) (business_hours db))
         else [\<lparr>bh_week_day = day, bh_start_time = None, bh_end_time = None, bh_is_open = False\<rparr>])"
    by (rule closeBusinessHour_day)
  have ne: "list_ex (\<lambda>r. bh_week_day r = day) xs \<Longrightarrow> filter (\<lambda>r. bh_week_day r = day) xs \<noteq> []"
    for xs :: "business_hour list"
    by (induction xs) auto
  have "list_ex (\<lambda>r. \<not> bh_is_open r) (filter (\<lambda>r. bh_week_day r = day) (business_hours ?db'))"
  proof (cases "list_ex (\<lambda>r. bh_week_day r = day) (business_hours db)")
    case True
    then obtain y ys where "filter (\<lambda>r. bh_week_day r = day) (business_hours db) = y # ys"
      using ne[OF True] by (cases "filter (\<lambda>r. bh_week_day r = day) (business_hours db)") auto
    then show ?thesis using True by (simp add: f)
  next
    case False
    then show ?thesis by (simp add: f)
  qed
  then have c: "list_ex (\<lambda>r. bh_week_day r = day \<and> \<not> bh_is_open r) (business_hours ?db')"
    by (auto simp: list_ex_iff)
  show ?thesis
    using r f c closeBusinessHour_other[of _ day db] closeBusinessHour_frame[of db day]
    by blast
qed

theorem delete_business_hours_closes_witness:
  "fst (serveAdmin (referenceRuntime newYear2030) sampleEqCol (Some adminUser)
          (DeleteBusinessHours ''1'') storeWithRows) = (200, OkTrue)
   \<and> filter (\<lambda>r. bh_week_day r = 1)
        (business_hours (snd (serveAdmin (referenceRuntime newYear2030) sampleEqCol (Some adminUser)
          (DeleteBusinessHours ''1'') storeWithRows)))
      = [\<lparr>bh_week_day = 1, bh_start_time = Some 32400, bh_end_time = Some 61200, bh_is_open = False\<rparr>]
   \<and> filter (\<lambda>r. bh_week_day r = 2)
        (business_hours (snd (serveAdmin (referenceRuntime newYear2030) sampleEqCol (Some adminUser)
          (DeleteBusinessHours ''1'') storeWithRows)))
      = [\<lparr>bh_week_day = 2, bh_start_time = Some 32400, bh_end_time = Some 61200, bh_is_open = True\<rparr>]"
proof -
  let ?rt = "referenceRuntime newYear2030"
  have a: "su_role adminUser = ''admin''" by code_simp
  have n: "jsNumber ''1'' = Some 1" by code_simp
  have b: "(1::int) \<le> 1" "(1::int) \<le> 7" by simp_all
  from delete_business_hours_closes[OF a n b, of ?rt sampleEqCol storeWithRows]
  obtain db' where r: "serveAdmin ?rt sampleEqCol (Some adminUser) (DeleteBusinessHours ''1'') storeWithRows
        = ((200, OkTrue), db')"
    and f: "filter (\<lambda>r. bh_week_day r = 1) (business_hours db') =
        (if list_ex (\<lambda>r. bh_week_day r = 1) (business_hours storeWithRows)
         then map (\<lambda>r. r\<lparr>bh_is_open := False\<rparr>) (filter (\<lambda>r. bh_week_day r = 1) (business_hours storeWithRows))
         else [\<lparr>bh_week_day = 1, bh_start_time = None, bh_end_time = None, bh_is_open = False\<rparr>])"
    and o: "\<forall>d. d \<noteq> 1 \<longrightarrow> filter (\<lambda>r. bh_week_day r = d) (business_hours db') =
             filter (\<lambda>r. bh_week_day r = d) (business_hours storeWithRows)"
    by blast
  have e: "(if list_ex (\<lambda>r. bh_week_day r = 1) (business_hours storeWithRows)
         then map (\<lambda>r. r\<lparr>bh_is_open := False\<rparr>) (filter (\<lambda>r. bh_week_day r = 1) (business_hours storeWithRows))
         else [\<lparr>bh_week_day = 1, bh_start_time = None, bh_end_time = None, bh_is_open = False\<rparr>])
      = [\<lparr>bh_week_day = 1, bh_start_time = Some 32400, bh_end_time = Some 61200, bh_is_open = False\<rparr>]"
    by code_simp
  have e2: "filter (\<lambda>r. bh_week_day r = 2) (business_hours storeWithRows)
      = [\<lparr>bh_week_day = 2, bh_start_time = Some 32400, bh_end_time = Some 61200, bh_is_open = True\<rparr>]"
    by code_simp
  have o2: "filter (\<lambda>r. bh_week_day r = 2) (business_hours db') =
             filter (\<lambda>r. bh_week_day r = 2) (business_hours storeWithRows)"
    using o by simp
  show ?thesis
    unfolding r fst_conv snd_conv f e o2 e2 by simp
qed

section \<open>Availability: what the answer does not depend on\<close>

text \<open>
  Claim C8. The parameter \<open>excludeId\<close> of the availability route has no effect: two
  requests that differ only in it (absent, or with any text) get the same answer from
  the same store, or both get none.
\<close>

theorem excludeId_ignored:
  "getAvailability rt db (q\<lparr>q_excludeId := e\<rparr>) = getAvailability rt db q"
  by (simp add: getAvailability_def slotMinutesOf_def Let_def)

lemma holidayQuery_setFlags: "holidayQuery (setFlags f db) date = holidayQuery db date"
  by (simp add: holidayQuery_def setFlags_def split: option.splits)

lemma appointmentsOn_setFlags: "appointmentsOn (setFlags f db) date = appointmentsOn db date"
  by (simp add: appointmentsOn_def setFlags_def split: option.splits)

lemma handleWithWindow_setFlags:
  "handleWithWindow rt (setFlags f db) date slot s e m = handleWithWindow rt db date slot s e m"
  unfolding handleWithWindow_def appointmentsOn_setFlags by (rule refl)

lemma businessHoursQuery_setFlags:
  "businessHoursQuery (setFlags f db) w =
     (case businessHoursQuery db w of Inl e \<Rightarrow> Inl e | Inr rows \<Rightarrow> Inr (map (\<lambda>r. r\<lparr>bh_is_open := f r\<rparr>) rows))"
proof (cases w)
  case None
  then show ?thesis by (simp add: businessHoursQuery_def)
next
  case (Some k)
  have "filter (\<lambda>r. bh_week_day r = k) (map (\<lambda>r. r\<lparr>bh_is_open := f r\<rparr>) xs)
      = map (\<lambda>r. r\<lparr>bh_is_open := f r\<rparr>) (filter (\<lambda>r. bh_week_day r = k) xs)" for xs
    by (induction xs) auto
  then show ?thesis using Some by (simp add: businessHoursQuery_def setFlags_def take_map)
qed

lemma getAvailability_setFlags: "getAvailability rt (setFlags f db) q = getAvailability rt db q"
proof -
  have bq: "(case businessHoursQuery (setFlags f db) w of
           Inl _ \<Rightarrow> Some (500, ErrorText ''Database error'')
         | Inr bRows \<Rightarrow>
             if bRows = [] then Some (200, Slots d n [] None)
             else handleWithWindow rt db d n
                    (map_option renderTime (bh_start_time (hd bRows)))
                    (map_option renderTime (bh_end_time (hd bRows))) None)
      = (case businessHoursQuery db w of
           Inl _ \<Rightarrow> Some (500, ErrorText ''Database error'')
         | Inr bRows \<Rightarrow>
             if bRows = [] then Some (200, Slots d n [] None)
             else handleWithWindow rt db d n
                    (map_option renderTime (bh_start_time (hd bRows)))
                    (map_option renderTime (bh_end_time (hd bRows))) None)" for w d n
    by (cases "businessHoursQuery db w")
       (simp_all add: businessHoursQuery_setFlags handleWithWindow_setFlags hd_map del: map_option_eq_Some)
  show ?thesis
    unfolding getAvailability_def holidayQuery_setFlags handleWithWindow_setFlags bq by (rule refl)
qed

text \<open>
  Claim C9. The availability route never consults the \<open>is_open\<close> flag of the weekly
  hours: replacing the flags of all weekly rows changes no answer. When no holiday
  override applies to the date, the answer is the one of the window given by the start
  and end time of the weekday's row alone, so a weekday marked closed whose times are
  both present yields the slots of that window as if it were open.
\<close>

theorem weekly_flag_not_consulted:
  "getAvailability rt (setFlags f db) q = getAvailability rt db q
   \<and> (isISODate (q_date q) \<and> holidayQuery db (the (q_date q)) = Inr []
        \<and> businessHoursQuery db (jsWeekdayMonday1to7 rt (the (q_date q))) = Inr [row]
      \<longrightarrow> getAvailability rt db q =
            handleWithWindow rt db (the (q_date q)) (slotMinutesOf q)
              (map_option renderTime (bh_start_time row)) (map_option renderTime (bh_end_time row)) None)"
  by (simp add: getAvailability_setFlags) (simp add: getAvailability_def Let_def)

theorem weekly_flag_not_consulted_witness:
  "getAvailability (referenceRuntime newYear2030) closedMonday mondayQuery
     = Some (200, Slots ''2030-01-07'' 60 [''09:00'', ''10:00''] None)
   \<and> getAvailability (referenceRuntime newYear2030) (setFlags (\<lambda>r. True) closedMonday) mondayQuery
     = Some (200, Slots ''2030-01-07'' 60 [''09:00'', ''10:00''] None)
   \<and> bh_is_open (hd (business_hours closedMonday)) = False"
proof -
  let ?rt = "referenceRuntime newYear2030"
  let ?row = "\<lparr>bh_week_day = 1, bh_start_time = Some 32400, bh_end_time = Some 39600, bh_is_open = False\<rparr>"
  have h: "isISODate (q_date mondayQuery) \<and> holidayQuery closedMonday (the (q_date mondayQuery)) = Inr []
        \<and> businessHoursQuery closedMonday (jsWeekdayMonday1to7 ?rt (the (q_date mondayQuery))) = Inr [?row]"
    by code_simp
  have w: "handleWithWindow ?rt closedMonday (the (q_date mondayQuery)) (slotMinutesOf mondayQuery)
              (map_option renderTime (bh_start_time ?row)) (map_option renderTime (bh_end_time ?row)) None
           = Some (200, Slots ''2030-01-07'' 60 [''09:00'', ''10:00''] None)"
    by code_simp
  have c: "bh_is_open (hd (business_hours closedMonday)) = False"
    by code_simp
  note t = weekly_flag_not_consulted[of ?rt "\<lambda>r. True" closedMonday mondayQuery ?row]
  from t h w have 1: "getAvailability ?rt closedMonday mondayQuery
     = Some (200, Slots ''2030-01-07'' 60 [''09:00'', ''10:00''] None)" by metis
  with t have 2: "getAvailability ?rt (setFlags (\<lambda>r. True) closedMonday) mondayQuery
     = Some (200, Slots ''2030-01-07'' 60 [''09:00'', ''10:00''] None)" by metis
  from 1 2 c show ?thesis by blast
qed

section \<open>The override that applies to a date\<close>

lemma key_less_iff:
  "holidayOrderKey a < holidayOrderKey b \<longleftrightarrow> specPrefers a b"
  by (auto simp: holidayOrderKey_def specPrefers_def isSingleDay_def daySpan_def DATEDIFF_def)

lemma key_eq_id: "holidayOrderKey a = holidayOrderKey b \<Longrightarrow> hh_id a = hh_id b"
  by (simp add: holidayOrderKey_def)

lemma key_le_single:
  "holidayOrderKey a \<le> holidayOrderKey b \<Longrightarrow> isSingleDay b \<Longrightarrow> isSingleDay a"
  by (auto simp: holidayOrderKey_def isSingleDay_def split: if_splits)

lemma first_of_sorted:
  assumes "xs \<noteq> []"
  shows "\<exists>r. take 1 (sort_key f xs) = [r] \<and> r \<in> set xs \<and> (\<forall>h \<in> set xs. f r \<le> f h)"
proof -
  let ?s = "sort_key f xs"
  have ne: "?s \<noteq> []" using assms by (metis length_sort length_0_conv)
  then obtain r rs where s: "?s = r # rs" by (cases ?s) auto
  have "sorted (map f ?s)" by (rule sorted_sort_key)
  then have "\<forall>h \<in> set rs. f r \<le> f h" by (simp add: s)
  moreover have "set ?s = set xs" by simp
  ultimately show ?thesis using s by (metis list.set_intros(1) order_refl set_ConsD take0 take_Suc_Cons One_nat_def)
qed

lemma holidayQuery_selects:
  assumes "sqlDate date = Some d" and "\<exists>h \<in> set (holiday_hours db). coversDate d h"
  shows "\<exists>r. holidayQuery db date = Inr [r] \<and> r \<in> set (holiday_hours db) \<and> coversDate d r
           \<and> (\<forall>h \<in> set (holiday_hours db). coversDate d h \<longrightarrow> holidayOrderKey r \<le> holidayOrderKey h)"
proof -
  let ?xs = "filter (coversDate d) (holiday_hours db)"
  have "?xs \<noteq> []" using assms(2) by (simp add: filter_empty_conv)
  from first_of_sorted[OF this, of holidayOrderKey]
  obtain r where "take 1 (sort_key holidayOrderKey ?xs) = [r]" "r \<in> set ?xs"
      "\<forall>h \<in> set ?xs. holidayOrderKey r \<le> holidayOrderKey h" by blast
  then show ?thesis using assms(1) by (auto simp: holidayQuery_def)
qed

lemma holidayQuery_none:
  assumes "sqlDate date = Some d" and "\<not> (\<exists>h \<in> set (holiday_hours db). coversDate d h)"
  shows "holidayQuery db date = Inr []"
proof -
  have "filter (coversDate d) (holiday_hours db) = []" using assms(2) by (simp add: filter_empty_conv)
  then show ?thesis using assms(1) by (simp add: holidayQuery_def)
qed

text \<open>
  Claim C4. For a date the store reads as a day of the calendar, the lookup of the
  availability route and of the holiday route of the on-demand handler finds no row when
  no override covers the date, and otherwise exactly one row, which covers the date and
  comes before every covering row of another id in the priority order: single-day before
  multi-day, then the smaller day span, then the lower id. So when a single-day override
  covers the date, the row found is a single-day one. Its settings are the answer of
  the holiday route, and they decide the answer of the availability route: no slots when
  it is closed, the slots of its own window when it is open.
\<close>

theorem holiday_priority:
  assumes "sqlDate date = Some d"
  shows "(\<not> (\<exists>h \<in> set (holiday_hours db). coversDate d h) \<longrightarrow>
            holidayQuery db date = Inr []
            \<and> holidayInfoServerless db (Some date) = (200, HolidayInfo None))
       \<and> ((\<exists>h \<in> set (holiday_hours db). coversDate d h) \<longrightarrow>
            (\<exists>r. holidayQuery db date = Inr [r] \<and> r \<in> set (holiday_hours db) \<and> coversDate d r
               \<and> (\<forall>h \<in> set (holiday_hours db). coversDate d h \<and> hh_id h \<noteq> hh_id r \<longrightarrow> specPrefers r h)
               \<and> ((\<exists>h \<in> set (holiday_hours db). coversDate d h \<and> isSingleDay h) \<longrightarrow> isSingleDay r)
               \<and> holidayInfoServerless db (Some date) = (200, HolidayInfo (Some (viewOf r)))
               \<and> getAvailability rt db \<lparr>q_date = Some date, q_slotMinutes = sm, q_excludeId = ex\<rparr> =
                   (if hh_is_open r
                    then handleWithWindow rt db date
                           (slotMinutesOf \<lparr>q_date = Some date, q_slotMinutes = sm, q_excludeId = ex\<rparr>)
                           (map_option renderTime (hh_start_time r))
                           (map_option renderTime (hh_end_time r)) (Some (metaOf r True))
                    else Some (200, Slots date
                           (slotMinutesOf \<lparr>q_date = Some date, q_slotMinutes = sm, q_excludeId = ex\<rparr>) []
                           (Some (metaOf r False))))))"
proof (intro conjI impI)
  have iso: "isISODate (Some date)"
    using assms by (simp add: isISODate_def sqlDate_def split: if_splits)
  {
    assume n: "\<not> (\<exists>h \<in> set (holiday_hours db). coversDate d h)"
    show "holidayQuery db date = Inr []" by (rule holidayQuery_none[OF assms n])
    then show "holidayInfoServerless db (Some date) = (200, HolidayInfo None)"
      using iso by (simp add: holidayInfoServerless_def)
  }
  assume e: "\<exists>h \<in> set (holiday_hours db). coversDate d h"
  from holidayQuery_selects[OF assms e]
  obtain r where q: "holidayQuery db date = Inr [r]" and m: "r \<in> set (holiday_hours db)" and c: "coversDate d r"
    and le: "\<forall>h \<in> set (holiday_hours db). coversDate d h \<longrightarrow> holidayOrderKey r \<le> holidayOrderKey h"
    by blast
  have p: "\<forall>h \<in> set (holiday_hours db). coversDate d h \<and> hh_id h \<noteq> hh_id r \<longrightarrow> specPrefers r h"
  proof (intro ballI impI)
    fix h assume "h \<in> set (holiday_hours db)" and a: "coversDate d h \<and> hh_id h \<noteq> hh_id r"
    then have "holidayOrderKey r \<le> holidayOrderKey h" using le by blast
    moreover have "holidayOrderKey r \<noteq> holidayOrderKey h" using a key_eq_id by metis
    ultimately show "specPrefers r h" by (simp add: key_less_iff[symmetric])
  qed
  have s: "(\<exists>h \<in> set (holiday_hours db). coversDate d h \<and> isSingleDay h) \<longrightarrow> isSingleDay r"
    using le key_le_single by blast
  have i: "holidayInfoServerless db (Some date) = (200, HolidayInfo (Some (viewOf r)))"
    using iso q by (simp add: holidayInfoServerless_def)
  have g: "getAvailability rt db \<lparr>q_date = Some date, q_slotMinutes = sm, q_excludeId = ex\<rparr> =
                   (if hh_is_open r
                    then handleWithWindow rt db date
                           (slotMinutesOf \<lparr>q_date = Some date, q_slotMinutes = sm, q_excludeId = ex\<rparr>)
                           (map_option renderTime (hh_start_time r))
                           (map_option renderTime (hh_end_time r)) (Some (metaOf r True))
                    else Some (200, Slots date
                           (slotMinutesOf \<lparr>q_date = Some date, q_slotMinutes = sm, q_excludeId = ex\<rparr>) []
                           (Some (metaOf r False))))"
    using iso q by (simp add: getAvailability_def Let_def)
  show "\<exists>r. holidayQuery db date = Inr [r] \<and> r \<in> set (holiday_hours db) \<and> coversDate d r
               \<and> (\<forall>h \<in> set (holiday_hours db). coversDate d h \<and> hh_id h \<noteq> hh_id r \<longrightarrow> specPrefers r h)
               \<and> ((\<exists>h \<in> set (holiday_hours db). coversDate d h \<and> isSingleDay h) \<longrightarrow> isSingleDay r)
               \<and> holidayInfoServerless db (Some date) = (200, HolidayInfo (Some (viewOf r)))
               \<and> getAvailability rt db \<lparr>q_date = Some date, q_slotMinutes = sm, q_excludeId = ex\<rparr> =
                   (if hh_is_open r
                    then handleWithWindow rt db date
                           (slotMinutesOf \<lparr>q_date = Some date, q_slotMinutes = sm, q_excludeId = ex\<rparr>)
                           (map_option renderTime (hh_start_time r))
                           (map_option renderTime (hh_end_time r)) (Some (metaOf r True))
                    else Some (200, Slots date
                           (slotMinutesOf \<lparr>q_date = Some date, q_slotMinutes = sm, q_excludeId = ex\<rparr>) []
                           (Some (metaOf r False))))"
    using q m c p s i g by blast
qed

theorem holiday_priority_witness:
  "holidayInfoServerless holidayStore (Some ''2030-12-25'')
     = (200, HolidayInfo (Some \<lparr>hv_holiday = ''Christmas'', hv_comment = Some ''short day'',
                                hv_is_open = True, hv_start_time = Some ''10:00'',
                                hv_end_time = Some ''14:00''\<rparr>))
   \<and> getAvailability (referenceRuntime newYear2030) holidayStore christmasQuery
     = Some (200, Slots ''2030-12-25'' 60 [''10:00'', ''11:00'', ''12:00'', ''13:00'']
               (Some \<lparr>holidayLabel = Some ''Christmas'', holidayComment = Some ''short day'',
                      isOpenOverride = True\<rparr>))"
proof -
  let ?rt = "referenceRuntime newYear2030"
  let ?x = "\<lparr>hh_id = 2, hh_start_date = 22273, hh_end_date = None, hh_holiday = ''Christmas'',
          hh_comment = Some ''short day'', hh_is_open = True, hh_start_time = Some 36000,
          hh_end_time = Some 50400\<rparr>"
  have d: "sqlDate ''2030-12-25'' = Some 22273" by code_simp
  have e: "\<exists>h \<in> set (holiday_hours holidayStore). coversDate 22273 h" by code_simp
  have q: "holidayQuery holidayStore ''2030-12-25'' = Inr [?x]" by code_simp
  have c: "christmasQuery = \<lparr>q_date = Some ''2030-12-25'', q_slotMinutes = Some ''60'', q_excludeId = None\<rparr>"
    by (simp add: christmasQuery_def)
  from holiday_priority[OF d, of holidayStore ?rt "Some ''60''" None] e
  obtain r where r: "holidayQuery holidayStore ''2030-12-25'' = Inr [r]"
    and i: "holidayInfoServerless holidayStore (Some ''2030-12-25'') = (200, HolidayInfo (Some (viewOf r)))"
    and g: "getAvailability ?rt holidayStore \<lparr>q_date = Some ''2030-12-25'', q_slotMinutes = Some ''60'', q_excludeId = None\<rparr> =
                   (if hh_is_open r
                    then handleWithWindow ?rt holidayStore ''2030-12-25''
                           (slotMinutesOf \<lparr>q_date = Some ''2030-12-25'', q_slotMinutes = Some ''60'', q_excludeId = None\<rparr>)
                           (map_option renderTime (hh_start_time r))
                           (map_option renderTime (hh_end_time r)) (Some (metaOf r True))
                    else Some (200, Slots ''2030-12-25''
                           (slotMinutesOf \<lparr>q_date = Some ''2030-12-25'', q_slotMinutes = Some ''60'', q_excludeId = None\<rparr>) []
                           (Some (metaOf r False))))"
    by blast
  have rx: "r = ?x" using r q by simp
  have v: "viewOf ?x = \<lparr>hv_holiday = ''Christmas'', hv_comment = Some ''short day'',
                                hv_is_open = True, hv_start_time = Some ''10:00'',
                                hv_end_time = Some ''14:00''\<rparr>"
    by code_simp
  have w: "(if hh_is_open ?x
                    then handleWithWindow ?rt holidayStore ''2030-12-25''
                           (slotMinutesOf \<lparr>q_date = Some ''2030-12-25'', q_slotMinutes = Some ''60'', q_excludeId = None\<rparr>)
                           (map_option renderTime (hh_start_time ?x))
                           (map_option renderTime (hh_end_time ?x)) (Some (metaOf ?x True))
                    else Some (200, Slots ''2030-12-25''
                           (slotMinutesOf \<lparr>q_date = Some ''2030-12-25'', q_slotMinutes = Some ''60'', q_excludeId = None\<rparr>) []
                           (Some (metaOf ?x False))))
      = Some (200, Slots ''2030-12-25'' 60 [''10:00'', ''11:00'', ''12:00'', ''13:00'']
               (Some \<lparr>holidayLabel = Some ''Christmas'', holidayComment = Some ''short day'',
                      isOpenOverride = True\<rparr>))"
    by code_simp
  show ?thesis
    using i g unfolding rx v w c by simp
qed

section \<open>The holiday route in the two files\<close>

lemma holidayInfoListener_fails:
  "holidayInfoListener db date =
     (if isISODate date then (500, ErrorText ''Database error'')
      else (400, ErrorText ''date must be YYYY-MM-DD''))"
  by (simp add: holidayInfoListener_def holidayByDateColumn_def holiday_hours_columns_def)

text \<open>For every date of the calendar and every store, the on-demand handler answers 200
  and the listening process 500.\<close>

lemma holiday_info_differs_for_every_date:
  assumes "sqlDate date = Some d"
  shows "fst (holidayInfoServerless db (Some date)) = 200"
    and "fst (holidayInfoListener db (Some date)) = 500"
proof -
  have iso: "isISODate (Some date)"
    using assms by (simp add: isISODate_def sqlDate_def split: if_splits)
  show "fst (holidayInfoServerless db (Some date)) = 200"
    using iso assms by (simp add: holidayInfoServerless_def holidayQuery_def)
  show "fst (holidayInfoListener db (Some date)) = 500"
    using iso by (simp add: holidayInfoListener_fails)
qed

text \<open>
  Claim C3. The two files are to answer every request alike. For the holiday route they
  do not: with an override stored for 2030-12-25, and with none, the on-demand handler
  answers 200 with the override or its absence, and the listening process answers 500,
  because its statement filters on a column \<open>date\<close> that the table does not have.
\<close>

theorem holiday_info_variants_differ:
  "holidayInfoServerless holidayStore (Some ''2030-12-25'')
     = (200, HolidayInfo (Some \<lparr>hv_holiday = ''Christmas'', hv_comment = Some ''short day'',
                                hv_is_open = True, hv_start_time = Some ''10:00'',
                                hv_end_time = Some ''14:00''\<rparr>))
   \<and> holidayInfoListener holidayStore (Some ''2030-12-25'') = (500, ErrorText ''Database error'')
   \<and> holidayInfoServerless emptyStore (Some ''2030-12-25'') = (200, HolidayInfo None)
   \<and> holidayInfoListener emptyStore (Some ''2030-12-25'') = (500, ErrorText ''Database error'')"
  by code_simp

section \<open>Dates that are no dates\<close>

text \<open>For every runtime: a date-time text the runtime reads as invalid passes the checks
  of the booking route and fails those of the update route.\<close>

lemma validateBooking_invalid_date:
  fixes b :: appointment_body
  assumes "\<not> falsy (b_name b)" "\<not> falsy (b_date b)" "\<not> falsy (b_time b)" "\<not> falsy (b_type b)"
    and "numberOf (b_duration b) = Some 30 \<or> numberOf (b_duration b) = Some 60"
    and "falsy (b_phoneNumber b) \<or> normalizeNANPTo10 (the (b_phoneNumber b)) \<noteq> None"
    and "matchesDigits ''dd:dd'' (take 5 (the (b_time b)))"
    and "matchesDigits ''dddd-dd-dd'' (the (b_date b))"
    and "parseDate rt (the (b_date b) @ ''T'' @ take 5 (the (b_time b))) = None"
  shows "\<exists>bk. validateBooking rt b = Inr bk \<and> bk_date bk = the (b_date b)
            \<and> bk_startHHMM bk = take 5 (the (b_time b))"
  using assms duration_not_falsy[OF assms(5)]
  by (auto simp: validateBooking_def Let_def beforeNow_def)

lemma validateUpdate_invalid_date:
  fixes b :: appointment_body
  assumes "jsNumber i = Some n" "0 < n"
    and "\<not> falsy (b_name b)" "\<not> falsy (b_date b)" "\<not> falsy (b_time b)" "\<not> falsy (b_type b)"
    and "numberOf (b_duration b) = Some 30 \<or> numberOf (b_duration b) = Some 60"
    and "falsy (b_phoneNumber b) \<or> normalizeNANPTo10 (the (b_phoneNumber b)) \<noteq> None"
    and "parseDate rt (the (b_date b) @ ''T'' @ take 5 (the (b_time b))) = None"
  shows "validateUpdate rt i b = Inl (400, Message ''Invalid date/time'')"
  using assms duration_not_falsy[OF assms(7)]
  by (auto simp: validateUpdate_def Let_def)

text \<open>Which texts of the two patterns the reference runtime reads as invalid: those with
  a date or time field out of its range, and no others.\<close>

lemma matchesDigits_length: "matchesDigits p s \<Longrightarrow> length s = length p"
  by (induction p s rule: matchesDigits.induct) auto

lemma matchesDigits_append:
  "length s1 = length p1 \<Longrightarrow>
     matchesDigits (p1 @ p2) (s1 @ s2) = (matchesDigits p1 s1 \<and> matchesDigits p2 s2)"
  by (induction p1 s1 rule: matchesDigits.induct) auto

lemma isoDateTimeValue_joined:
  assumes d: "matchesDigits ''dddd-dd-dd'' d" and t: "matchesDigits ''dd:dd'' t"
  shows "isoDateTimeValue (d @ ''T'' @ t) = None \<longleftrightarrow> \<not> (dateInRange d \<and> timeInRange t)"
proof -
  from matchesDigits_length[OF d] have ld: "length d = 10" by simp
  have "matchesDigits (''dddd-dd-dd'' @ ''T'' @ ''dd:dd'') (d @ ''T'' @ t)"
    using d t ld by (subst matchesDigits_append) (simp_all)
  then have m: "matchesDigits ''dddd-dd-ddTdd:dd'' (d @ ''T'' @ t)" by simp
  have td: "take 10 (d @ ''T'' @ t) = d" "drop 11 (d @ ''T'' @ t) = t" using ld by simp_all
  show ?thesis
    unfolding isoDateTimeValue_def td Let_def using m by simp
qed

text \<open>
  A text with every field in range is a valid date-time for the update route, also when
  its day lies beyond the length of its month: the route does not answer
  "Invalid date/time".
\<close>

lemma validateUpdate_in_range:
  fixes b :: appointment_body
  assumes "matchesDigits ''dd:dd'' (take 5 (the (b_time b)))"
    and "matchesDigits ''dddd-dd-dd'' (the (b_date b))"
    and "dateInRange (the (b_date b))" "timeInRange (take 5 (the (b_time b)))"
  shows "validateUpdate (referenceRuntime now) i b \<noteq> Inl (400, Message ''Invalid date/time'')"
proof -
  have "isoDateTimeValue (the (b_date b) @ ''T'' @ take 5 (the (b_time b))) \<noteq> None"
    using isoDateTimeValue_joined[OF assms(2) assms(1)] assms(3,4) by simp
  then show ?thesis
    by (auto simp: validateUpdate_def Let_def referenceRuntime_def split: option.splits)
qed

text \<open>
  Claim C10. Take a request whose required fields are present, whose duration is 30 or
  60, whose phone number is absent or accepted, and whose date and time match the digit
  patterns, with a field out of the range the runtime reads: a month that is not 01 to
  12, a day that is not 01 to 31, a minute above 59, an hour above 24, or the hour 24 with
  minutes other than 00. The date-time the routes construct is then invalid, and the
  not-in-the-past test of the booking route is false: the checks pass and the request
  goes on to the statements of the store. The update route, for an administrator and a
  positive id, answers the same body with 400 "Invalid date/time". Whether a text is
  read as invalid depends on neither the clock nor the time zone of the runtime.
\<close>

theorem invalid_datetime_not_rejected_by_booking:
  fixes b :: appointment_body and x :: session_user
  assumes "\<not> falsy (b_name b)" "\<not> falsy (b_date b)" "\<not> falsy (b_time b)" "\<not> falsy (b_type b)"
    and "numberOf (b_duration b) = Some 30 \<or> numberOf (b_duration b) = Some 60"
    and "falsy (b_phoneNumber b) \<or> normalizeNANPTo10 (the (b_phoneNumber b)) \<noteq> None"
    and "matchesDigits ''dd:dd'' (take 5 (the (b_time b)))"
    and "matchesDigits ''dddd-dd-dd'' (the (b_date b))"
    and "\<not> (dateInRange (the (b_date b)) \<and> timeInRange (take 5 (the (b_time b))))"
  shows "parseDate (referenceRuntime now) (the (b_date b) @ ''T'' @ take 5 (the (b_time b))) = None
     \<and> beforeNow (referenceRuntime now) (the (b_date b) @ ''T'' @ take 5 (the (b_time b))) = False
     \<and> (\<exists>bk. validateBooking (referenceRuntime now) b = Inr bk \<and> bk_date bk = the (b_date b)
            \<and> bk_startHHMM bk = take 5 (the (b_time b))
            \<and> bookAppointment (referenceRuntime now) db b = storeBooking db bk)
     \<and> (jsNumber i = Some n \<and> 0 < n \<and> su_role x = ''admin'' \<longrightarrow>
           serveAdmin (referenceRuntime now) eqCol (Some x) (PutAppointment i b) db
             = ((400, Message ''Invalid date/time''), db))"
proof (intro conjI impI)
  let ?rt = "referenceRuntime now"
  have "isoDateTimeValue (the (b_date b) @ ''T'' @ take 5 (the (b_time b))) = None"
    using isoDateTimeValue_joined[OF assms(8) assms(7)] assms(9) by simp
  then show p: "parseDate ?rt (the (b_date b) @ ''T'' @ take 5 (the (b_time b))) = None"
    by (simp add: referenceRuntime_def)
  then show "beforeNow ?rt (the (b_date b) @ ''T'' @ take 5 (the (b_time b))) = False"
    by (simp add: beforeNow_def)
  from validateBooking_invalid_date[OF assms(1-8) p]
  obtain bk where v: "validateBooking ?rt b = Inr bk" and k: "bk_date bk = the (b_date b)"
      "bk_startHHMM bk = take 5 (the (b_time b))" by blast
  then show "\<exists>bk. validateBooking ?rt b = Inr bk \<and> bk_date bk = the (b_date b)
            \<and> bk_startHHMM bk = take 5 (the (b_time b))
            \<and> bookAppointment ?rt db b = storeBooking db bk"
    by (simp add: bookAppointment_def)
  assume a: "jsNumber i = Some n \<and> 0 < n \<and> su_role x = ''admin''"
  have "validateUpdate ?rt i b = Inl (400, Message ''Invalid date/time'')"
    using a assms(1-6) p by (intro validateUpdate_invalid_date[where n = n]) simp_all
  then show "serveAdmin ?rt eqCol (Some x) (PutAppointment i b) db = ((400, Message ''Invalid date/time''), db)"
    using a by (simp add: serveAdmin_def guards_admin putAppointment_def del: runGuards.simps)
qed

theorem invalid_datetime_not_rejected_by_booking_witness:
  "parseDate (referenceRuntime newYear2030) ''2030-01-07T99:00'' = None
   \<and> parseDate (referenceRuntime newYear2030) ''2030-13-01T10:00'' = None
   \<and> fst (bookAppointment (referenceRuntime newYear2030) emptyStore hour99Body)
        = (200, Message ''Appointment saved successfully'')
   \<and> map appt_time (appointments (snd (bookAppointment (referenceRuntime newYear2030) emptyStore hour99Body)))
        = [356400]
   \<and> serveAdmin (referenceRuntime newYear2030) sampleEqCol (Some adminUser)
        (PutAppointment ''1'' hour99Body) storeWithRows
        = ((400, Message ''Invalid date/time''), storeWithRows)
   \<and> bookAppointment (referenceRuntime newYear2030) emptyStore month13Body
        = ((500, Message ''Database error''), emptyStore)
   \<and> serveAdmin (referenceRuntime newYear2030) sampleEqCol (Some adminUser)
        (PutAppointment ''1'' month13Body) storeWithRows
        = ((400, Message ''Invalid date/time''), storeWithRows)"
proof -
  let ?rt = "referenceRuntime newYear2030"
  have b1: "fst (bookAppointment ?rt emptyStore hour99Body) = (200, Message ''Appointment saved successfully'')"
    by code_simp
  have b2: "map appt_time (appointments (snd (bookAppointment ?rt emptyStore hour99Body))) = [356400]"
    by code_simp
  have b3: "bookAppointment ?rt emptyStore month13Body = ((500, Message ''Database error''), emptyStore)"
    by code_simp
  have a: "jsNumber ''1'' = Some 1 \<and> (0::int) < 1 \<and> su_role adminUser = ''admin''" by code_simp
  have t1: "the (b_date hour99Body) @ ''T'' @ take 5 (the (b_time hour99Body)) = ''2030-01-07T99:00''"
    by code_simp
  have t2: "the (b_date month13Body) @ ''T'' @ take 5 (the (b_time month13Body)) = ''2030-13-01T10:00''"
    by code_simp
  have h1: "\<not> falsy (b_name hour99Body)" "\<not> falsy (b_date hour99Body)" "\<not> falsy (b_time hour99Body)"
      "\<not> falsy (b_type hour99Body)"
      "numberOf (b_duration hour99Body) = Some 30 \<or> numberOf (b_duration hour99Body) = Some 60"
      "falsy (b_phoneNumber hour99Body) \<or> normalizeNANPTo10 (the (b_phoneNumber hour99Body)) \<noteq> None"
      "matchesDigits ''dd:dd'' (take 5 (the (b_time hour99Body)))"
      "matchesDigits ''dddd-dd-dd'' (the (b_date hour99Body))"
      "\<not> (dateInRange (the (b_date hour99Body)) \<and> timeInRange (take 5 (the (b_time hour99Body))))"
    by code_simp+
  have h2: "\<not> falsy (b_name month13Body)" "\<not> falsy (b_date month13Body)" "\<not> falsy (b_time month13Body)"
      "\<not> falsy (b_type month13Body)"
      "numberOf (b_duration month13Body) = Some 30 \<or> numberOf (b_duration month13Body) = Some 60"
      "falsy (b_phoneNumber month13Body) \<or> normalizeNANPTo10 (the (b_phoneNumber month13Body)) \<noteq> None"
      "matchesDigits ''dd:dd'' (take 5 (the (b_time month13Body)))"
      "matchesDigits ''dddd-dd-dd'' (the (b_date month13Body))"
      "\<not> (dateInRange (the (b_date month13Body)) \<and> timeInRange (take 5 (the (b_time month13Body))))"
    by code_simp+
  note r1 = invalid_datetime_not_rejected_by_booking[OF h1,
      of newYear2030 storeWithRows "''1''" 1 adminUser sampleEqCol, unfolded t1]
  note r2 = invalid_datetime_not_rejected_by_booking[OF h2,
      of newYear2030 storeWithRows "''1''" 1 adminUser sampleEqCol, unfolded t2]
  from r1 have p1: "parseDate ?rt ''2030-01-07T99:00'' = None" by blast
  from r2 have p2: "parseDate ?rt ''2030-13-01T10:00'' = None" by blast
  from r1 a
  have u1: "serveAdmin ?rt sampleEqCol (Some adminUser) (PutAppointment ''1'' hour99Body) storeWithRows
        = ((400, Message ''Invalid date/time''), storeWithRows)" by blast
  from r2 a
  have u2: "serveAdmin ?rt sampleEqCol (Some adminUser) (PutAppointment ''1'' month13Body) storeWithRows
        = ((400, Message ''Invalid date/time''), storeWithRows)" by blast
  from p1 p2 b1 b2 b3 u1 u2 show ?thesis by blast
qed

text \<open>
  The same cannot be said of every text that matches the patterns and names no day of
  the calendar. The store reads neither 2030-02-30 nor 2029-11-31 as a date, but the
  runtime reads them as 2 March 2030 and 1 December 2029. With the clock at the first
  instant of 2030, the update route passes the first on to its statements, where the store
  refuses it, and the booking route answers the second with
  "Appointment cannot be in the past".
\<close>

theorem day_beyond_month_is_read_as_valid:
  "matchesDigits ''dddd-dd-dd'' ''2030-02-30'' \<and> matchesDigits ''dd:dd'' ''10:00''
   \<and> sqlDate ''2030-02-30'' = None
   \<and> parseDate (referenceRuntime newYear2030) ''2030-02-30T10:00''
        = parseDate (referenceRuntime newYear2030) ''2030-03-02T10:00''
   \<and> parseDate (referenceRuntime newYear2030) ''2030-02-30T10:00'' = Some 1898676000000
   \<and> validateUpdate (referenceRuntime newYear2030) ''1'' day30FebruaryBody
        = Inr (1, sampleBooking\<lparr>bk_date := ''2030-02-30''\<rparr>)
   \<and> fst (fst (serveAdmin (referenceRuntime newYear2030) sampleEqCol (Some adminUser)
        (PutAppointment ''1'' day30FebruaryBody) storeWithRows)) = 500
   \<and> matchesDigits ''dddd-dd-dd'' ''2029-11-31''
   \<and> sqlDate ''2029-11-31'' = None
   \<and> parseDate (referenceRuntime newYear2030) ''2029-11-31T10:00''
        = parseDate (referenceRuntime newYear2030) ''2029-12-01T10:00''
   \<and> beforeNow (referenceRuntime newYear2030) ''2029-11-31T10:00'' = True
   \<and> bookAppointment (referenceRuntime newYear2030) emptyStore day31NovemberBody
        = ((400, Message ''Appointment cannot be in the past''), emptyStore)"
  by code_simp

section \<open>The conflict check of a booking\<close>

lemma matches_Cons:
  "matchesDigits (p # ps) s \<Longrightarrow>
     \<exists>c cs. s = c # cs \<and> (if p = CHR ''d'' then isDigit c else c = p) \<and> matchesDigits ps cs"
  by (cases s) auto

lemma matches_Nil: "matchesDigits [] s \<Longrightarrow> s = []"
  by (cases s) auto

lemma matches_hhmm_shape:
  assumes "matchesDigits ''dd:dd'' s"
  shows "\<exists>a b c e. s = [a, b, CHR '':'', c, e] \<and> isDigit a \<and> isDigit b \<and> isDigit c \<and> isDigit e"
proof -
  from matches_Cons[OF assms] obtain a s1 where 1: "s = a # s1" "isDigit a" "matchesDigits ''d:dd'' s1"
    by auto
  from matches_Cons[OF 1(3)] obtain b s2 where 2: "s1 = b # s2" "isDigit b" "matchesDigits '':dd'' s2"
    by auto
  from matches_Cons[OF 2(3)] obtain k s3 where 3: "s2 = k # s3" "k = CHR '':''" "matchesDigits ''dd'' s3"
    by auto
  from matches_Cons[OF 3(3)] obtain c s4 where 4: "s3 = c # s4" "isDigit c" "matchesDigits ''d'' s4"
    by auto
  from matches_Cons[OF 4(3)] obtain e s5 where 5: "s4 = e # s5" "isDigit e" "matchesDigits [] s5"
    by auto
  from matches_Nil[OF 5(3)] have "s5 = []" .
  then show ?thesis using 1 2 3 4 5 by simp
qed

lemma digitValue_le: "isDigit c \<Longrightarrow> digitValue c \<le> 9"
  by (auto simp: isDigit_def digitValue_def)

lemma sqlTime_hhmm:
  assumes "isDigit a" "isDigit b" "isDigit c" "isDigit e"
  shows "sqlTime [a, b, CHR '':'', c, e] =
           (if digitValue c * 10 + digitValue e < 60
            then Some (int ((digitValue a * 10 + digitValue b) * 3600 + (digitValue c * 10 + digitValue e) * 60))
            else None)"
    and "sqlTime ([a, b, CHR '':'', c, e] @ '':00'') = sqlTime [a, b, CHR '':'', c, e]"
  using assms by (simp_all add: sqlTime_def digitsValue_def isDigit_def digitValue_def Let_def mult.commute)

lemma sqlTime_seconds:
  "matchesDigits ''dd:dd'' s \<Longrightarrow> sqlTime (s @ '':00'') = sqlTime s"
  using matches_hhmm_shape sqlTime_hhmm(2) by metis

lemma sqlTime_hhmm_bound:
  assumes "matchesDigits ''dd:dd'' s" and "sqlTime s = Some t"
  shows "0 \<le> t \<and> t \<le> 359999"
proof -
  from matches_hhmm_shape[OF assms(1)] obtain a b c e where
    s: "s = [a, b, CHR '':'', c, e]" and dg: "isDigit a" "isDigit b" "isDigit c" "isDigit e" by blast
  have "digitValue a \<le> 9" "digitValue b \<le> 9" using dg digitValue_le by blast+
  then have h: "digitValue a * 10 + digitValue b \<le> 99" by simp
  from assms(2) have m: "digitValue c * 10 + digitValue e < 60"
    and t: "t = int ((digitValue a * 10 + digitValue b) * 3600 + (digitValue c * 10 + digitValue e) * 60)"
    unfolding s sqlTime_hhmm(1)[OF dg] by (simp_all split: if_splits)
  from h m show ?thesis unfolding t by simp
qed

lemma validateBooking_Inr:
  fixes b :: appointment_body
  assumes "validateBooking rt b = Inr bk"
  shows "matchesDigits ''dd:dd'' (bk_startHHMM bk) \<and> matchesDigits ''dddd-dd-dd'' (bk_date bk)
     \<and> (bk_dur bk = 30 \<or> bk_dur bk = 60)
     \<and> bk_name bk = the (b_name b) \<and> bk_type bk = the (b_type b)
     \<and> bk_date bk = the (b_date b) \<and> bk_startHHMM bk = take 5 (the (b_time b))"
  using assms by (auto simp: validateBooking_def Let_def split: if_splits)

lemma clipTime_id: "\<bar>n\<bar> \<le> 3020399 \<Longrightarrow> clipTime n = n"
  by (simp add: clipTime_def)

lemma conflictCondition_plain:
  assumes "sqlTime s = Some t" and "0 \<le> t" and "t \<le> 359999" and "dur = 30 \<or> dur = 60"
    and "\<bar>appt_time r\<bar> + \<bar>appt_duration r\<bar> * 60 \<le> 3020399"
  shows "conflictCondition s dur r \<longleftrightarrow>
           t < appt_time r + appt_duration r * 60 \<and> t + dur * 60 > appt_time r"
proof -
  have 1: "clipTime (appt_duration r * 60) = appt_duration r * 60"
    using assms(5) by (intro clipTime_id) (simp add: abs_mult)
  have 2: "clipTime (appt_time r + appt_duration r * 60) = appt_time r + appt_duration r * 60"
    using assms(5) by (intro clipTime_id) (simp add: abs_mult)
  have 3: "clipTime (dur * 60) = dur * 60" using assms(4) by (auto simp: clipTime_def)
  have 4: "clipTime (t + dur * 60) = t + dur * 60"
    using assms(2,3,4) by (auto simp: clipTime_def)
  show ?thesis by (simp add: conflictCondition_def assms(1) ADDTIME_def SEC_TO_TIME_def 1 2 3 4)
qed

lemma conflictCondition_self:
  assumes "sqlTime s = Some t" and "0 \<le> t" and "t \<le> 359999" and "dur = 30 \<or> dur = 60"
    and "appt_time r = t" and "appt_duration r = dur"
  shows "conflictCondition s dur r"
proof -
  have "\<bar>appt_time r\<bar> + \<bar>appt_duration r\<bar> * 60 \<le> 3020399" using assms by auto
  from conflictCondition_plain[OF assms(1-4) this] show ?thesis using assms by auto
qed

lemma take1_filter_nonempty: "take 1 (filter P xs) \<noteq> [] \<longleftrightarrow> (\<exists>x \<in> set xs. P x)"
  by (simp add: filter_empty_conv)

text \<open>
  What the checks of the booking route accept: the required fields are present, the
  duration is 30 or 60, the phone number is absent, empty or accepted, date and time
  match their patterns, and the date-time is not before the current instant.
\<close>

lemma validateBooking_accepts:
  fixes b :: appointment_body
  shows "validateBooking rt b = Inr bk \<longleftrightarrow>
     \<not> falsy (b_name b) \<and> \<not> falsy (b_date b) \<and> \<not> falsy (b_time b) \<and> \<not> falsy (b_type b)
     \<and> (numberOf (b_duration b) = Some 30 \<or> numberOf (b_duration b) = Some 60)
     \<and> (falsy (b_phoneNumber b) \<or> normalizeNANPTo10 (the (b_phoneNumber b)) \<noteq> None)
     \<and> matchesDigits ''dd:dd'' (take 5 (the (b_time b)))
     \<and> matchesDigits ''dddd-dd-dd'' (the (b_date b))
     \<and> \<not> beforeNow rt (the (b_date b) @ ''T'' @ take 5 (the (b_time b)))
     \<and> bk = \<lparr>bk_name = the (b_name b),
               bk_phone10 = (if falsy (b_phoneNumber b) then None
                             else normalizeNANPTo10 (the (b_phoneNumber b))),
               bk_email = orNull (b_email b), bk_date = the (b_date b),
               bk_startHHMM = take 5 (the (b_time b)), bk_dur = the (numberOf (b_duration b)),
               bk_type = the (b_type b), bk_comments = orNull (b_comments b)\<rparr>"
proof (cases "numberOf (b_duration b) = Some 30 \<or> numberOf (b_duration b) = Some 60")
  case True
  from duration_not_falsy[OF True] show ?thesis
    using True by (auto simp: validateBooking_def Let_def)
next
  case False
  then show ?thesis by (auto simp: validateBooking_def Let_def)
qed

text \<open>
  Claim C1. Take a booking that passes the checks of the route, whose date and time the
  store reads as a date and a time, and a store whose appointment times lie in the range
  of a \<^verbatim>\<open>TIME\<close>. The answer is 409 exactly when a stored appointment of the same
  date overlaps the requested interval (requested start before its end and requested end
  after its start); the store is then unchanged. Otherwise the answer is 200 with the
  confirmation message, and the store has exactly one more appointment, the requested
  one, active and not paid. After such a success, any later booking that passes the
  checks with the same date, time and duration is answered with 409 and changes nothing.
\<close>

theorem booking_conflict_check:
  fixes b :: appointment_body
  assumes "validateBooking rt b = Inr bk"
    and "sqlDate (bk_date bk) = Some d" and "sqlTime (bk_startHHMM bk) = Some t"
    and "\<forall>r \<in> set (appointments db). \<bar>appt_time r\<bar> + \<bar>appt_duration r\<bar> * 60 \<le> 3020399"
  shows "(fst (fst (bookAppointment rt db b)) = 409 \<longleftrightarrow>
            (\<exists>r \<in> set (appointments db). appt_date r = d
               \<and> t < appt_time r + appt_duration r * 60 \<and> t + bk_dur bk * 60 > appt_time r))
     \<and> ((\<exists>r \<in> set (appointments db). appt_date r = d
             \<and> t < appt_time r + appt_duration r * 60 \<and> t + bk_dur bk * 60 > appt_time r)
          \<longrightarrow> bookAppointment rt db b = ((409, Message ''Time conflict with another appointment''), db))
     \<and> (\<not> (\<exists>r \<in> set (appointments db). appt_date r = d
             \<and> t < appt_time r + appt_duration r * 60 \<and> t + bk_dur bk * 60 > appt_time r)
          \<longrightarrow> bookAppointment rt db b =
                ((200, Message ''Appointment saved successfully''),
                 db\<lparr>appointments := appointments db @
                      [\<lparr>appt_id = appointments_auto db, appt_name = bk_name bk,
                        appt_phoneNumber = bk_phone10 bk, appt_email = bk_email bk,
                        appt_date = d, appt_time = t, appt_duration = bk_dur bk,
                        appt_type = bk_type bk, appt_comments = bk_comments bk,
                        appt_active = True, appt_paid = False\<rparr>],
                    appointments_auto := Suc (appointments_auto db)\<rparr>)
              \<and> (\<forall>rt2 b2 bk2. validateBooking rt2 (b2::appointment_body) = Inr bk2
                     \<and> bk_date bk2 = bk_date bk \<and> bk_startHHMM bk2 = bk_startHHMM bk
                     \<and> bk_dur bk2 = bk_dur bk
                   \<longrightarrow> bookAppointment rt2 (snd (bookAppointment rt db b)) b2 =
                        ((409, Message ''Time conflict with another appointment''),
                         snd (bookAppointment rt db b))))"
proof -
  from validateBooking_Inr[OF assms(1)] have m: "matchesDigits ''dd:dd'' (bk_startHHMM bk)"
    and du: "bk_dur bk = 30 \<or> bk_dur bk = 60" by blast+
  from sqlTime_hhmm_bound[OF m assms(3)] have tb: "0 \<le> t" "t \<le> 359999" by blast+
  have ts: "sqlTime (bk_startHHMM bk @ '':00'') = Some t"
    using sqlTime_seconds[OF m] assms(3) by simp
  let ?P = "\<lambda>r. appt_date r = d \<and> t < appt_time r + appt_duration r * 60 \<and> t + bk_dur bk * 60 > appt_time r"
  let ?Q = "\<lambda>r. appt_date r = d \<and> Some (appt_id r) \<noteq> None \<and> conflictCondition (bk_startHHMM bk) (bk_dur bk) r"
  have pq: "\<And>r. r \<in> set (appointments db) \<Longrightarrow> ?Q r = ?P r"
    using conflictCondition_plain[OF assms(3) tb du] assms(4) by auto
  then have fq: "filter ?Q (appointments db) = filter ?P (appointments db)"
    by (intro filter_cong) auto
  have cq: "conflictQuery db (bk_date bk) None (bk_startHHMM bk) (bk_dur bk)
              = Inr (take 1 (filter ?P (appointments db)))"
    unfolding conflictQuery_def using assms(2) fq by simp
  let ?row = "\<lparr>appt_id = appointments_auto db, appt_name = bk_name bk,
                        appt_phoneNumber = bk_phone10 bk, appt_email = bk_email bk,
                        appt_date = d, appt_time = t, appt_duration = bk_dur bk,
                        appt_type = bk_type bk, appt_comments = bk_comments bk,
                        appt_active = True, appt_paid = False\<rparr>"
  let ?db' = "db\<lparr>appointments := appointments db @ [?row],
                    appointments_auto := Suc (appointments_auto db)\<rparr>"
  have ins: "insertAppointment db bk = Inr ?db'"
    by (simp add: insertAppointment_def assms(2) ts)
  have yes: "bookAppointment rt db b = ((409, Message ''Time conflict with another appointment''), db)"
    if "\<exists>r \<in> set (appointments db). ?P r"
  proof -
    from that have "filter ?P (appointments db) \<noteq> []" by (auto simp: filter_empty_conv)
    then show ?thesis by (simp add: bookAppointment_def assms(1) storeBooking_def cq)
  qed
  have no: "bookAppointment rt db b = ((200, Message ''Appointment saved successfully''), ?db')"
    if "\<not> (\<exists>r \<in> set (appointments db). ?P r)"
  proof -
    from that have "filter ?P (appointments db) = []" by (auto simp: filter_empty_conv)
    then show ?thesis by (simp add: bookAppointment_def assms(1) storeBooking_def cq ins)
  qed
  have again: "bookAppointment rt2 ?db' b2 = ((409, Message ''Time conflict with another appointment''), ?db')"
    if v2: "validateBooking rt2 b2 = Inr bk2" and e: "bk_date bk2 = bk_date bk"
      "bk_startHHMM bk2 = bk_startHHMM bk" "bk_dur bk2 = bk_dur bk"
    for rt2 and b2 :: appointment_body and bk2
  proof -
    have "conflictCondition (bk_startHHMM bk) (bk_dur bk) ?row"
      by (rule conflictCondition_self[OF assms(3) tb du]) simp_all
    then have "\<exists>r \<in> set (appointments ?db'). appt_date r = d \<and> Some (appt_id r) \<noteq> None
                 \<and> conflictCondition (bk_startHHMM bk) (bk_dur bk) r"
      by auto
    then have "take 1 (filter (\<lambda>r. appt_date r = d \<and> Some (appt_id r) \<noteq> None
                 \<and> conflictCondition (bk_startHHMM bk) (bk_dur bk) r) (appointments ?db')) \<noteq> []"
      by (simp only: take1_filter_nonempty)
    then have "\<exists>rows. conflictQuery ?db' (bk_date bk2) None (bk_startHHMM bk2) (bk_dur bk2) = Inr rows \<and> rows \<noteq> []"
      unfolding conflictQuery_def e using assms(2) by simp
    then show ?thesis
      by (auto simp: bookAppointment_def v2 storeBooking_def)
  qed
  show ?thesis
  proof (intro conjI impI allI)
    show "fst (fst (bookAppointment rt db b)) = 409 \<longleftrightarrow> (\<exists>r \<in> set (appointments db). ?P r)"
      using yes no by (cases "\<exists>r \<in> set (appointments db). ?P r") simp_all
  next
    assume "\<exists>r \<in> set (appointments db). ?P r"
    then show "bookAppointment rt db b = ((409, Message ''Time conflict with another appointment''), db)"
      by (rule yes)
  next
    assume n: "\<not> (\<exists>r \<in> set (appointments db). ?P r)"
    show b1: "bookAppointment rt db b = ((200, Message ''Appointment saved successfully''), ?db')"
      by (rule no[OF n])
    fix rt2 and b2 :: appointment_body and bk2
    assume "validateBooking rt2 b2 = Inr bk2
                     \<and> bk_date bk2 = bk_date bk \<and> bk_startHHMM bk2 = bk_startHHMM bk
                     \<and> bk_dur bk2 = bk_dur bk"
    then show "bookAppointment rt2 (snd (bookAppointment rt db b)) b2 =
                        ((409, Message ''Time conflict with another appointment''),
                         snd (bookAppointment rt db b))"
      unfolding b1 snd_conv using again by blast
  qed
qed

theorem booking_conflict_check_witness:
  "bookAppointment (referenceRuntime newYear2030) emptyStore sampleBody
     = ((200, Message ''Appointment saved successfully''),
        emptyStore\<lparr>appointments := [sampleRow], appointments_auto := 2\<rparr>)
   \<and> bookAppointment (referenceRuntime (newYear2030 + 1000))
        (snd (bookAppointment (referenceRuntime newYear2030) emptyStore sampleBody)) sampleBody
     = ((409, Message ''Time conflict with another appointment''),
        snd (bookAppointment (referenceRuntime newYear2030) emptyStore sampleBody))"
proof -
  let ?rt = "referenceRuntime newYear2030"
  let ?rt2 = "referenceRuntime (newYear2030 + 1000)"
  have v: "validateBooking ?rt sampleBody = Inr sampleBooking" by code_simp
  have v2: "validateBooking ?rt2 sampleBody = Inr sampleBooking" by code_simp
  have d: "sqlDate (bk_date sampleBooking) = Some 21921" by code_simp
  have t: "sqlTime (bk_startHHMM sampleBooking) = Some 36000" by code_simp
  have r: "\<forall>r \<in> set (appointments emptyStore). \<bar>appt_time r\<bar> + \<bar>appt_duration r\<bar> * 60 \<le> 3020399"
    by (simp add: emptyStore_def)
  have n: "\<not> (\<exists>r \<in> set (appointments emptyStore). appt_date r = 21921
             \<and> 36000 < appt_time r + appt_duration r * 60 \<and> 36000 + bk_dur sampleBooking * 60 > appt_time r)"
    by (simp add: emptyStore_def)
  note th = booking_conflict_check[OF v d t r]
  from th n have 1: "bookAppointment ?rt emptyStore sampleBody =
                ((200, Message ''Appointment saved successfully''),
                 emptyStore\<lparr>appointments := appointments emptyStore @
                      [\<lparr>appt_id = appointments_auto emptyStore, appt_name = bk_name sampleBooking,
                        appt_phoneNumber = bk_phone10 sampleBooking, appt_email = bk_email sampleBooking,
                        appt_date = 21921, appt_time = 36000, appt_duration = bk_dur sampleBooking,
                        appt_type = bk_type sampleBooking, appt_comments = bk_comments sampleBooking,
                        appt_active = True, appt_paid = False\<rparr>],
                    appointments_auto := Suc (appointments_auto emptyStore)\<rparr>)"
    by blast
  from th n v2 have 2: "bookAppointment ?rt2 (snd (bookAppointment ?rt emptyStore sampleBody)) sampleBody =
                        ((409, Message ''Time conflict with another appointment''),
                         snd (bookAppointment ?rt emptyStore sampleBody))"
    by blast
  have e: "emptyStore\<lparr>appointments := appointments emptyStore @
                      [\<lparr>appt_id = appointments_auto emptyStore, appt_name = bk_name sampleBooking,
                        appt_phoneNumber = bk_phone10 sampleBooking, appt_email = bk_email sampleBooking,
                        appt_date = 21921, appt_time = 36000, appt_duration = bk_dur sampleBooking,
                        appt_type = bk_type sampleBooking, appt_comments = bk_comments sampleBooking,
                        appt_active = True, appt_paid = False\<rparr>],
                    appointments_auto := Suc (appointments_auto emptyStore)\<rparr>
           = emptyStore\<lparr>appointments := [sampleRow], appointments_auto := 2\<rparr>"
    by (simp add: emptyStore_def sampleBooking_def sampleRow_def)
  from 1 2 e show ?thesis by simp
qed

section \<open>The slots the availability route offers\<close>

text \<open>Clock texts of the hours 0 to 99 have two hour digits; on them the order of
  strings is the order of the minutes.\<close>

lemma digit_cases: "d < 10 \<Longrightarrow> d = 0 \<or> d = 1 \<or> d = 2 \<or> d = 3 \<or> d = 4 \<or> d = 5 \<or> d = 6 \<or> d = 7 \<or> d = 8 \<or> d = (9::nat)"
  by arith

lemma of_char_digitChar: "d < 10 \<Longrightarrow> of_char (digitChar d) = (48 + d :: nat)"
  using digit_cases[of d] by (auto simp: digitChar_def)

lemma isDigit_digitChar: "d < 10 \<Longrightarrow> isDigit (digitChar d)"
  using digit_cases[of d] by (auto simp: digitChar_def isDigit_def)

lemma digitValue_digitChar: "d < 10 \<Longrightarrow> digitValue (digitChar d) = d"
  by (simp add: digitValue_def of_char_digitChar)

lemma digitChar_not_colon: "d < 10 \<Longrightarrow> digitChar d \<noteq> CHR '':''"
  using digit_cases[of d] by (auto simp: digitChar_def)

lemma digitChar_less: "a < 10 \<Longrightarrow> b < 10 \<Longrightarrow> digitChar a < digitChar b \<longleftrightarrow> a < b"
  by (simp add: less_char_def of_char_digitChar)

lemma digitChar_eq: "a < 10 \<Longrightarrow> b < 10 \<Longrightarrow> digitChar a = digitChar b \<longleftrightarrow> a = b"
  by (metis digitValue_digitChar)

lemma two_digits_nat:
  assumes "n < 100"
  shows "padStart2 (stringOfNat n) = [digitChar (n div 10), digitChar (n mod 10)]"
proof (cases "n < 10")
  case True
  then show ?thesis by (simp add: stringOfNat.simps padStart2_def digitChar_def)
next
  case False
  then have "n div 10 < 10" using assms by simp
  then show ?thesis using False by (simp add: stringOfNat.simps[of n] stringOfNat.simps[of "n div 10"] padStart2_def)
qed

lemma two_digits_int:
  assumes "0 \<le> i" "i < 100"
  shows "padStart2 (stringOfInt i) = [digitChar (nat i div 10), digitChar (nat i mod 10)]"
  using assms by (simp add: stringOfInt_def two_digits_nat)

lemma jsNumber_two_digits:
  assumes "a < 10" "b < 10"
  shows "jsNumber [digitChar a, digitChar b] = Some (int (10 * a + b))"
proof -
  have d: "list_all isDigit [digitChar a, digitChar b]" using assms by (simp add: isDigit_digitChar)
  have v: "digitsValue [digitChar a, digitChar b] = 10 * a + b"
    using assms by (simp add: digitsValue_def digitValue_digitChar)
  have "10 * a + b < 2 ^ 53" using assms by simp
  then show ?thesis using jsNumber_digits[OF d] v by simp
qed

lemma splitColon_clock:
  assumes "a \<noteq> CHR '':''" "b \<noteq> CHR '':''" "c \<noteq> CHR '':''" "d \<noteq> CHR '':''"
  shows "splitColon [a, b, CHR '':'', c, d] = [[a, b], [c, d]]"
  using assms by simp

lemma below_hundred: "(n::nat) < 100 \<Longrightarrow> n div 10 < 10 \<and> n mod 10 < 10"
  by simp

lemma clock_digits:
  assumes "0 \<le> m" "m < 6000"
  shows "clockText m =
    [digitChar (nat (m div 60) div 10), digitChar (nat (m div 60) mod 10), CHR '':'',
     digitChar (nat (m mod 60) div 10), digitChar (nat (m mod 60) mod 10)]"
proof -
  have h: "0 \<le> m div 60" "m div 60 < 100" using assms by auto
  have mi: "0 \<le> m mod 60" "m mod 60 < 100" using assms by auto
  show ?thesis by (simp add: clockText_def two_digits_int[OF h] two_digits_int[OF mi])
qed

lemma addMinutes_clock:
  assumes "0 \<le> m" "m < 6000" "0 \<le> m + k"
  shows "addMinutesHHMM (clockText m) k = clockText (m + k)"
proof -
  let ?h = "nat (m div 60)" and ?mi = "nat (m mod 60)"
  have "?h < 100" "?mi < 100" using assms by auto
  then have hb: "?h div 10 < 10" "?h mod 10 < 10" and mb: "?mi div 10 < 10" "?mi mod 10 < 10"
    using below_hundred by blast+
  have sp: "splitColon (clockText m) =
      [[digitChar (?h div 10), digitChar (?h mod 10)], [digitChar (?mi div 10), digitChar (?mi mod 10)]]"
    unfolding clock_digits[OF assms(1,2)]
    by (rule splitColon_clock) (simp_all add: digitChar_not_colon hb mb)
  have nh: "jsNumber [digitChar (?h div 10), digitChar (?h mod 10)] = Some (m div 60)"
    using assms by (simp add: jsNumber_two_digits[OF hb])
  have nm: "jsNumber [digitChar (?mi div 10), digitChar (?mi mod 10)] = Some (m mod 60)"
    using assms by (simp add: jsNumber_two_digits[OF mb])
  have tot: "m div 60 * 60 + m mod 60 + k = m + k" by simp
  show ?thesis
    unfolding addMinutesHHMM_def sp using assms(3)
    by (simp add: nh nm Let_def tot jsRem_def clockText_def)
qed

lemma lex10:
  fixes q r q' r' :: nat
  shows "r < 10 \<Longrightarrow> r' < 10 \<Longrightarrow> (q < q' \<or> q = q' \<and> r < r') \<longleftrightarrow> 10 * q + r < 10 * q' + r'"
  by arith

lemma lex60:
  fixes q r q' r' :: int
  shows "0 \<le> r \<Longrightarrow> r < 60 \<Longrightarrow> 0 \<le> r' \<Longrightarrow> r' < 60 \<Longrightarrow>
    (q < q' \<or> q = q' \<and> r < r') \<longleftrightarrow> 60 * q + r < 60 * q' + r'"
  by arith

lemma pair_order:
  fixes x y :: nat
  shows "(x div 10 < y div 10 \<or> x div 10 = y div 10 \<and> x mod 10 < y mod 10) \<longleftrightarrow> x < y"
proof -
  have "(x div 10 < y div 10 \<or> x div 10 = y div 10 \<and> x mod 10 < y mod 10)
      \<longleftrightarrow> 10 * (x div 10) + x mod 10 < 10 * (y div 10) + y mod 10"
    by (rule lex10) simp_all
  then show ?thesis by simp
qed

lemma pair_eq:
  fixes x y :: nat
  shows "(x div 10 = y div 10 \<and> x mod 10 = y mod 10) \<longleftrightarrow> x = y"
  by (metis div_mult_mod_eq)

lemma nat_lex:
  fixes p q r s :: int
  assumes "0 \<le> p" "0 \<le> q" "0 \<le> r" "0 \<le> s"
  shows "(nat p < nat q \<or> nat p = nat q \<and> nat r < nat s) \<longleftrightarrow> (p < q \<or> p = q \<and> r < s)"
  using assms by auto

lemma clock_order:
  fixes a b :: int
  shows "(a div 60 < b div 60 \<or> a div 60 = b div 60 \<and> a mod 60 < b mod 60) \<longleftrightarrow> a < b"
proof -
  have "(a div 60 < b div 60 \<or> a div 60 = b div 60 \<and> a mod 60 < b mod 60)
      \<longleftrightarrow> 60 * (a div 60) + a mod 60 < 60 * (b div 60) + b mod 60"
    by (rule lex60) simp_all
  then show ?thesis by simp
qed

lemma clock_less:
  assumes "0 \<le> a" "a < 6000" "0 \<le> b" "b < 6000"
  shows "clockText a < clockText b \<longleftrightarrow> a < b"
proof -
  let ?ha = "nat (a div 60)" and ?ma = "nat (a mod 60)"
  let ?hb = "nat (b div 60)" and ?mb = "nat (b mod 60)"
  have ba: "?ha < 100" "?ma < 100" using assms by auto
  have bb: "?hb < 100" "?mb < 100" using assms by auto
  have d: "?ha div 10 < 10" "?ha mod 10 < 10" "?ma div 10 < 10" "?ma mod 10 < 10"
    "?hb div 10 < 10" "?hb mod 10 < 10" "?mb div 10 < 10" "?mb mod 10 < 10"
    using ba bb below_hundred by blast+
  have "clockText a < clockText b \<longleftrightarrow>
     (?ha div 10 < ?hb div 10 \<or> ?ha div 10 = ?hb div 10 \<and>
       (?ha mod 10 < ?hb mod 10 \<or> ?ha mod 10 = ?hb mod 10 \<and>
         (?ma div 10 < ?mb div 10 \<or> ?ma div 10 = ?mb div 10 \<and> ?ma mod 10 < ?mb mod 10)))"
    unfolding clock_digits[OF assms(1,2)] clock_digits[OF assms(3,4)]
    by (simp add: digitChar_less digitChar_eq d)
  also have "\<dots> \<longleftrightarrow> (?ha < ?hb \<or> ?ha = ?hb \<and> ?ma < ?mb)"
    using pair_order[of ?ha ?hb] pair_order[of ?ma ?mb] pair_eq[of ?ha ?hb] by blast
  also have "\<dots> \<longleftrightarrow> (a div 60 < b div 60 \<or> a div 60 = b div 60 \<and> a mod 60 < b mod 60)"
  proof -
    have "0 \<le> a div 60" "0 \<le> b div 60" "0 \<le> a mod 60" "0 \<le> b mod 60"
      using assms by simp_all
    then show ?thesis by (rule nat_lex)
  qed
  also have "\<dots> \<longleftrightarrow> a < b" by (rule clock_order)
  finally show ?thesis .
qed

lemma clock_inj:
  assumes "0 \<le> a" "a < 6000" "0 \<le> b" "b < 6000" "clockText a = clockText b"
  shows "a = b"
  using clock_less[OF assms(1-4)] clock_less[OF assms(3,4,1,2)] assms(5) by force

lemma clock_le:
  assumes "0 \<le> a" "a < 6000" "0 \<le> b" "b < 6000"
  shows "clockText a \<le> clockText b \<longleftrightarrow> a \<le> b"
  using clock_less[OF assms(3,4,1,2)] by (auto simp: not_less[symmetric])

lemma toHHMM_renderTime:
  assumes "0 \<le> t" "t < 360000"
  shows "toHHMM (renderTime t) = clockText (t div 60)"
proof -
  let ?a = "nat t"
  have h: "?a div 3600 < 100" using assms by auto
  have m: "?a div 60 mod 60 < 100" by (simp add: less_trans[OF mod_less_divisor])
  have c: "0 \<le> t div 60" "t div 60 < 6000" using assms by auto
  have e1: "nat (t div 60 div 60) = ?a div 3600"
    using assms by (simp add: nat_div_distrib div_mult2_eq[symmetric])
  have e2: "nat (t div 60 mod 60) = ?a div 60 mod 60"
    using assms by (simp add: nat_div_distrib nat_mod_distrib)
  show ?thesis
    using assms
    by (simp add: renderTime_def toHHMM_def Let_def two_digits_nat[OF h] two_digits_nat[OF m]
          clock_digits[OF c] e1 e2)
qed

lemma slotStarts_bounds:
  "c \<in> set (slotStarts t k e) \<Longrightarrow> t \<le> c \<and> c + k \<le> e"
proof (induction t k e rule: slotStarts.induct)
  case (1 t k e)
  show ?case
  proof (cases "0 < k \<and> t + k \<le> e")
    case True
    from "1.prems" True have "c = t \<or> c \<in> set (slotStarts (t + k) k e)"
      by (simp add: slotStarts.simps[of t k e])
    then show ?thesis using "1.IH"[OF True] True by auto
  next
    case False
    then show ?thesis using "1.prems" by (simp add: slotStarts.simps[of t k e])
  qed
qed

lemma slotStarts_members:
  assumes "0 < k"
  shows "c \<in> set (slotStarts t k e) \<longleftrightarrow> (\<exists>i::nat. c = t + int i * k) \<and> c + k \<le> e"
  using assms
proof (induction t k e rule: slotStarts.induct)
  case (1 t k e)
  show ?case
  proof (cases "0 < k \<and> t + k \<le> e")
    case True
    have "c \<in> set (slotStarts t k e) \<longleftrightarrow> c = t \<or> c \<in> set (slotStarts (t + k) k e)"
      using True by (simp add: slotStarts.simps[of t k e])
    also have "\<dots> \<longleftrightarrow> c = t \<or> ((\<exists>i::nat. c = t + k + int i * k) \<and> c + k \<le> e)"
      using "1.IH"[OF True "1.prems"] by simp
    also have "\<dots> \<longleftrightarrow> (\<exists>i::nat. c = t + int i * k) \<and> c + k \<le> e"
    proof
      assume "c = t \<or> ((\<exists>i::nat. c = t + k + int i * k) \<and> c + k \<le> e)"
      then show "(\<exists>i::nat. c = t + int i * k) \<and> c + k \<le> e"
      proof
        assume ct: "c = t"
        then have "\<exists>i::nat. c = t + int i * k" by (intro exI[of _ 0]) simp
        moreover have "c + k \<le> e" using True ct by simp
        ultimately show ?thesis by blast
      next
        assume a: "(\<exists>i::nat. c = t + k + int i * k) \<and> c + k \<le> e"
        then obtain i :: nat where "c = t + k + int i * k" by blast
        then have "c = t + int (Suc i) * k" by (simp add: algebra_simps)
        then show ?thesis using a by blast
      qed
    next
      assume a: "(\<exists>i::nat. c = t + int i * k) \<and> c + k \<le> e"
      then obtain i :: nat where i: "c = t + int i * k" by blast
      show "c = t \<or> ((\<exists>i::nat. c = t + k + int i * k) \<and> c + k \<le> e)"
      proof (cases i)
        case 0
        then show ?thesis using i by simp
      next
        case (Suc j)
        then have "c = t + k + int j * k" using i by (simp add: algebra_simps)
        then show ?thesis using a by blast
      qed
    qed
    finally show ?thesis .
  next
    case False
    have "\<not> ((\<exists>i::nat. c = t + int i * k) \<and> c + k \<le> e)"
    proof
      assume a: "(\<exists>i::nat. c = t + int i * k) \<and> c + k \<le> e"
      then obtain i :: nat where i: "c = t + int i * k" by blast
      have "0 \<le> int i * k" using "1.prems" by simp
      then have "t + k \<le> e" using a i by linarith
      then show False using False "1.prems" by simp
    qed
    moreover have "slotStarts t k e = []" using False by (simp add: slotStarts.simps[of t k e])
    ultimately show ?thesis by simp
  qed
qed

lemma candidateLoop_clock:
  assumes "0 < k" "0 \<le> t" "t + k < 6000" "0 \<le> e" "e + k < 6000"
  shows "candidateLoop (clockText t) k (clockText e) acc = Some (acc @ map clockText (slotStarts t k e))"
  using assms
proof (induction t k e arbitrary: acc rule: slotStarts.induct)
  case (1 t k e)
  have tb: "t < 6000" "e < 6000" "0 \<le> t + k" using "1.prems" by auto
  have am: "addMinutesHHMM (clockText t) k = clockText (t + k)"
    by (rule addMinutes_clock[OF "1.prems"(2) tb(1) tb(3)])
  have le: "clockText (t + k) \<le> clockText e \<longleftrightarrow> t + k \<le> e"
    by (rule clock_le[OF tb(3) "1.prems"(3) "1.prems"(4) tb(2)])
  show ?case
  proof (cases "t + k \<le> e")
    case True
    then have c: "0 < k \<and> t + k \<le> e" using "1.prems" by simp
    have n: "t + k + k < 6000" using True "1.prems" by linarith
    have "candidateLoop (clockText t) k (clockText e) acc
        = candidateLoop (clockText (t + k)) k (clockText e) (acc @ [clockText t])"
      by (subst candidateLoop.simps) (simp add: am le True)
    also have "\<dots> = Some ((acc @ [clockText t]) @ map clockText (slotStarts (t + k) k e))"
      by (rule "1.IH"[OF c "1.prems"(1) tb(3) n "1.prems"(4) "1.prems"(5)])
    also have "\<dots> = Some (acc @ map clockText (slotStarts t k e))"
      using c by (simp add: slotStarts.simps[of t k e])
    finally show ?thesis .
  next
    case False
    have "candidateLoop (clockText t) k (clockText e) acc = Some acc"
      by (subst candidateLoop.simps) (simp add: am le False)
    then show ?thesis using False by (simp add: slotStarts.simps[of t k e])
  qed
qed

lemma renderTime_nonempty: "renderTime t \<noteq> []"
  by (simp add: renderTime_def Let_def)

lemma existingInterval_clock:
  assumes "0 \<le> appt_time r" "appt_time r < 360000" "0 \<le> appt_duration r"
  shows "existingInterval r =
           (clockText (appt_time r div 60), clockText (appt_time r div 60 + appt_duration r))"
proof -
  have a: "0 \<le> appt_time r div 60" "appt_time r div 60 < 6000" using assms by auto
  have b: "0 \<le> appt_time r div 60 + appt_duration r" using a assms by simp
  show ?thesis
    by (simp add: existingInterval_def toHHMM_renderTime[OF assms(1,2)] addMinutes_clock[OF a b])
qed

lemma isFree_clock:
  assumes "0 < k" "0 \<le> c" "c + k < 6000" "rowsInRange db d"
  shows "isFree k (map existingInterval (filter (\<lambda>r. appt_date r = d) (appointments db))) (clockText c)
           \<longleftrightarrow> slotIsFree db d k c"
proof -
  have cb: "c < 6000" "0 \<le> c + k" using assms by auto
  have am: "addMinutesHHMM (clockText c) k = clockText (c + k)"
    by (rule addMinutes_clock[OF assms(2) cb])
  have ov: "overlaps (clockText c) (clockText (c + k)) (fst (existingInterval r)) (snd (existingInterval r))
              \<longleftrightarrow> c < appt_time r div 60 + appt_duration r \<and> c + k > appt_time r div 60"
    if "r \<in> set (appointments db)" "appt_date r = d" for r
  proof -
    from assms(4) that have r: "0 \<le> appt_time r" "appt_time r < 360000" "0 \<le> appt_duration r"
      "appt_time r div 60 + appt_duration r < 6000" by (auto simp: rowsInRange_def)
    have a: "0 \<le> appt_time r div 60" "appt_time r div 60 < 6000" using r by auto
    have b: "0 \<le> appt_time r div 60 + appt_duration r" using a r by simp
    show ?thesis
      unfolding existingInterval_clock[OF r(1-3)] fst_conv snd_conv overlaps_def
      by (simp add: clock_less[OF assms(2) cb(1) b r(4)] clock_less[OF a cb(2) assms(3)])
  qed
  show ?thesis
    unfolding isFree_def slotIsFree_def am list_ex_iff using ov by auto
qed

lemma handleWithWindow_in_range:
  assumes "sqlDate date = Some d" and "\<not> isToday rt date"
    and "0 \<le> ts" "ts < 360000" "0 \<le> te" "te < 360000"
    and "0 < k" "ts div 60 + k < 6000" "te div 60 + k < 6000"
    and "rowsInRange db d"
  shows "handleWithWindow rt db date k (Some (renderTime ts)) (Some (renderTime te)) meta =
           Some (200, Slots date k
                   (map clockText (filter (slotIsFree db d k) (slotStarts (ts div 60) k (te div 60)))) meta)"
proof -
  let ?S = "slotStarts (ts div 60) k (te div 60)"
  have s0: "0 \<le> ts div 60" "0 \<le> te div 60" using assms by auto
  have loop: "candidateLoop (clockText (ts div 60)) k (clockText (te div 60)) [] = Some (map clockText ?S)"
    using candidateLoop_clock[OF assms(7) s0(1) assms(8) s0(2) assms(9), of "[]"] by simp
  have ao: "appointmentsOn db date = Inr (filter (\<lambda>r. appt_date r = d) (appointments db))"
    by (simp add: appointmentsOn_def assms(1))
  have fr: "filter (isFree k (map existingInterval (filter (\<lambda>r. appt_date r = d) (appointments db))))
              (map clockText ?S) = map clockText (filter (slotIsFree db d k) ?S)"
  proof -
    have "\<And>c. c \<in> set ?S \<Longrightarrow>
        isFree k (map existingInterval (filter (\<lambda>r. appt_date r = d) (appointments db))) (clockText c)
          = slotIsFree db d k c"
    proof -
      fix c assume "c \<in> set ?S"
      then have "ts div 60 \<le> c" "c + k \<le> te div 60" using slotStarts_bounds by blast+
      then have "0 \<le> c" "c + k < 6000" using s0 assms(9) assms(7) by linarith+
      then show "isFree k (map existingInterval (filter (\<lambda>r. appt_date r = d) (appointments db))) (clockText c)
          = slotIsFree db d k c"
        using isFree_clock[OF assms(7) _ _ assms(10)] by blast
    qed
    then show ?thesis by (simp add: filter_map comp_def cong: filter_cong)
  qed
  show ?thesis
    unfolding handleWithWindow_def
    by (simp add: orNull_def renderTime_nonempty toHHMM_renderTime[OF assms(3,4)]
          toHHMM_renderTime[OF assms(5,6)] loop assms(2) ao fr Let_def)
qed

text \<open>
  Within the hours 0 to 99 the route does what the specification says: for a date that
  is not the current day, without an override, whose weekday has a window, it answers
  with the candidate starts of the window that are free, in order.
\<close>

lemma availability_in_range:
  assumes "q_date q = Some date" and "sqlDate date = Some d"
    and "holidayQuery db date = Inr []"
    and "businessHoursQuery db (jsWeekdayMonday1to7 rt date) = Inr [row]"
    and "bh_start_time row = Some ts" and "bh_end_time row = Some te"
    and "\<not> isToday rt date"
    and "0 \<le> ts" "ts < 360000" "0 \<le> te" "te < 360000"
    and "ts div 60 + slotMinutesOf q < 6000" "te div 60 + slotMinutesOf q < 6000"
    and "rowsInRange db d"
  shows "getAvailability rt db q =
           Some (200, Slots date (slotMinutesOf q)
                   (map clockText (filter (slotIsFree db d (slotMinutesOf q))
                      (slotStarts (ts div 60) (slotMinutesOf q) (te div 60)))) None)"
proof -
  have iso: "isISODate (q_date q)"
    using assms(1,2) by (simp add: isISODate_def sqlDate_def split: if_splits)
  have k: "0 < slotMinutesOf q" by (simp add: slotMinutesOf_def)
  have "getAvailability rt db q =
          handleWithWindow rt db date (slotMinutesOf q) (Some (renderTime ts)) (Some (renderTime te)) None"
    using iso assms(1,3,4,5,6) by (simp add: getAvailability_def Let_def)
  then show ?thesis
    using handleWithWindow_in_range[OF assms(2) assms(7) assms(8-11) k assms(12,13,14)] by simp
qed

text \<open>
  In particular for a window within a day, slots of at most a day, and appointments of
  30 or 60 minutes that start within a day.
\<close>

lemma availability_times_of_day:
  assumes "q_date q = Some date" and "sqlDate date = Some d"
    and "holidayQuery db date = Inr []"
    and "businessHoursQuery db (jsWeekdayMonday1to7 rt date) = Inr [row]"
    and "bh_start_time row = Some ts" and "bh_end_time row = Some te"
    and "\<not> isToday rt date"
    and "0 \<le> ts" "ts < 86400" "0 \<le> te" "te < 86400"
    and "slotMinutesOf q \<le> 1440"
    and "\<forall>r \<in> set (appointments db). 0 \<le> appt_time r \<and> appt_time r < 86400
           \<and> (appt_duration r = 30 \<or> appt_duration r = 60)"
  shows "getAvailability rt db q =
           Some (200, Slots date (slotMinutesOf q)
                   (map clockText (filter (slotIsFree db d (slotMinutesOf q))
                      (slotStarts (ts div 60) (slotMinutesOf q) (te div 60)))) None)"
proof -
  have a: "ts < 360000" "te < 360000" using assms(9,11) by simp_all
  have b: "ts div 60 + slotMinutesOf q < 6000" "te div 60 + slotMinutesOf q < 6000"
    using assms(9,11,12) by linarith+
  have c: "rowsInRange db d"
    unfolding rowsInRange_def
  proof (intro ballI impI)
    fix r assume "r \<in> set (appointments db)" "appt_date r = d"
    then have r: "0 \<le> appt_time r" "appt_time r < 86400" "appt_duration r = 30 \<or> appt_duration r = 60"
      using assms(13) by blast+
    then show "0 \<le> appt_time r \<and> appt_time r < 360000 \<and> 0 \<le> appt_duration r
        \<and> appt_time r div 60 + appt_duration r < 6000"
      by auto
  qed
  show ?thesis
    by (rule availability_in_range[OF assms(1-7) assms(8) a(1) assms(10) a(2) b c])
qed

text \<open>
  The two examples of the specification: the sixteen half-hour starts of an empty Monday
  from 09:00 to 17:00, and the same day with an appointment at 10:00 for 60 minutes,
  which takes 10:00 and 10:30 away and leaves 09:30 and 11:00.
\<close>

lemma availability_examples:
  "getAvailability (referenceRuntime newYear2030) storeWithoutAppointments halfHourQuery
     = Some (200, Slots ''2030-01-07'' 30
         [''09:00'', ''09:30'', ''10:00'', ''10:30'', ''11:00'', ''11:30'', ''12:00'', ''12:30'',
          ''13:00'', ''13:30'', ''14:00'', ''14:30'', ''15:00'', ''15:30'', ''16:00'', ''16:30''] None)"
  "getAvailability (referenceRuntime newYear2030) storeWithRows halfHourQuery
     = Some (200, Slots ''2030-01-07'' 30
         [''09:00'', ''09:30'', ''11:00'', ''11:30'', ''12:00'', ''12:30'',
          ''13:00'', ''13:30'', ''14:00'', ''14:30'', ''15:00'', ''15:30'', ''16:00'', ''16:30''] None)"
  by code_simp+

text \<open>
  Beyond 99 hours the order of the texts is no longer the order of the minutes. Every
  clock text comes before \<^verbatim>\<open>99:59\<close> as a string, so with a window that ends at
  99:59 the test of the loop never fails: the loop does not end and the route never
  answers.
\<close>

lemma digitsValue_snoc: "digitsValue (xs @ [c]) = 10 * digitsValue xs + digitValue c"
  by (simp add: digitsValue_def)

lemma stringOfNat_digits: "list_all isDigit (stringOfNat n)"
proof (induction n rule: stringOfNat.induct)
  case (1 n)
  show ?case
  proof (cases "n < 10")
    case True
    then show ?thesis by (simp add: stringOfNat.simps[of n] isDigit_digitChar)
  next
    case False
    then have "list_all isDigit (stringOfNat (n div 10))" using 1 by simp
    then show ?thesis using False by (simp add: stringOfNat.simps[of n] isDigit_digitChar)
  qed
qed

lemma stringOfNat_value: "digitsValue (stringOfNat n) = n"
proof (induction n rule: stringOfNat.induct)
  case (1 n)
  show ?case
  proof (cases "n < 10")
    case True
    then show ?thesis by (simp add: stringOfNat.simps[of n] digitsValue_def digitValue_digitChar)
  next
    case False
    then have "digitsValue (stringOfNat (n div 10)) = n div 10" using 1 by simp
    then show ?thesis using False
      by (simp add: stringOfNat.simps[of n] digitsValue_snoc digitValue_digitChar)
  qed
qed

lemma stringOfNat_length: "10 \<le> n \<Longrightarrow> 2 \<le> length (stringOfNat n)" "100 \<le> n \<Longrightarrow> 3 \<le> length (stringOfNat n)"
proof -
  have ne: "stringOfNat k \<noteq> []" for k
    by (cases "k < 10") (simp_all add: stringOfNat.simps[of k])
  have two: "2 \<le> length (stringOfNat k)" if "10 \<le> k" for k
    using that ne[of "k div 10"] by (simp add: stringOfNat.simps[of k] Suc_le_eq)
  show "10 \<le> n \<Longrightarrow> 2 \<le> length (stringOfNat n)" by (rule two)
  show "100 \<le> n \<Longrightarrow> 3 \<le> length (stringOfNat n)"
  proof -
    assume h: "100 \<le> n"
    then have "10 \<le> n div 10" by simp
    from two[OF this] show ?thesis using h by (simp add: stringOfNat.simps[of n])
  qed
qed

lemma digitsValue_zeros: "digitsValue (replicate j CHR ''0'' @ s) = digitsValue s"
  by (induction j) (simp_all add: digitsValue_def digitValue_def)

lemma padded_digits: "list_all isDigit (padStart2 (stringOfNat n))"
proof -
  have z: "isDigit CHR ''0''" by (simp add: isDigit_def)
  then have "list_all isDigit (replicate j CHR ''0'')" for j by (induction j) simp_all
  then show ?thesis using stringOfNat_digits[of n] by (simp add: padStart2_def)
qed

lemma jsNumber_padded:
  "jsNumber (padStart2 (stringOfNat n)) = map_option int (integerNumber n 0)"
proof -
  have d: "list_all isDigit (padStart2 (stringOfNat n))" by (rule padded_digits)
  have ne: "padStart2 (stringOfNat n) \<noteq> []"
    by (cases "n < 10") (simp_all add: stringOfNat.simps[of n] padStart2_def)
  have v: "digitsValue (padStart2 (stringOfNat n)) = n"
    by (simp add: padStart2_def digitsValue_zeros stringOfNat_value)
  show ?thesis using jsNumber_digits_rounded[OF d ne] v by simp
qed

lemma isDigit_not_colon: "isDigit c \<Longrightarrow> c \<noteq> CHR '':''"
  by (auto simp: isDigit_def)

lemma splitColon_no_colon: "CHR '':'' \<notin> set ys \<Longrightarrow> splitColon ys = [ys]"
  by (induction ys) auto

lemma splitColon_once:
  "CHR '':'' \<notin> set xs \<Longrightarrow> CHR '':'' \<notin> set ys \<Longrightarrow> splitColon (xs @ CHR '':'' # ys) = [xs, ys]"
  by (induction xs) (auto simp: splitColon_no_colon)

lemma padded_no_colon: "CHR '':'' \<notin> set (padStart2 (stringOfNat n))"
  using padded_digits[of n] isDigit_not_colon by (auto simp: list_all_iff)

text \<open>
  The hours of a clock text are read as the nearest double, and the minutes, below 60,
  as they are.
\<close>

lemma addMinutes_clock_rounded:
  assumes "0 \<le> m" "integerNumber (nat (m div 60)) 0 = Some h" "0 \<le> int h * 60 + m mod 60 + k"
  shows "addMinutesHHMM (clockText m) k = clockText (int h * 60 + m mod 60 + k)"
proof -
  have nn: "\<not> m div 60 < 0" "\<not> m mod 60 < 0" using assms(1) by simp_all
  have c: "clockText m = padStart2 (stringOfNat (nat (m div 60))) @ CHR '':'' # padStart2 (stringOfNat (nat (m mod 60)))"
    unfolding clockText_def stringOfInt_def using nn by simp
  have sp: "splitColon (clockText m) =
      [padStart2 (stringOfNat (nat (m div 60))), padStart2 (stringOfNat (nat (m mod 60)))]"
    unfolding c by (rule splitColon_once[OF padded_no_colon padded_no_colon])
  have "nat (m mod 60) < 2 ^ 53" using assms(1) by simp
  from integerNumber_exact[OF this]
  have mi: "jsNumber (padStart2 (stringOfNat (nat (m mod 60)))) = Some (m mod 60)"
    using assms(1) by (simp add: jsNumber_padded)
  have ho: "jsNumber (padStart2 (stringOfNat (nat (m div 60)))) = Some (int h)"
    by (simp add: jsNumber_padded assms(2))
  show ?thesis
    unfolding addMinutesHHMM_def sp using assms(3)
    by (simp add: ho mi Let_def jsRem_def clockText_def)
qed

lemma addMinutes_clock_any:
  assumes "0 \<le> m" "0 \<le> m + k" "m div 60 < 2 ^ 53"
  shows "addMinutesHHMM (clockText m) k = clockText (m + k)"
proof -
  have "nat (m div 60) < 2 ^ 53" using assms(1,3) by simp
  from integerNumber_exact[OF this]
  have h: "integerNumber (nat (m div 60)) 0 = Some (nat (m div 60))" .
  have "0 \<le> m div 60" using assms(1) by (simp add: pos_imp_zdiv_nonneg_iff)
  then have tot: "int (nat (m div 60)) * 60 + m mod 60 + k = m + k" by simp
  have "0 \<le> int (nat (m div 60)) * 60 + m mod 60 + k" using assms(2) by (simp only: tot)
  from addMinutes_clock_rounded[OF assms(1) h this] show ?thesis by (simp only: tot)
qed

lemma isDigit_order: "isDigit c \<Longrightarrow> c < CHR '':'' \<and> (c < CHR ''9'' \<or> c = CHR ''9'')"
  by (auto simp: isDigit_def)

lemma long_hours_before_9959:
  assumes "list_all isDigit s" "3 \<le> length s"
  shows "s @ rest < ''99:59''"
proof -
  from assms(2) obtain a b c r where s: "s = a # b # c # r"
    by (cases s; cases "tl s"; cases "tl (tl s)") auto
  have "isDigit a" "isDigit b" "isDigit c" using assms(1) s by simp_all
  then show ?thesis unfolding s using isDigit_order by auto
qed

lemma clock_before_9959:
  assumes "0 \<le> m"
  shows "clockText m \<le> ''99:59''"
proof (cases "m < 6000")
  case True
  have e: "clockText 5999 = ''99:59''" by code_simp
  have "clockText m \<le> clockText 5999"
    using clock_le[OF assms True, of 5999] True by simp
  then show ?thesis by (simp only: e)
next
  case False
  then have h: "100 \<le> nat (m div 60)" by simp
  have "clockText m = stringOfNat (nat (m div 60)) @ (CHR '':'' # padStart2 (stringOfInt (m mod 60)))"
    using assms stringOfNat_length(1)[of "nat (m div 60)"] h
    by (simp add: clockText_def stringOfInt_def padStart2_def)
  also have "\<dots> < ''99:59''"
    by (rule long_hours_before_9959[OF stringOfNat_digits stringOfNat_length(2)[OF h]])
  finally show ?thesis by simp
qed

text \<open>
  The hours of the texts of the loop grow up to \<open>2 ^ 53\<close>, where the runtime reads the
  text of \<open>2 ^ 53 + 1\<close> hours as \<open>2 ^ 53\<close>, and stay there.
\<close>

lemma clock_step:
  assumes "0 \<le> m" "m div 60 \<le> 2 ^ 53 + 1" "0 \<le> k" "k \<le> 60"
  shows "\<exists>j. 0 \<le> j \<and> j div 60 \<le> 2 ^ 53 + 1 \<and> addMinutesHHMM (clockText m) k = clockText j"
proof -
  have "\<exists>h. integerNumber (nat (m div 60)) 0 = Some h \<and> int h \<le> 2 ^ 53"
  proof (cases "m div 60 < 2 ^ 53")
    case True
    then have "nat (m div 60) < 2 ^ 53" using assms(1) by simp
    from integerNumber_exact[OF this] show ?thesis using True by simp
  next
    case False
    then have "m div 60 = 2 ^ 53 \<or> m div 60 = 2 ^ 53 + 1" using assms(2) by linarith
    then have "nat (m div 60) = 2 ^ 53 \<or> nat (m div 60) = 2 ^ 53 + 1" by auto
    then show ?thesis using integerNumber_top by auto
  qed
  then obtain h where h: "integerNumber (nat (m div 60)) 0 = Some h" "int h \<le> 2 ^ 53" by blast
  let ?j = "int h * 60 + m mod 60 + k"
  have 0: "0 \<le> ?j" using assms(1,3) by simp
  have "m mod 60 < 60" by simp
  then have "?j < (int h + 2) * 60" using assms(4) by simp
  then have "?j div 60 < int h + 2" by simp
  then have 1: "?j div 60 \<le> 2 ^ 53 + 1" using h(2) by simp
  from addMinutes_clock_rounded[OF assms(1) h(1) 0] 0 1 show ?thesis by blast
qed

lemma candidateLoop_returns_only_outside:
  assumes "candidateLoop t k e acc = Some y"
  shows "\<not> (0 \<le> k \<and> k \<le> 60 \<and> e = ''99:59'' \<and> (\<exists>m\<ge>0. m div 60 \<le> 2 ^ 53 + 1 \<and> t = clockText m))"
proof (rule candidateLoop.raw_induct
    [where P = "\<lambda>t k e acc y. \<not> (0 \<le> k \<and> k \<le> 60 \<and> e = ''99:59''
                   \<and> (\<exists>m\<ge>0. m div 60 \<le> 2 ^ 53 + 1 \<and> t = clockText m))", OF _ assms])
  fix f :: "string \<Rightarrow> int \<Rightarrow> string \<Rightarrow> string list \<Rightarrow> string list option"
  fix t k e acc y
  assume ih: "\<And>t k e acc y. f t k e acc = Some y \<Longrightarrow>
                \<not> (0 \<le> k \<and> k \<le> 60 \<and> e = ''99:59''
                   \<and> (\<exists>m\<ge>0. m div 60 \<le> 2 ^ 53 + 1 \<and> t = clockText m))"
    and eq: "(if addMinutesHHMM t k \<le> e then f (addMinutesHHMM t k) k e (acc @ [t]) else Some acc) = Some y"
  show "\<not> (0 \<le> k \<and> k \<le> 60 \<and> e = ''99:59''
            \<and> (\<exists>m\<ge>0. m div 60 \<le> 2 ^ 53 + 1 \<and> t = clockText m))"
  proof
    assume a: "0 \<le> k \<and> k \<le> 60 \<and> e = ''99:59''
                 \<and> (\<exists>m\<ge>0. m div 60 \<le> 2 ^ 53 + 1 \<and> t = clockText m)"
    then obtain m where m: "0 \<le> m" "m div 60 \<le> 2 ^ 53 + 1" "t = clockText m" by blast
    from clock_step[OF m(1,2)] a
    obtain j where j: "0 \<le> j" "j div 60 \<le> 2 ^ 53 + 1" "addMinutesHHMM t k = clockText j"
      unfolding m(3) by blast
    have le: "clockText j \<le> e" using clock_before_9959[OF j(1)] a by simp
    have "f (clockText j) k e (acc @ [t]) = Some y"
      using eq unfolding j(3) using le by simp
    from ih[OF this]
    have "\<not> (0 \<le> k \<and> k \<le> 60 \<and> e = ''99:59''
               \<and> (\<exists>i\<ge>0. i div 60 \<le> 2 ^ 53 + 1 \<and> clockText j = clockText i))" .
    moreover have "\<exists>i\<ge>0. i div 60 \<le> 2 ^ 53 + 1 \<and> clockText j = clockText i" using j(1,2) by blast
    ultimately show False using a by blast
  qed
qed

lemma candidateLoop_never_ends:
  "candidateLoop ''09:00'' 30 ''99:59'' [] = None"
proof (cases "candidateLoop ''09:00'' 30 ''99:59'' []")
  case None
  then show ?thesis .
next
  case (Some y)
  have "''09:00'' = clockText 540" by code_simp
  then have "(0::int) \<le> 30 \<and> (30::int) \<le> 60 \<and> ''99:59'' = ''99:59''
      \<and> (\<exists>m\<ge>0. m div 60 \<le> 2 ^ 53 + 1 \<and> ''09:00'' = clockText m)"
    by (intro conjI exI[of _ 540]) simp_all
  then show ?thesis using candidateLoop_returns_only_outside[OF Some] by blast
qed

lemma handleWithWindow_never_answers:
  "handleWithWindow rt db date 30 (Some ''09:00:00'') (Some ''99:59:00'') meta = None"
proof -
  have a: "orNull (Some ''09:00:00'') \<noteq> None" "orNull (Some ''99:59:00'') \<noteq> None"
    by (simp_all add: orNull_def)
  have b: "toHHMM (the (Some ''09:00:00'')) = ''09:00''" "toHHMM (the (Some ''99:59:00'')) = ''99:59''"
    by (simp_all add: toHHMM_def)
  show ?thesis
    unfolding handleWithWindow_def Let_def b using a by (simp add: candidateLoop_never_ends)
qed

lemma availability_never_answers:
  "fst (putBusinessHours ''1''
          \<lparr>bb_is_open = True, bb_start_time = Some ''09:00'', bb_end_time = Some ''99:59''\<rparr>
          emptyStore) = (200, OkTrue)"
  "getAvailability (referenceRuntime newYear2030) longMonday halfHourQuery = None"
proof -
  let ?rt = "referenceRuntime newYear2030"
  let ?row = "\<lparr>bh_week_day = 1, bh_start_time = Some 32400, bh_end_time = Some 359940, bh_is_open = True\<rparr>"
  show "fst (putBusinessHours ''1''
          \<lparr>bb_is_open = True, bb_start_time = Some ''09:00'', bb_end_time = Some ''99:59''\<rparr>
          emptyStore) = (200, OkTrue)"
    by code_simp
  have i: "isISODate (q_date halfHourQuery)" by code_simp
  have s: "slotMinutesOf halfHourQuery = 30" by code_simp
  have d: "the (q_date halfHourQuery) = ''2030-01-07''" by code_simp
  have h: "holidayQuery longMonday ''2030-01-07'' = Inr []" by code_simp
  have w: "businessHoursQuery longMonday (jsWeekdayMonday1to7 ?rt ''2030-01-07'') = Inr [?row]"
    by code_simp
  have r: "map_option renderTime (bh_start_time ?row) = Some ''09:00:00''"
      "map_option renderTime (bh_end_time ?row) = Some ''99:59:00''"
    by code_simp+
  show "getAvailability ?rt longMonday halfHourQuery = None"
    unfolding getAvailability_def Let_def s d
    using i by (simp add: h w r[simplified] handleWithWindow_never_answers del: map_option_eq_Some)
qed

text \<open>
  Claim C2. The route is to offer exactly the candidate starts whose end does not exceed
  the end of the window and whose interval overlaps no appointment. With slots of 6000
  minutes on the Monday from 09:00 to 17:00 that has an appointment at 10:00, no
  candidate qualifies: the first one ends at 109:00 and overlaps the appointment. The
  route offers 09:00 all the same, because it compares the texts: as strings, 109:00
  comes before 17:00 and before 10:00.
\<close>

theorem availability_long_slot:
  "getAvailability (referenceRuntime newYear2030) storeWithRows longSlotQuery
     = Some (200, Slots ''2030-01-07'' 6000 [''09:00''] None)
   \<and> addMinutesHHMM ''09:00'' 6000 = ''109:00''
   \<and> ''109:00'' \<le> ''17:00''
   \<and> overlaps ''09:00'' ''109:00'' ''10:00'' ''11:00'' = False
   \<and> slotStarts 540 6000 1020 = []"
  by code_simp

end
